theory Spec2Isabelle
  imports Complex_Main
begin

section \<open>The JavaScript values the import routine computes with\<close>

text \<open>
  The bulk import of \<^verbatim>\<open>ProductManagementPage\<close> (\<^verbatim>\<open>handleFileImport\<close>) works on
  the untyped rows that the spreadsheet reader returns. A cell is a string, a number or
  a boolean; a column that the sheet does not have reads as \<^verbatim>\<open>undefined\<close>.

  The strings of the cells and of the catalog are sequences of 8-bit code units (the
  Latin-1 range of JavaScript strings); the strings that \<^verbatim>\<open>JSON.parse\<close> returns are
  sequences of 16-bit code units, since an escape can denote any of them.
  Numbers are rationals together with \<^verbatim>\<open>NaN\<close> and the two infinities. A decimal text
  is read with the range of binary64 (too large is infinite, too small is zero); the
  rounding to 53 bits within that range is not modelled.
\<close>

datatype number = NaN | Fin rat | PosInf | NegInf

datatype cell = Undefined | Null | Bool bool | Num number | Str string

type_synonym row = "string \<rightharpoonup> cell"

definition field :: "row \<Rightarrow> string \<Rightarrow> cell" where
  \<comment> \<open>\<^verbatim>\<open>row.Title\<close>, \<^verbatim>\<open>row['Image URL']\<close>: a missing property is \<^verbatim>\<open>undefined\<close>.\<close>
  "field r k = (case r k of None \<Rightarrow> Undefined | Some v \<Rightarrow> v)"

subsection \<open>Characters and strings\<close>

definition isWhiteSpace :: "char \<Rightarrow> bool" where
  \<comment> \<open>White space and line terminators, as \<^verbatim>\<open>trim\<close>, \<^verbatim>\<open>parseInt\<close> and \<^verbatim>\<open>parseFloat\<close> strip them.\<close>
  "isWhiteSpace c = (c \<in> {CHR 0x09, CHR 0x0A, CHR 0x0B, CHR 0x0C, CHR 0x0D, CHR 0x20, CHR 0xA0})"

definition trim :: "string \<Rightarrow> string" where
  "trim s = rev (dropWhile isWhiteSpace (rev (dropWhile isWhiteSpace s)))"

definition upperLetters :: "string" where
  "upperLetters = ''ABCDEFGHIJKLMNOPQRSTUVWXYZ'' @
     [CHR 0xC0, CHR 0xC1, CHR 0xC2, CHR 0xC3, CHR 0xC4, CHR 0xC5, CHR 0xC6, CHR 0xC7, CHR 0xC8,
      CHR 0xC9, CHR 0xCA, CHR 0xCB, CHR 0xCC, CHR 0xCD, CHR 0xCE, CHR 0xCF, CHR 0xD0, CHR 0xD1,
      CHR 0xD2, CHR 0xD3, CHR 0xD4, CHR 0xD5, CHR 0xD6, CHR 0xD8, CHR 0xD9, CHR 0xDA, CHR 0xDB,
      CHR 0xDC, CHR 0xDD, CHR 0xDE]"

definition lowerLetters :: "string" where
  "lowerLetters = ''abcdefghijklmnopqrstuvwxyz'' @
     [CHR 0xE0, CHR 0xE1, CHR 0xE2, CHR 0xE3, CHR 0xE4, CHR 0xE5, CHR 0xE6, CHR 0xE7, CHR 0xE8,
      CHR 0xE9, CHR 0xEA, CHR 0xEB, CHR 0xEC, CHR 0xED, CHR 0xEE, CHR 0xEF, CHR 0xF0, CHR 0xF1,
      CHR 0xF2, CHR 0xF3, CHR 0xF4, CHR 0xF5, CHR 0xF6, CHR 0xF8, CHR 0xF9, CHR 0xFA, CHR 0xFB,
      CHR 0xFC, CHR 0xFD, CHR 0xFE]"

definition lowerChar :: "char \<Rightarrow> char" where
  \<comment> \<open>The lower-case form of a letter of the Latin-1 range; any other character is unchanged.\<close>
  "lowerChar c = (case map_of (zip upperLetters lowerLetters) c of None \<Rightarrow> c | Some l \<Rightarrow> l)"

definition toLowerCase :: "string \<Rightarrow> string" where
  "toLowerCase s = map lowerChar s"

fun split_str :: "char \<Rightarrow> string \<Rightarrow> string list" where
  \<comment> \<open>\<^verbatim>\<open>s.split(',')\<close>: the empty string splits into one empty piece.\<close>
  "split_str sep [] = [[]]"
| "split_str sep (c # cs) =
     (if c = sep then [] # split_str sep cs
      else (case split_str sep cs of
              [] \<Rightarrow> [[c]]
            | w # ws \<Rightarrow> (c # w) # ws))"

fun join :: "string \<Rightarrow> string list \<Rightarrow> string" where
  \<comment> \<open>\<^verbatim>\<open>xs.join(sep)\<close>\<close>
  "join sep [] = []"
| "join sep [x] = x"
| "join sep (x # y # ys) = x @ sep @ join sep (y # ys)"

definition isDigit :: "char \<Rightarrow> bool" where
  "isDigit c = (48 \<le> (of_char c :: nat) \<and> (of_char c :: nat) \<le> 57)"

definition digitVal :: "char \<Rightarrow> nat" where
  "digitVal c = of_char c - 48"

definition digitsVal :: "string \<Rightarrow> nat" where
  "digitsVal ds = foldl (\<lambda>a c. 10 * a + digitVal c) 0 ds"

definition digitChar :: "nat \<Rightarrow> char" where
  "digitChar d = ''0123456789'' ! d"

fun showNat :: "nat \<Rightarrow> string" where
  "showNat n = (if n < 10 then [digitChar n] else showNat (n div 10) @ [digitChar (n mod 10)])"

declare showNat.simps [simp del]

subsection \<open>Numbers\<close>

fun fracDigits :: "nat \<Rightarrow> rat \<Rightarrow> string" where
  \<comment> \<open>The decimal places of a fraction in \<open>[0, 1)\<close>, at most \<open>k\<close> of them.\<close>
  "fracDigits 0 f = []"
| "fracDigits (Suc k) f =
     (if f = 0 then []
      else (let d = nat \<lfloor>f * 10\<rfloor> in digitChar d # fracDigits k (f * 10 - of_nat d)))"

definition showRat :: "rat \<Rightarrow> string" where
  "showRat r =
     (let a = \<bar>r\<bar>; ip = nat \<lfloor>a\<rfloor>; fr = a - of_nat ip
      in (if r < 0 then ''-'' else []) @ showNat ip @
         (if fr = 0 then [] else ''.'' @ fracDigits 20 fr))"

definition numberToString :: "number \<Rightarrow> string" where
  \<comment> \<open>\<^verbatim>\<open>String(n)\<close> and \<^verbatim>\<open>`${n}`\<close> for a number, in positional decimal notation
      (what JavaScript prints for magnitudes from \<open>1e-6\<close> up to \<open>1e21\<close>).\<close>
  "numberToString n =
     (case n of NaN \<Rightarrow> ''NaN'' | PosInf \<Rightarrow> ''Infinity'' | NegInf \<Rightarrow> ''-Infinity''
      | Fin r \<Rightarrow> showRat r)"

definition isNaN :: "number \<Rightarrow> bool" where
  "isNaN n = (n = NaN)"

definition num_le :: "number \<Rightarrow> rat \<Rightarrow> bool" where
  \<comment> \<open>\<^verbatim>\<open>n <= c\<close> for a finite constant \<open>c\<close>; every comparison with \<^verbatim>\<open>NaN\<close> is false.\<close>
  "num_le n c = (case n of NaN \<Rightarrow> False | PosInf \<Rightarrow> False | NegInf \<Rightarrow> True | Fin r \<Rightarrow> r \<le> c)"

definition num_lt :: "number \<Rightarrow> rat \<Rightarrow> bool" where
  "num_lt n c = (case n of NaN \<Rightarrow> False | PosInf \<Rightarrow> False | NegInf \<Rightarrow> True | Fin r \<Rightarrow> r < c)"

definition num_ge :: "number \<Rightarrow> rat \<Rightarrow> bool" where
  "num_ge n c = (case n of NaN \<Rightarrow> False | PosInf \<Rightarrow> True | NegInf \<Rightarrow> False | Fin r \<Rightarrow> c \<le> r)"

definition toDouble :: "rat \<Rightarrow> number" where
  \<comment> \<open>The number that a decimal text of the value \<open>q\<close> is read as. From halfway between
      the largest finite binary64 and \<open>2 ^ 1024\<close> on it is infinite; up to half the
      smallest positive binary64 it is zero (of either sign, which nothing here tells
      apart).\<close>
  "toDouble q =
     (if 2 ^ 1024 - 2 ^ 970 \<le> \<bar>q\<bar> then (if q < 0 then NegInf else PosInf)
      else if \<bar>q\<bar> \<le> 1 / 2 ^ 1075 then Fin 0
      else Fin q)"

definition signOf :: "string \<Rightarrow> bool \<times> string" where
  \<comment> \<open>An optional leading sign: whether it is a minus, and the rest.\<close>
  "signOf s =
     (case s of
        [] \<Rightarrow> (False, [])
      | c # cs \<Rightarrow> (if c = CHR ''-'' then (True, cs)
                  else if c = CHR ''+'' then (False, cs) else (False, s)))"

definition parseInt :: "string \<Rightarrow> number" where
  \<comment> \<open>\<^verbatim>\<open>parseInt(s, 10)\<close>: leading white space, a sign, then the longest run of
      decimal digits; whatever follows is ignored, and no digit at all gives \<^verbatim>\<open>NaN\<close>.\<close>
  "parseInt s =
     (let (neg, s2) = signOf (dropWhile isWhiteSpace s);
          ds = takeWhile isDigit s2
      in if ds = [] then NaN
         else toDouble (if neg then - of_nat (digitsVal ds) else of_nat (digitsVal ds)))"

definition pow10 :: "bool \<Rightarrow> nat \<Rightarrow> rat" where
  "pow10 neg e = (if neg then 1 / 10 ^ e else 10 ^ e)"

definition exponentPart :: "string \<Rightarrow> rat" where
  \<comment> \<open>The factor of an optional exponent part \<^verbatim>\<open>e[+-]ddd\<close> at the head of the string.\<close>
  "exponentPart s =
     (case s of
        [] \<Rightarrow> 1
      | c # cs \<Rightarrow>
          (if c = CHR ''e'' \<or> c = CHR ''E''
           then (let (neg, s2) = signOf cs; ds = takeWhile isDigit s2
                 in if ds = [] then 1 else pow10 neg (digitsVal ds))
           else 1))"

definition parseFloat :: "string \<Rightarrow> number" where
  \<comment> \<open>\<^verbatim>\<open>parseFloat(s)\<close>: the longest prefix that is a decimal literal.\<close>
  "parseFloat s =
     (let (neg, s2) = signOf (dropWhile isWhiteSpace s)
      in if take 8 s2 = ''Infinity'' then (if neg then NegInf else PosInf)
         else
          (let ip = takeWhile isDigit s2;
               r1 = dropWhile isDigit s2;
               dot = (r1 \<noteq> [] \<and> hd r1 = CHR ''.'');
               fp = (if dot then takeWhile isDigit (tl r1) else []);
               r2 = (if dot then dropWhile isDigit (tl r1) else r1)
           in if ip = [] \<and> fp = [] then NaN
              else (let m = of_nat (digitsVal (ip @ fp)) / 10 ^ length fp * exponentPart r2
                    in toDouble (if neg then - m else m))))"

definition toString :: "cell \<Rightarrow> string" where
  \<comment> \<open>\<^verbatim>\<open>String(v)\<close> and \<^verbatim>\<open>`${v}`\<close>\<close>
  "toString v =
     (case v of
        Undefined \<Rightarrow> ''undefined''
      | Null \<Rightarrow> ''null''
      | Bool b \<Rightarrow> (if b then ''true'' else ''false'')
      | Num n \<Rightarrow> numberToString n
      | Str s \<Rightarrow> s)"

definition truthy :: "cell \<Rightarrow> bool" where
  \<comment> \<open>What \<^verbatim>\<open>!v\<close> and \<^verbatim>\<open>v ? a : b\<close> test.\<close>
  "truthy v =
     (case v of
        Undefined \<Rightarrow> False
      | Null \<Rightarrow> False
      | Bool b \<Rightarrow> b
      | Num n \<Rightarrow> n \<noteq> NaN \<and> n \<noteq> Fin 0
      | Str s \<Rightarrow> s \<noteq> [])"

definition isNullish :: "cell \<Rightarrow> bool" where
  \<comment> \<open>\<^verbatim>\<open>v == null\<close>\<close>
  "isNullish v = (v = Undefined \<or> v = Null)"

section \<open>JSON\<close>

text \<open>
  \<^verbatim>\<open>JSON.parse\<close> and \<^verbatim>\<open>JSON.stringify\<close> on the values the import meets. An object is
  the list of its members in source order; reading a property takes the last member of
  that name, as a repeated key overwrites the earlier one. The type parameter is the
  code unit of the strings: \<^verbatim>\<open>JSON.stringify\<close> is given the sizes of a row or of a
  product, whose names are strings of the cells or the catalog, and \<^verbatim>\<open>JSON.parse\<close>
  returns strings of 16-bit code units.
\<close>

datatype 'c json =
    JNull
  | JBool bool
  | JNum number
  | JStr "'c list"
  | JArr "'c json list"
  | JObj "('c list \<times> 'c json) list"

type_synonym codeUnit = nat

definition codeUnits :: "string \<Rightarrow> codeUnit list" where
  \<comment> \<open>A string of the Latin-1 range as a sequence of 16-bit code units.\<close>
  "codeUnits s = map of_char s"

datatype token =
    TLBracket | TRBracket | TLBrace | TRBrace | TComma | TColon
  | TString "codeUnit list" | TNumber number | TTrue | TFalse | TNull

subsection \<open>Writing\<close>

definition hexDigitOf :: "bool \<Rightarrow> bool \<Rightarrow> bool \<Rightarrow> bool \<Rightarrow> char" where
  \<comment> \<open>The lower-case hexadecimal digit of four bits, least significant first.\<close>
  "hexDigitOf b0 b1 b2 b3 =
     ''0123456789abcdef'' !
       ((if b0 then 1 else 0) + (if b1 then 2 else 0) + (if b2 then 4 else 0) + (if b3 then 8 else 0))"

definition isControl :: "char \<Rightarrow> bool" where
  \<comment> \<open>A code unit below \<open>0x20\<close>.\<close>
  "isControl c = (case c of Char b0 b1 b2 b3 b4 b5 b6 b7 \<Rightarrow> \<not> b5 \<and> \<not> b6 \<and> \<not> b7)"

definition escapeChar :: "char \<Rightarrow> string" where
  "escapeChar c =
     (if c = CHR 0x22 then [CHR 0x5C, CHR 0x22]
      else if c = CHR 0x5C then [CHR 0x5C, CHR 0x5C]
      else if c = CHR 0x08 then [CHR 0x5C, CHR ''b'']
      else if c = CHR 0x0C then [CHR 0x5C, CHR ''f'']
      else if c = CHR 0x0A then [CHR 0x5C, CHR ''n'']
      else if c = CHR 0x0D then [CHR 0x5C, CHR ''r'']
      else if c = CHR 0x09 then [CHR 0x5C, CHR ''t'']
      else if isControl c
        then (case c of Char b0 b1 b2 b3 b4 b5 b6 b7 \<Rightarrow>
                [CHR 0x5C, CHR ''u'', CHR ''0'', CHR ''0'',
                 hexDigitOf b4 False False False, hexDigitOf b0 b1 b2 b3])
      else [c])"

definition quoteJSON :: "string \<Rightarrow> string" where
  "quoteJSON s = CHR 0x22 # concat (map escapeChar s) @ [CHR 0x22]"

fun stringify :: "char json \<Rightarrow> string" where
  \<comment> \<open>\<^verbatim>\<open>JSON.stringify(v)\<close>\<close>
  "stringify JNull = ''null''"
| "stringify (JBool b) = (if b then ''true'' else ''false'')"
| "stringify (JNum n) = (case n of Fin r \<Rightarrow> showRat r | _ \<Rightarrow> ''null'')"
| "stringify (JStr s) = quoteJSON s"
| "stringify (JArr xs) = ''['' @ join '','' (map stringify xs) @ '']''"
| "stringify (JObj ms) =
     ''{'' @ join '','' (map (\<lambda>m. quoteJSON (fst m) @ '':'' @ stringify (snd m)) ms) @ ''}''"

subsection \<open>Reading: the lexer\<close>

datatype lexState =
    LStart
  | LInString "codeUnit list"
  | LEscape "codeUnit list"
  | LUnicode "codeUnit list" string
  | LNumber string
  | LWord string

definition hexBits :: "char \<Rightarrow> (bool \<times> bool \<times> bool \<times> bool) option" where
  \<comment> \<open>The four bits of a hexadecimal digit, least significant first.\<close>
  "hexBits c = map_of
     [(CHR ''0'', (False, False, False, False)), (CHR ''1'', (True, False, False, False)),
      (CHR ''2'', (False, True, False, False)), (CHR ''3'', (True, True, False, False)),
      (CHR ''4'', (False, False, True, False)), (CHR ''5'', (True, False, True, False)),
      (CHR ''6'', (False, True, True, False)), (CHR ''7'', (True, True, True, False)),
      (CHR ''8'', (False, False, False, True)), (CHR ''9'', (True, False, False, True)),
      (CHR ''a'', (False, True, False, True)), (CHR ''b'', (True, True, False, True)),
      (CHR ''c'', (False, False, True, True)), (CHR ''d'', (True, False, True, True)),
      (CHR ''e'', (False, True, True, True)), (CHR ''f'', (True, True, True, True)),
      (CHR ''A'', (False, True, False, True)), (CHR ''B'', (True, True, False, True)),
      (CHR ''C'', (False, False, True, True)), (CHR ''D'', (True, False, True, True)),
      (CHR ''E'', (False, True, True, True)), (CHR ''F'', (True, True, True, True))] c"

definition hexVal :: "bool \<times> bool \<times> bool \<times> bool \<Rightarrow> nat" where
  "hexVal z = (case z of (b0, b1, b2, b3) \<Rightarrow>
     (if b0 then 1 else 0) + (if b1 then 2 else 0) + (if b2 then 4 else 0) + (if b3 then 8 else 0))"

definition unicodeEscape :: "string \<Rightarrow> codeUnit option" where
  \<comment> \<open>The code unit of the four hexadecimal digits of \<^verbatim>\<open>\uXXXX\<close>.\<close>
  "unicodeEscape hs =
     (case map hexBits hs of
        [Some z1, Some z2, Some z3, Some z4] \<Rightarrow>
          Some (4096 * hexVal z1 + 256 * hexVal z2 + 16 * hexVal z3 + hexVal z4)
      | _ \<Rightarrow> None)"

definition jsonExponent :: "string \<Rightarrow> rat option" where
  \<comment> \<open>Nothing, or \<^verbatim>\<open>e\<close>, an optional sign and at least one digit, up to the end.\<close>
  "jsonExponent s =
     (case s of
        [] \<Rightarrow> Some 1
      | c # cs \<Rightarrow>
          (if c = CHR ''e'' \<or> c = CHR ''E''
           then (let (neg, ds) = signOf cs
                 in if ds \<noteq> [] \<and> list_all isDigit ds then Some (pow10 neg (digitsVal ds))
                    else None)
           else None))"

definition jsonNumber :: "string \<Rightarrow> number option" where
  \<comment> \<open>The JSON number grammar: \<^verbatim>\<open>-? (0 | [1-9][0-9]*) (. [0-9]+)? ([eE] [+-]? [0-9]+)?\<close>\<close>
  "jsonNumber s =
     (let neg = (s \<noteq> [] \<and> hd s = CHR ''-'');
          s1 = (if neg then tl s else s);
          ip = takeWhile isDigit s1;
          r1 = dropWhile isDigit s1;
          dot = (r1 \<noteq> [] \<and> hd r1 = CHR ''.'');
          fp = (if dot then takeWhile isDigit (tl r1) else []);
          r2 = (if dot then dropWhile isDigit (tl r1) else r1)
      in if ip = [] \<or> (1 < length ip \<and> hd ip = CHR ''0'') \<or> (dot \<and> fp = []) then None
         else (case jsonExponent r2 of
                 None \<Rightarrow> None
               | Some e \<Rightarrow>
                   (let m = of_nat (digitsVal (ip @ fp)) / 10 ^ length fp * e
                    in Some (toDouble (if neg then - m else m)))))"

definition keyword :: "string \<Rightarrow> token option" where
  "keyword w =
     (if w = ''true'' then Some TTrue
      else if w = ''false'' then Some TFalse
      else if w = ''null'' then Some TNull
      else None)"

definition isJsonSpace :: "char \<Rightarrow> bool" where
  "isJsonSpace c = (c \<in> {CHR 0x20, CHR 0x09, CHR 0x0A, CHR 0x0D})"

definition isNumberChar :: "char \<Rightarrow> bool" where
  "isNumberChar c = (isDigit c \<or> c \<in> {CHR ''-'', CHR ''+'', CHR ''.'', CHR ''e'', CHR ''E''})"

definition isWordChar :: "char \<Rightarrow> bool" where
  "isWordChar c = (c \<in> set ''abcdefghijklmnopqrstuvwxyz'')"

definition lexStart :: "char \<Rightarrow> (token list \<times> lexState) option" where
  \<comment> \<open>A character between tokens.\<close>
  "lexStart c =
     (if isJsonSpace c then Some ([], LStart)
      else if c = CHR ''['' then Some ([TLBracket], LStart)
      else if c = CHR '']'' then Some ([TRBracket], LStart)
      else if c = CHR ''{'' then Some ([TLBrace], LStart)
      else if c = CHR ''}'' then Some ([TRBrace], LStart)
      else if c = CHR '','' then Some ([TComma], LStart)
      else if c = CHR '':'' then Some ([TColon], LStart)
      else if c = CHR 0x22 then Some ([], LInString [])
      else if c = CHR ''-'' \<or> isDigit c then Some ([], LNumber [c])
      else if isWordChar c then Some ([], LWord [c])
      else None)"

definition lexAfter :: "token option \<Rightarrow> char \<Rightarrow> (token list \<times> lexState) option" where
  \<comment> \<open>A number or a word has ended at the character \<open>c\<close>, which is read between tokens.\<close>
  "lexAfter t c =
     (case t of
        None \<Rightarrow> None
      | Some tok \<Rightarrow> (case lexStart c of None \<Rightarrow> None | Some (ts, st) \<Rightarrow> Some (tok # ts, st)))"

fun lexStep :: "lexState \<Rightarrow> char \<Rightarrow> (token list \<times> lexState) option" where
  "lexStep LStart c = lexStart c"
| "lexStep (LInString acc) c =
     (if c = CHR 0x22 then Some ([TString acc], LStart)
      else if c = CHR 0x5C then Some ([], LEscape acc)
      else if isControl c then None
      else Some ([], LInString (acc @ [of_char c])))"
| "lexStep (LEscape acc) c =
     (if c = CHR 0x22 \<or> c = CHR 0x5C \<or> c = CHR ''/'' then Some ([], LInString (acc @ [of_char c]))
      else if c = CHR ''b'' then Some ([], LInString (acc @ [0x08]))
      else if c = CHR ''f'' then Some ([], LInString (acc @ [0x0C]))
      else if c = CHR ''n'' then Some ([], LInString (acc @ [0x0A]))
      else if c = CHR ''r'' then Some ([], LInString (acc @ [0x0D]))
      else if c = CHR ''t'' then Some ([], LInString (acc @ [0x09]))
      else if c = CHR ''u'' then Some ([], LUnicode acc [])
      else None)"
| "lexStep (LUnicode acc hs) c =
     (if length hs < 3 then (if hexBits c = None then None else Some ([], LUnicode acc (hs @ [c])))
      else (case unicodeEscape (hs @ [c]) of
              None \<Rightarrow> None
            | Some u \<Rightarrow> Some ([], LInString (acc @ [u]))))"
| "lexStep (LNumber acc) c =
     (if isNumberChar c then Some ([], LNumber (acc @ [c]))
      else lexAfter (map_option TNumber (jsonNumber acc)) c)"
| "lexStep (LWord acc) c =
     (if isWordChar c then Some ([], LWord (acc @ [c]))
      else lexAfter (keyword acc) c)"

fun lexFinish :: "lexState \<Rightarrow> token list option" where
  "lexFinish LStart = Some []"
| "lexFinish (LNumber acc) = map_option (\<lambda>n. [TNumber n]) (jsonNumber acc)"
| "lexFinish (LWord acc) = map_option (\<lambda>t. [t]) (keyword acc)"
| "lexFinish _ = None"

fun lexRun :: "lexState \<Rightarrow> string \<Rightarrow> token list option" where
  "lexRun st [] = lexFinish st"
| "lexRun st (c # cs) =
     (case lexStep st c of
        None \<Rightarrow> None
      | Some (ts, st') \<Rightarrow> map_option ((@) ts) (lexRun st' cs))"

subsection \<open>Reading: the parser\<close>

datatype frame =
    FArr "codeUnit json list"
  | FObj "(codeUnit list \<times> codeUnit json) list" "codeUnit list"

datatype parseState =
    PValue "frame list"
  | PArrStart "frame list"
  | PAfterElem "codeUnit json list" "frame list"
  | PObjStart "frame list"
  | PKey "(codeUnit list \<times> codeUnit json) list" "frame list"
  | PColon "(codeUnit list \<times> codeUnit json) list" "codeUnit list" "frame list"
  | PAfterMember "(codeUnit list \<times> codeUnit json) list" "frame list"
  | PDone "codeUnit json"

fun deliver :: "codeUnit json \<Rightarrow> frame list \<Rightarrow> parseState" where
  \<comment> \<open>A complete value goes to the innermost open array or object.\<close>
  "deliver v [] = PDone v"
| "deliver v (FArr xs # stk) = PAfterElem (xs @ [v]) stk"
| "deliver v (FObj ms k # stk) = PAfterMember (ms @ [(k, v)]) stk"

fun startValue :: "frame list \<Rightarrow> token \<Rightarrow> parseState option" where
  "startValue stk (TString s) = Some (deliver (JStr s) stk)"
| "startValue stk (TNumber n) = Some (deliver (JNum n) stk)"
| "startValue stk TTrue = Some (deliver (JBool True) stk)"
| "startValue stk TFalse = Some (deliver (JBool False) stk)"
| "startValue stk TNull = Some (deliver JNull stk)"
| "startValue stk TLBracket = Some (PArrStart stk)"
| "startValue stk TLBrace = Some (PObjStart stk)"
| "startValue stk _ = None"

fun parseStep :: "parseState \<Rightarrow> token \<Rightarrow> parseState option" where
  "parseStep (PValue stk) t = startValue stk t"
| "parseStep (PArrStart stk) t =
     (if t = TRBracket then Some (deliver (JArr []) stk) else startValue (FArr [] # stk) t)"
| "parseStep (PAfterElem xs stk) t =
     (if t = TComma then Some (PValue (FArr xs # stk))
      else if t = TRBracket then Some (deliver (JArr xs) stk)
      else None)"
| "parseStep (PObjStart stk) t =
     (case t of
        TRBrace \<Rightarrow> Some (deliver (JObj []) stk)
      | TString k \<Rightarrow> Some (PColon [] k stk)
      | _ \<Rightarrow> None)"
| "parseStep (PKey ms stk) t = (case t of TString k \<Rightarrow> Some (PColon ms k stk) | _ \<Rightarrow> None)"
| "parseStep (PColon ms k stk) t = (if t = TColon then Some (PValue (FObj ms k # stk)) else None)"
| "parseStep (PAfterMember ms stk) t =
     (if t = TComma then Some (PKey ms stk)
      else if t = TRBrace then Some (deliver (JObj ms) stk)
      else None)"
| "parseStep (PDone v) t = None"

fun parseRun :: "parseState \<Rightarrow> token list \<Rightarrow> codeUnit json option" where
  "parseRun st [] = (case st of PDone v \<Rightarrow> Some v | _ \<Rightarrow> None)"
| "parseRun st (t # ts) = (case parseStep st t of None \<Rightarrow> None | Some st' \<Rightarrow> parseRun st' ts)"

subsection \<open>Errors\<close>

text \<open>
  The language fixes which texts \<^verbatim>\<open>JSON.parse\<close> refuses and that reading a property of
  \<^verbatim>\<open>null\<close> throws, but not the messages of the errors: they are the engine's. The
  engine is a parameter of the model, with the two messages the import can meet.
\<close>

record engine =
  syntaxErrorMessage :: "string \<Rightarrow> string"
  typeErrorMessage :: string

datatype exn = SyntaxError string | TypeError string

definition errorToString :: "string \<Rightarrow> string \<Rightarrow> string" where
  \<comment> \<open>\<^verbatim>\<open>Error.prototype.toString\<close>: the name alone when the message is empty.\<close>
  "errorToString name msg = (if msg = [] then name else name @ '': '' @ msg)"

definition exnText :: "exn \<Rightarrow> string" where
  \<comment> \<open>\<^verbatim>\<open>`${error}`\<close>\<close>
  "exnText e =
     (case e of
        SyntaxError msg \<Rightarrow> errorToString ''SyntaxError'' msg
      | TypeError msg \<Rightarrow> errorToString ''TypeError'' msg)"

definition JSON_parse :: "engine \<Rightarrow> string \<Rightarrow> exn + codeUnit json" where
  \<comment> \<open>\<^verbatim>\<open>JSON.parse(s)\<close>; a text that is not JSON throws a \<^verbatim>\<open>SyntaxError\<close>.\<close>
  "JSON_parse eng s =
     (case lexRun LStart s of
        None \<Rightarrow> Inl (SyntaxError (syntaxErrorMessage eng s))
      | Some ts \<Rightarrow>
          (case parseRun (PValue []) ts of
             None \<Rightarrow> Inl (SyntaxError (syntaxErrorMessage eng s))
           | Some v \<Rightarrow> Inr v))"

section \<open>The catalog and the remote service\<close>

text \<open>
  Modelled from the spec: the interfaces \<^verbatim>\<open>SizeStock\<close>, \<^verbatim>\<open>Category\<close>,
  \<^verbatim>\<open>Manufacturer\<close>, \<^verbatim>\<open>Product\<close> and \<^verbatim>\<open>ProductFormData\<close> of the \<^verbatim>\<open>types\<close> module,
  which the page imports; their fields are the ones the page reads and writes.
  A field that the interface marks optional is an \<open>option\<close>.
\<close>

record sizeStock =
  size' :: string
  stock :: number

record category =
  cat_id :: string
  cat_name :: string

record manufacturer =
  man_id :: string
  man_name :: string

record product =
  prod_id :: string
  prod_title :: string
  prod_code :: string
  prod_price :: number
  prod_categoryId :: string
  prod_manufacturerId :: string
  prod_categoryName :: "string option"
  prod_manufacturerName :: "string option"
  prod_sizes :: "sizeStock list"
  prod_image :: string
  prod_isVisible :: bool
  prod_totalStock :: "number option"

record productFormData =
  id' :: "string option"
  title :: string
  code :: string
  price :: number
  categoryId :: string
  manufacturerId :: string
  sizes :: string
  image :: string
  isVisible :: bool

text \<open>
  The remote service is opaque: a request meets it in some state and either succeeds or
  throws an error with a message (\<^verbatim>\<open>handleApiResponse\<close>), leaving it in a new state.
\<close>

datatype call = AddProductAdmin productFormData | UpdateProductAdmin productFormData

type_synonym 'b remote = "'b \<Rightarrow> call \<Rightarrow> string option \<times> 'b"

definition addProductAdmin :: "'b remote \<Rightarrow> 'b \<Rightarrow> productFormData \<Rightarrow> string option \<times> 'b" where
  "addProductAdmin svc b productData = svc b (AddProductAdmin productData)"

definition updateProductAdmin :: "'b remote \<Rightarrow> 'b \<Rightarrow> productFormData \<Rightarrow> string option \<times> 'b" where
  \<comment> \<open>\<^verbatim>\<open>if (!productData.id) throw new Error(...)\<close> comes before the request.\<close>
  "updateProductAdmin svc b productData =
     (if id' productData = None \<or> id' productData = Some []
      then (Some ''Product ID is required for update via API.'', b)
      else svc b (UpdateProductAdmin productData))"

section \<open>The import pass\<close>

record catalogIndex =
  categoryMap :: "string \<rightharpoonup> string"
  manufacturerMap :: "string \<rightharpoonup> string"
  productCodeMap :: "string \<rightharpoonup> product"

definition mapOfEntries :: "('k \<times> 'v) list \<Rightarrow> ('k \<rightharpoonup> 'v)" where
  \<comment> \<open>\<^verbatim>\<open>new Map(entries)\<close>: a later entry replaces an earlier one of the same key.\<close>
  "mapOfEntries kvs = map_of (rev kvs)"

definition buildIndex :: "category list \<Rightarrow> manufacturer list \<Rightarrow> product list \<Rightarrow> catalogIndex" where
  "buildIndex currentCategories currentManufacturers existingSystemProducts =
     \<lparr> categoryMap = mapOfEntries (map (\<lambda>c. (toLowerCase (cat_name c), cat_id c)) currentCategories),
       manufacturerMap =
         mapOfEntries (map (\<lambda>m. (toLowerCase (man_name m), man_id m)) currentManufacturers),
       productCodeMap =
         mapOfEntries (map (\<lambda>p. (toLowerCase (prod_code p), p)) existingSystemProducts) \<rparr>"

subsection \<open>The three sources of sizes and stock\<close>

definition getProp :: "'c json \<Rightarrow> 'c list \<Rightarrow> 'c json option" where
  \<comment> \<open>\<^verbatim>\<open>s.size\<close> and \<^verbatim>\<open>s.stock\<close> of a value other than \<^verbatim>\<open>null\<close>: only an object
      has such a property.\<close>
  "getProp v k = (case v of JObj ms \<Rightarrow> map_of (rev ms) k | _ \<Rightarrow> None)"

definition sizeStockOk :: "engine \<Rightarrow> codeUnit json \<Rightarrow> exn + bool" where
  \<comment> \<open>\<^verbatim>\<open>typeof s.size === 'string' && typeof s.stock === 'number' && s.stock >= 0\<close>;
      reading a property of \<^verbatim>\<open>null\<close> throws.\<close>
  "sizeStockOk eng s =
     (case s of
        JNull \<Rightarrow> Inl (TypeError (typeErrorMessage eng))
      | _ \<Rightarrow> Inr ((case getProp s (codeUnits ''size'') of Some (JStr x) \<Rightarrow> True | _ \<Rightarrow> False) \<and>
                  (case getProp s (codeUnits ''stock'') of Some (JNum n) \<Rightarrow> num_ge n 0 | _ \<Rightarrow> False)))"

fun every :: "('a \<Rightarrow> exn + bool) \<Rightarrow> 'a list \<Rightarrow> exn + bool" where
  \<comment> \<open>\<^verbatim>\<open>xs.every(f)\<close> stops at the first element that fails or throws.\<close>
  "every f [] = Inr True"
| "every f (x # xs) =
     (case f x of
        Inl e \<Rightarrow> Inl e
      | Inr ok \<Rightarrow> (if ok then every f xs else Inr False))"

definition validSizeStockArray :: "engine \<Rightarrow> codeUnit json \<Rightarrow> exn + bool" where
  \<comment> \<open>\<^verbatim>\<open>Array.isArray(parsed) && parsed.every(...)\<close>\<close>
  "validSizeStockArray eng parsed =
     (case parsed of JArr xs \<Rightarrow> every (sizeStockOk eng) xs | _ \<Rightarrow> Inr False)"

definition sizeStockJson :: "sizeStock \<Rightarrow> char json" where
  "sizeStockJson s = JObj [(''size'', JStr (size' s)), (''stock'', JNum (stock s))]"

definition rowPrefix :: "nat \<Rightarrow> string" where
  "rowPrefix rowIndex = ''Row '' @ showNat rowIndex"

definition positionCheck :: "nat \<Rightarrow> nat \<Rightarrow> string \<Rightarrow> number \<Rightarrow> string \<Rightarrow> string option" where
  \<comment> \<open>The three tests of the loop body at position \<open>j\<close>, in their order: the reason
      pushed before \<^verbatim>\<open>break\<close>, if one fails. \<open>rawStock\<close> is
      \<^verbatim>\<open>stocksListFromRow.split(',')[j]?.trim()\<close> as the message prints it.\<close>
  "positionCheck rowIndex j sizeName stockValue rawStock =
     (if sizeName = []
      then Some (rowPrefix rowIndex @ '': Empty size name found at position '' @
                 showNat (j + 1) @ '' in \"Sizes\" column.'')
      else if isNaN stockValue
      then Some (rowPrefix rowIndex @ '': Stock value for size \"'' @ sizeName @
                 ''\" is not a valid number (\"'' @ rawStock @ ''\").'')
      else if num_lt stockValue 0
      then Some (rowPrefix rowIndex @ '': Stock value for size \"'' @ sizeName @ ''\" ('' @
                 numberToString stockValue @ '') cannot be negative.'')
      else None)"

fun zipSizesStocks ::
  "nat \<Rightarrow> nat \<Rightarrow> string list \<Rightarrow> number list \<Rightarrow> string list \<Rightarrow> sizeStock list
     \<Rightarrow> string + sizeStock list" where
  \<comment> \<open>The loop over \<open>j\<close>: the names and stock values from position \<open>j\<close> on, the raw stock
      tokens from there on (for the message), and the pairs pushed so far. A stock value
      past the end of its array is \<^verbatim>\<open>undefined\<close>, which \<^verbatim>\<open>isNaN\<close> takes for no number.\<close>
  "zipSizesStocks rowIndex j [] stockValues rawStocks sizeStockArray = Inr sizeStockArray"
| "zipSizesStocks rowIndex j (sizeName # sizeNames) stockValues rawStocks sizeStockArray =
     (let stockValue = (case stockValues of [] \<Rightarrow> NaN | v # _ \<Rightarrow> v);
          rawStock = (case rawStocks of [] \<Rightarrow> ''undefined'' | raw # _ \<Rightarrow> trim raw)
      in case positionCheck rowIndex j sizeName stockValue rawStock of
           Some reason \<Rightarrow> Inl reason
         | None \<Rightarrow>
             zipSizesStocks rowIndex (j + 1) sizeNames (tl stockValues) (tl rawStocks)
               (sizeStockArray @ [\<lparr> size' = sizeName, stock = stockValue \<rparr>]))"

definition cellText :: "cell \<Rightarrow> string" where
  \<comment> \<open>\<^verbatim>\<open>v ? String(v).trim() : ''\<close>\<close>
  "cellText v = (if truthy v then trim (toString v) else [])"

definition noSizesWarning :: "nat \<Rightarrow> string" where
  "noSizesWarning rowIndex =
     rowPrefix rowIndex @
     '': Missing 'SizesStockJSON' or 'Sizes'/'Stocks' columns, or valid 'TotalStock'/'Stock'. '' @
     ''Product will have no stock/sizes defined.''"

definition totalStockOf :: "row \<Rightarrow> number option" where
  \<comment> \<open>\<^verbatim>\<open>totalStockFromRow\<close>: \<^verbatim>\<open>TotalStock\<close> when the row has it, else \<^verbatim>\<open>Stock\<close>.\<close>
  "totalStockOf r =
     (if field r ''TotalStock'' \<noteq> Undefined then Some (parseInt (toString (field r ''TotalStock'')))
      else if field r ''Stock'' \<noteq> Undefined then Some (parseInt (toString (field r ''Stock'')))
      else None)"

definition sizesOfRow :: "engine \<Rightarrow> nat \<Rightarrow> row \<Rightarrow> string + (string \<times> string option)" where
  \<comment> \<open>The block that sets \<^verbatim>\<open>sizesString\<close>: \<open>Inl\<close> is the reason pushed before
      \<^verbatim>\<open>continue\<close>; \<open>Inr\<close> is \<^verbatim>\<open>sizesString\<close> with the warning pushed on the way, if any.\<close>
  "sizesOfRow eng rowIndex r =
     (let sizesStockJSONFromRow = cellText (field r ''SizesStockJSON'');
          sizesListFromRow = cellText (field r ''Sizes'');
          stocksListFromRow = cellText (field r ''Stocks'')
      in if sizesStockJSONFromRow \<noteq> []
         then (case JSON_parse eng sizesStockJSONFromRow of
                 Inl e \<Rightarrow>
                   Inl (rowPrefix rowIndex @ '': 'SizesStockJSON' (\"'' @ sizesStockJSONFromRow @
                        ''\") is not valid JSON. '' @ exnText e)
               | Inr parsed \<Rightarrow>
                   (case validSizeStockArray eng parsed of
                      Inl e \<Rightarrow>
                        Inl (rowPrefix rowIndex @ '': 'SizesStockJSON' (\"'' @
                             sizesStockJSONFromRow @ ''\") is not valid JSON. '' @ exnText e)
                    | Inr ok \<Rightarrow>
                        (if ok then Inr (sizesStockJSONFromRow, None)
                         else Inl (rowPrefix rowIndex @ '': 'SizesStockJSON' (\"'' @
                                   sizesStockJSONFromRow @
                                   ''\") is not a valid array of {size: string, stock: number (>=0)}.''))))
         else if sizesListFromRow \<noteq> [] \<and> stocksListFromRow \<noteq> []
         then (let sizeNamesArray = map trim (split_str CHR '','' sizesListFromRow);
                   rawStocks = split_str CHR '','' stocksListFromRow;
                   stockValuesArray = map (\<lambda>s. parseInt (trim s)) rawStocks
               in if length sizeNamesArray \<noteq> length stockValuesArray
                  then Inl (rowPrefix rowIndex @ '': Mismatch between number of sizes ('' @
                            showNat (length sizeNamesArray) @
                            '') in \"Sizes\" and stock values ('' @
                            showNat (length stockValuesArray) @ '') in \"Stocks\".'')
                  else (case zipSizesStocks rowIndex 0 sizeNamesArray stockValuesArray rawStocks [] of
                          Inl reason \<Rightarrow> Inl reason
                        | Inr sizeStockArray \<Rightarrow>
                            Inr (stringify (JArr (map sizeStockJson sizeStockArray)), None)))
         else (case totalStockOf r of
                 None \<Rightarrow> Inr (''[]'', Some (noSizesWarning rowIndex))
               | Some totalStockFromRow \<Rightarrow>
                   (if \<not> isNaN totalStockFromRow \<and> num_ge totalStockFromRow 0
                    then Inr (stringify (JArr [sizeStockJson
                                \<lparr> size' = ''One Size'', stock = totalStockFromRow \<rparr>]), None)
                    else Inr (''[]'', Some (noSizesWarning rowIndex)))))"

subsection \<open>One row\<close>

definition missingRequired :: "row \<Rightarrow> bool" where
  \<comment> \<open>\<^verbatim>\<open>!row.Title || !row.Code || row.Price == null || !row.Category || !row.Manufacturer
      || !row['Image URL']\<close>\<close>
  "missingRequired r =
     (\<not> truthy (field r ''Title'') \<or> \<not> truthy (field r ''Code'') \<or> isNullish (field r ''Price'') \<or>
      \<not> truthy (field r ''Category'') \<or> \<not> truthy (field r ''Manufacturer'') \<or>
      \<not> truthy (field r ''Image URL''))"

definition missingRequiredReason :: "nat \<Rightarrow> string" where
  "missingRequiredReason rowIndex =
     rowPrefix rowIndex @
     '': Missing required fields (Title, Code, Price, Category, Manufacturer, Image URL).''"

definition lookupId :: "(string \<rightharpoonup> string) \<Rightarrow> cell \<Rightarrow> string option" where
  \<comment> \<open>\<^verbatim>\<open>map.get(String(v).toLowerCase())\<close>, with \<^verbatim>\<open>!id\<close> taken for not found:
      an empty id is no id.\<close>
  "lookupId m v =
     (case m (toLowerCase (toString v)) of
        None \<Rightarrow> None
      | Some i \<Rightarrow> (if i = [] then None else Some i))"

definition notFoundReason :: "nat \<Rightarrow> string \<Rightarrow> cell \<Rightarrow> string" where
  "notFoundReason rowIndex what v =
     rowPrefix rowIndex @ '': '' @ what @ '' \"'' @ toString v @ ''\" not found.''"

definition invalidPriceReason :: "nat \<Rightarrow> cell \<Rightarrow> string" where
  "invalidPriceReason rowIndex v =
     rowPrefix rowIndex @ '': Invalid Price \"'' @ toString v @ ''\". Must be a positive number.''"

definition visibleOf :: "cell \<Rightarrow> bool" where
  \<comment> \<open>\<^verbatim>\<open>v ? String(v).toLowerCase() === 'yes' || String(v).toLowerCase() === 'true' : true\<close>\<close>
  "visibleOf v =
     (if truthy v
      then toLowerCase (toString v) = ''yes'' \<or> toLowerCase (toString v) = ''true''
      else True)"

definition validateRow ::
  "engine \<Rightarrow> catalogIndex \<Rightarrow> nat \<Rightarrow> row \<Rightarrow> string + (productFormData \<times> string option)" where
  \<comment> \<open>The loop body up to \<^verbatim>\<open>productData\<close>. \<open>Inl\<close> is the reason pushed before
      \<^verbatim>\<open>continue\<close>; \<open>Inr\<close> is \<^verbatim>\<open>productData\<close> with the warning pushed on the way, if any.\<close>
  "validateRow eng idx rowIndex r =
     (if missingRequired r then Inl (missingRequiredReason rowIndex)
      else (case lookupId (categoryMap idx) (field r ''Category'') of
              None \<Rightarrow> Inl (notFoundReason rowIndex ''Category'' (field r ''Category''))
            | Some categoryId' \<Rightarrow>
      (case lookupId (manufacturerMap idx) (field r ''Manufacturer'') of
         None \<Rightarrow> Inl (notFoundReason rowIndex ''Manufacturer'' (field r ''Manufacturer''))
       | Some manufacturerId' \<Rightarrow>
      (let price' = parseFloat (toString (field r ''Price''))
       in if isNaN price' \<or> num_le price' 0
          then Inl (invalidPriceReason rowIndex (field r ''Price''))
          else (case sizesOfRow eng rowIndex r of
                  Inl reason \<Rightarrow> Inl reason
                | Inr (sizesString, warning) \<Rightarrow>
                    Inr (\<lparr> id' = None,
                           title = toString (field r ''Title''),
                           code = toString (field r ''Code''),
                           price = price',
                           categoryId = categoryId',
                           manufacturerId = manufacturerId',
                           sizes = sizesString,
                           image = toString (field r ''Image URL''),
                           isVisible = visibleOf (field r ''Is Visible'') \<rparr>,
                         warning))))))"

record 'b importState =
  importedCount :: nat
  updatedCount :: nat
  errors :: "string list"
  calls :: "call list"
  remoteState :: 'b

definition processingError :: "nat \<Rightarrow> productFormData \<Rightarrow> string \<Rightarrow> string" where
  "processingError rowIndex productData msg =
     rowPrefix rowIndex @ '' (Code: '' @ code productData @ ''): Error processing - '' @ msg"

definition mutateRow ::
  "'b remote \<Rightarrow> catalogIndex \<Rightarrow> nat \<Rightarrow> productFormData \<Rightarrow> 'b importState \<Rightarrow> 'b importState" where
  \<comment> \<open>From \<^verbatim>\<open>existingProductByCode\<close> to the end of the loop body. \<open>calls\<close> records
      the calls of the product service in order; the program keeps no such list.\<close>
  "mutateRow svc idx rowIndex productData st =
     (case productCodeMap idx (toLowerCase (code productData)) of
        Some existingProductByCode \<Rightarrow>
          (let request = productData \<lparr> id' := Some (prod_id existingProductByCode) \<rparr>;
               (failure, b) = updateProductAdmin svc (remoteState st) request;
               st' = st \<lparr> calls := calls st @ [UpdateProductAdmin request], remoteState := b \<rparr>
           in case failure of
                None \<Rightarrow> st' \<lparr> updatedCount := updatedCount st + 1 \<rparr>
              | Some msg \<Rightarrow> st' \<lparr> errors := errors st @ [processingError rowIndex productData msg] \<rparr>)
      | None \<Rightarrow>
          (let (failure, b) = addProductAdmin svc (remoteState st) productData;
               st' = st \<lparr> calls := calls st @ [AddProductAdmin productData], remoteState := b \<rparr>
           in case failure of
                None \<Rightarrow> st' \<lparr> importedCount := importedCount st + 1 \<rparr>
              | Some msg \<Rightarrow> st' \<lparr> errors := errors st @ [processingError rowIndex productData msg] \<rparr>))"

definition importRow ::
  "engine \<Rightarrow> 'b remote \<Rightarrow> catalogIndex \<Rightarrow> nat \<Rightarrow> row \<Rightarrow> 'b importState \<Rightarrow> 'b importState" where
  \<comment> \<open>The body of the loop for \<^verbatim>\<open>jsonData[i]\<close>.\<close>
  "importRow eng svc idx i r st =
     (let rowIndex = i + 2
      in case validateRow eng idx rowIndex r of
           Inl reason \<Rightarrow> st \<lparr> errors := errors st @ [reason] \<rparr>
         | Inr (productData, warning) \<Rightarrow>
             mutateRow svc idx rowIndex productData
               (case warning of None \<Rightarrow> st | Some w \<Rightarrow> st \<lparr> errors := errors st @ [w] \<rparr>))"

fun importRows ::
  "engine \<Rightarrow> 'b remote \<Rightarrow> catalogIndex \<Rightarrow> nat \<Rightarrow> row list \<Rightarrow> 'b importState \<Rightarrow> 'b importState" where
  \<comment> \<open>The loop, from index \<open>i\<close> on.\<close>
  "importRows eng svc idx i [] st = st"
| "importRows eng svc idx i (r # rs) st =
     importRows eng svc idx (i + 1) rs (importRow eng svc idx i r st)"

subsection \<open>The report\<close>

datatype notice = ActionError string | SuccessMessage string

type_synonym translate = "string \<Rightarrow> (string \<times> string) list \<Rightarrow> string"

definition summaryMessage :: "'b importState \<Rightarrow> string" where
  "summaryMessage st =
     (if importedCount st > 0 then showNat (importedCount st) @ '' products imported. '' else []) @
     (if updatedCount st > 0 then showNat (updatedCount st) @ '' products updated. '' else [])"

definition finalNotice :: "'b importState \<Rightarrow> notice" where
  "finalNotice st =
     (if errors st \<noteq> []
      then ActionError (''Import completed with errors. '' @ summaryMessage st @
                        '' See details below:'' @ [CHR 0x0A] @ ''- '' @
                        join ([CHR 0x0A] @ ''- '') (errors st))
      else if summaryMessage st \<noteq> []
      then SuccessMessage (''Import successful! '' @ summaryMessage st)
      else ActionError ''No products were imported or updated. Check file format or content.'')"

definition initialState :: "'b \<Rightarrow> 'b importState" where
  "initialState b =
     \<lparr> importedCount = 0, updatedCount = 0, errors = [], calls = [], remoteState = b \<rparr>"

definition handleFileImport ::
  "engine \<Rightarrow> translate \<Rightarrow> 'b remote \<Rightarrow> 'b \<Rightarrow> category list \<Rightarrow> manufacturer list \<Rightarrow> product list
     \<Rightarrow> row list \<Rightarrow> notice \<times> 'b importState" where
  \<comment> \<open>The import from \<^verbatim>\<open>jsonData\<close> on, with the categories, manufacturers and products
      the page holds or has fetched. A failed fetch ends in the outer \<^verbatim>\<open>catch\<close> and is
      not part of the model.\<close>
  "handleFileImport eng t svc b currentCategories currentManufacturers existingSystemProducts jsonData =
     (if jsonData = []
      then (ActionError (t ''errors.apiErrorGeneric''
                           [(''message'', ''The imported file is empty or not formatted correctly.'')]),
            initialState b)
      else (let idx = buildIndex currentCategories currentManufacturers existingSystemProducts;
                st = importRows eng svc idx 0 jsonData (initialState b)
            in (finalNotice st, st)))"

section \<open>The spreadsheet file\<close>

text \<open>
  The page writes and reads the file with the spreadsheet library \<^verbatim>\<open>XLSX\<close>, which is
  not part of the repository. The library is a parameter of the model: what
  \<^verbatim>\<open>json_to_sheet\<close>, \<^verbatim>\<open>book_new\<close>, \<^verbatim>\<open>book_append_sheet\<close> and \<^verbatim>\<open>writeFile\<close> make of
  the rows they are given, and what \<^verbatim>\<open>read\<close>, the first sheet and \<^verbatim>\<open>sheet_to_json\<close>
  make of the content of a file. Either may throw; \<open>Inl\<close> is the message of the error.
\<close>

record 'f xlsx =
  writeRows :: "row list \<Rightarrow> string + 'f"
  readRows :: "'f \<Rightarrow> string + row list"

definition failedToLoad :: "translate \<Rightarrow> string \<Rightarrow> notice" where
  \<comment> \<open>The notice of the outer \<^verbatim>\<open>catch\<close> of the export and of the import.\<close>
  "failedToLoad t msg =
     ActionError (t ''errors.failedToLoadData''
                    [(''entity'', toLowerCase (t ''adminPage.tabProducts'' []))] @ '': '' @ msg)"

definition onload ::
  "'f xlsx \<Rightarrow> engine \<Rightarrow> translate \<Rightarrow> 'b remote \<Rightarrow> 'b \<Rightarrow> category list \<Rightarrow> manufacturer list
     \<Rightarrow> product list \<Rightarrow> 'f option \<Rightarrow> notice \<times> 'b importState" where
  \<comment> \<open>The handler \<^verbatim>\<open>reader.onload\<close> of \<^verbatim>\<open>handleFileImport\<close>, from the content of the
      file that the reader hands over (none, when it could not read the file).\<close>
  "onload lib eng t svc b currentCategories currentManufacturers existingSystemProducts data =
     (case data of
        None \<Rightarrow> (failedToLoad t ''File data could not be read.'', initialState b)
      | Some content \<Rightarrow>
          (case readRows lib content of
             Inl msg \<Rightarrow> (failedToLoad t msg, initialState b)
           | Inr jsonData \<Rightarrow>
               handleFileImport eng t svc b currentCategories currentManufacturers
                 existingSystemProducts jsonData))"

section \<open>The export\<close>

definition orElse :: "string option \<Rightarrow> string \<Rightarrow> string" where
  \<comment> \<open>\<^verbatim>\<open>a || b\<close> for an optional string \<open>a\<close>\<close>
  "orElse a b = (case a of None \<Rightarrow> b | Some x \<Rightarrow> (if x = [] then b else x))"

definition exportRow :: "translate \<Rightarrow> product \<Rightarrow> row" where
  \<comment> \<open>One element of \<^verbatim>\<open>worksheetData\<close>.\<close>
  "exportRow t p =
     [''ID'' \<mapsto> Str (prod_code p),
      ''Title'' \<mapsto> Str (prod_title p),
      ''Code'' \<mapsto> Str (prod_code p),
      ''Category'' \<mapsto> Str (orElse (prod_categoryName p) (prod_categoryId p)),
      ''Manufacturer'' \<mapsto> Str (orElse (prod_manufacturerName p) (prod_manufacturerId p)),
      ''Price'' \<mapsto> Num (prod_price p),
      ''TotalStock'' \<mapsto> Num (case prod_totalStock p of None \<Rightarrow> Fin 0 | Some n \<Rightarrow> n),
      ''SizesStockJSON'' \<mapsto> Str (stringify (JArr (map sizeStockJson (prod_sizes p)))),
      ''Image URL'' \<mapsto> Str (prod_image p),
      ''Is Visible'' \<mapsto> Str (if prod_isVisible p then t ''common.yes'' [] else t ''common.no'' [])]"

definition handleExportProducts ::
  "'f xlsx \<Rightarrow> translate \<Rightarrow> product list \<Rightarrow> notice \<times> 'f option" where
  \<comment> \<open>The notice shown and the content of the file written, if one is written.\<close>
  "handleExportProducts lib t productsToExport =
     (if productsToExport = []
      then (ActionError (t ''placeholders.noProductsFound'' [] @ '' to export.''), None)
      else (case writeRows lib (map (exportRow t) productsToExport) of
              Inl msg \<Rightarrow> (failedToLoad t msg, None)
            | Inr content \<Rightarrow>
                (SuccessMessage (t ''common.success'' [] @ ''! '' @ t ''adminPage.tabProducts'' [] @
                                 '' exported.''),
                 Some content)))"

section \<open>Vocabulary of the statements\<close>

text \<open>
  The definitions of this section are not functions of the program: they name conditions
  and intermediate results that the statements and proofs below speak about.
\<close>

definition reachesSizes :: "catalogIndex \<Rightarrow> row \<Rightarrow> bool" where
  \<comment> \<open>None of the four guards before the sizes block fires: the required fields, the
      category, the manufacturer and the price.\<close>
  "reachesSizes idx r =
     (\<not> missingRequired r \<and>
      lookupId (categoryMap idx) (field r ''Category'') \<noteq> None \<and>
      lookupId (manufacturerMap idx) (field r ''Manufacturer'') \<noteq> None \<and>
      \<not> (isNaN (parseFloat (toString (field r ''Price''))) \<or>
         num_le (parseFloat (toString (field r ''Price''))) 0))"

definition reimported :: "product list \<Rightarrow> product \<Rightarrow> call \<Rightarrow> bool" where
  \<comment> \<open>The call is the update of a catalog product of the same code, letter case aside,
      with the title, code, sizes and image of the product \<open>p\<close>.\<close>
  "reimported products p c =
     (\<exists>request. c = UpdateProductAdmin request \<and>
        (\<exists>q \<in> set products. id' request = Some (prod_id q) \<and>
           toLowerCase (prod_code q) = toLowerCase (prod_code p)) \<and>
        title request = prod_title p \<and> code request = prod_code p \<and>
        sizes request = stringify (JArr (map sizeStockJson (prod_sizes p))) \<and>
        image request = prod_image p)"

fun lexFold :: "lexState \<Rightarrow> string \<Rightarrow> (token list \<times> lexState) option" where
  \<comment> \<open>The lexer over a piece of text: the tokens completed in it and the state after it.\<close>
  "lexFold st [] = Some ([], st)"
| "lexFold st (c # cs) =
     (case lexStep st c of
        None \<Rightarrow> None
      | Some (ts, st') \<Rightarrow>
          (case lexFold st' cs of None \<Rightarrow> None | Some (ts', st'') \<Rightarrow> Some (ts @ ts', st'')))"

definition reread :: "number \<Rightarrow> number" where
  \<comment> \<open>The number that \<^verbatim>\<open>JSON.parse\<close> reads from the text that \<^verbatim>\<open>JSON.stringify\<close>
      writes for a finite number.\<close>
  "reread n =
     (case n of
        Fin q \<Rightarrow> (case jsonNumber (showRat q) of None \<Rightarrow> NaN | Some m \<Rightarrow> m)
      | _ \<Rightarrow> NaN)"

definition sizeStockRead :: "sizeStock \<Rightarrow> codeUnit json" where
  \<comment> \<open>The element that \<^verbatim>\<open>JSON.parse\<close> returns for a pair written by \<^verbatim>\<open>JSON.stringify\<close>.\<close>
  "sizeStockRead s =
     JObj [(codeUnits ''size'', JStr (codeUnits (size' s))),
           (codeUnits ''stock'', JNum (reread (stock s)))]"

definition sizeStockTokens :: "sizeStock \<Rightarrow> token list" where
  "sizeStockTokens s =
     [TLBrace, TString (codeUnits ''size''), TColon, TString (codeUnits (size' s)), TComma,
      TString (codeUnits ''stock''), TColon, TNumber (reread (stock s)), TRBrace]"

definition sizesTokens :: "sizeStock list \<Rightarrow> token list" where
  "sizesTokens ss =
     (case ss of
        [] \<Rightarrow> [TLBracket, TRBracket]
      | s # others \<Rightarrow>
          TLBracket # sizeStockTokens s @ concat (map (\<lambda>s. TComma # sizeStockTokens s) others) @ [TRBracket])"

section \<open>Example data\<close>

definition exampleCategories :: "category list" where
  "exampleCategories = [\<lparr> cat_id = ''c1'', cat_name = ''Shoes'' \<rparr>]"

definition exampleManufacturers :: "manufacturer list" where
  "exampleManufacturers = [\<lparr> man_id = ''m1'', man_name = ''Acme'' \<rparr>]"

definition exampleProduct :: product where
  "exampleProduct =
     \<lparr> prod_id = ''p1'', prod_title = ''Boot'', prod_code = ''B1'', prod_price = Fin 20,
       prod_categoryId = ''c1'', prod_manufacturerId = ''m1'',
       prod_categoryName = Some ''Shoes'', prod_manufacturerName = Some ''Acme'',
       prod_sizes = [\<lparr> size' = ''S'', stock = Fin 1 \<rparr>], prod_image = ''boot.png'',
       prod_isVisible = True, prod_totalStock = Some (Fin 1) \<rparr>"

definition exampleIndex :: catalogIndex where
  "exampleIndex = buildIndex exampleCategories exampleManufacturers [exampleProduct]"

definition exampleRow :: row where
  "exampleRow =
     [''Title'' \<mapsto> Str ''Sandal'', ''Code'' \<mapsto> Str ''S1'', ''Price'' \<mapsto> Num (Fin 15),
      ''Category'' \<mapsto> Str ''shoes'', ''Manufacturer'' \<mapsto> Str ''ACME'',
      ''Image URL'' \<mapsto> Str ''sandal.png'']"

definition exampleEngine :: engine where
  "exampleEngine =
     \<lparr> syntaxErrorMessage = (\<lambda>s. ''Unexpected token in JSON''),
       typeErrorMessage = ''Cannot read properties of null (reading 'size')'' \<rparr>"

definition alwaysOk :: "unit remote" where
  "alwaysOk b c = (None, b)"

definition alwaysFails :: "unit remote" where
  "alwaysFails b c = (Some ''HTTP error! status: 500'', b)"

definition exampleData :: productFormData where
  "exampleData =
     \<lparr> id' = None, title = ''Sandal'', code = ''S1'', price = Fin 15, categoryId = ''c1'',
       manufacturerId = ''m1'', sizes = ''[]'', image = ''sandal.png'', isVisible = True \<rparr>"

definition english :: translate where
  "english key params =
     (if key = ''common.yes'' then ''Yes''
      else if key = ''common.no'' then ''No''
      else if key = ''errors.apiErrorGeneric''
      then ''An API error occurred: '' @ (case map_of params ''message'' of None \<Rightarrow> [] | Some m \<Rightarrow> m)
      else if key = ''common.success'' then ''Success''
      else if key = ''adminPage.tabProducts'' then ''Products''
      else key)"

definition stockedRow :: row where
  "stockedRow = exampleRow(''TotalStock'' \<mapsto> Num (Fin 3))"

definition stockedData :: productFormData where
  "stockedData = exampleData \<lparr> sizes := ''[{\"size\":\"One Size\",\"stock\":3}]'' \<rparr>"

definition keepsRows :: "(row list) xlsx" where
  \<comment> \<open>A library whose file holds the rows as they are.\<close>
  "keepsRows = \<lparr> writeRows = Inr, readRows = Inr \<rparr>"

section \<open>Evaluating the model on concrete rows\<close>

text \<open>
  Row numbers are written \<open>i + 2\<close>; they are kept as numerals, not turned into successors.
\<close>

declare add_2_eq_Suc [simp del] add_2_eq_Suc' [simp del]

lemma showNat_digit: "n < 10 \<Longrightarrow> showNat n = [digitChar n]"
  by (simp add: showNat.simps)

lemma showNat_more: "10 \<le> n \<Longrightarrow> showNat n = showNat (n div 10) @ [digitChar (n mod 10)]"
  by (subst showNat.simps) simp

lemma toDouble_zero: "toDouble 0 = Fin 0"
  by (simp add: toDouble_def)

lemma toDouble_exact: "1 / 10 ^ 20 \<le> \<bar>q\<bar> \<Longrightarrow> \<bar>q\<bar> \<le> 10 ^ 20 \<Longrightarrow> toDouble q = Fin q"
proof -
  assume small: "1 / 10 ^ 20 \<le> \<bar>q\<bar>" and large: "\<bar>q\<bar> \<le> 10 ^ 20"
  have "(10 :: rat) ^ 20 < 2 ^ 1024 - 2 ^ 970" by simp
  with large have "\<not> 2 ^ 1024 - 2 ^ 970 \<le> \<bar>q\<bar>" by linarith
  moreover have "(1 :: rat) / 2 ^ 1075 < 1 / 10 ^ 20" by simp
  with small have "\<not> \<bar>q\<bar> \<le> 1 / 2 ^ 1075" by linarith
  ultimately show ?thesis by (simp add: toDouble_def)
qed

lemmas cell_eval = field_def truthy_def isNullish_def toString_def cellText_def

lemmas eval_simps =
  cell_eval trim_def isWhiteSpace_def toLowerCase_def lowerChar_def upperLetters_def lowerLetters_def
  isDigit_def digitVal_def digitsVal_def digitChar_def showNat_digit showNat_more showRat_def
  numberToString_def isNaN_def num_le_def num_lt_def num_ge_def signOf_def parseInt_def pow10_def
  toDouble_zero toDouble_exact codeUnits_def hexVal_def errorToString_def
  exponentPart_def parseFloat_def
  hexDigitOf_def isControl_def escapeChar_def quoteJSON_def
  hexBits_def unicodeEscape_def jsonExponent_def jsonNumber_def keyword_def isJsonSpace_def
  isNumberChar_def isWordChar_def lexStart_def lexAfter_def JSON_parse_def exnText_def
  addProductAdmin_def updateProductAdmin_def mapOfEntries_def buildIndex_def
  getProp_def sizeStockOk_def validSizeStockArray_def sizeStockJson_def rowPrefix_def
  positionCheck_def noSizesWarning_def totalStockOf_def sizesOfRow_def
  missingRequired_def missingRequiredReason_def lookupId_def notFoundReason_def invalidPriceReason_def
  visibleOf_def validateRow_def processingError_def mutateRow_def importRow_def
  summaryMessage_def finalNotice_def initialState_def handleFileImport_def
  exampleEngine_def
  exampleCategories_def exampleManufacturers_def exampleProduct_def exampleIndex_def exampleRow_def
  exampleData_def stockedRow_def stockedData_def alwaysOk_def alwaysFails_def english_def
  reachesSizes_def Let_def

section \<open>Rows that are turned away\<close>

lemma importRow_rejected:
  "validateRow eng idx (i + 2) r = Inl reason \<Longrightarrow> importRow eng svc idx i r st = st \<lparr> errors := errors st @ [reason] \<rparr>"
  by (simp add: importRow_def)

lemma importRow_accepted:
  "validateRow eng idx (i + 2) r = Inr (productData, warning) \<Longrightarrow>
   importRow eng svc idx i r st =
     mutateRow svc idx (i + 2) productData
       (case warning of None \<Rightarrow> st | Some w \<Rightarrow> st \<lparr> errors := errors st @ [w] \<rparr>)"
  by (simp add: importRow_def)

lemma validateRow_missing:
  "missingRequired r \<Longrightarrow> validateRow eng idx rowIndex r = Inl (missingRequiredReason rowIndex)"
  by (simp add: validateRow_def)

lemma nullish_not_truthy: "isNullish v \<Longrightarrow> \<not> truthy v"
  by (auto simp: isNullish_def truthy_def)

lemma zipSizesStocks_reason:
  "zipSizesStocks rowIndex j names stockValues raws acc = Inl reason \<Longrightarrow>
   reason \<noteq> missingRequiredReason rowIndex"
  by (induction rowIndex j names stockValues raws acc rule: zipSizesStocks.induct)
     (auto simp: Let_def missingRequiredReason_def positionCheck_def split: if_splits option.splits)

lemma sizesOfRow_reason:
  "sizesOfRow eng rowIndex r = Inl reason \<Longrightarrow> reason \<noteq> missingRequiredReason rowIndex"
  unfolding sizesOfRow_def Let_def
  by (auto simp: missingRequiredReason_def split: if_splits sum.splits option.splits
           dest!: zipSizesStocks_reason)

lemma validateRow_not_missing:
  "\<not> missingRequired r \<Longrightarrow> validateRow eng idx rowIndex r \<noteq> Inl (missingRequiredReason rowIndex)"
  unfolding validateRow_def Let_def
  by (auto simp: missingRequiredReason_def notFoundReason_def invalidPriceReason_def
           split: if_splits sum.splits option.splits dest!: sizesOfRow_reason)

lemma mutateRow_calls:
  "calls (mutateRow svc idx rowIndex productData st) =
     calls st @
     [case productCodeMap idx (toLowerCase (code productData)) of
        None \<Rightarrow> AddProductAdmin productData
      | Some p \<Rightarrow> UpdateProductAdmin (productData \<lparr> id' := Some (prod_id p) \<rparr>)]"
  unfolding mutateRow_def Let_def
  by (auto split: option.splits prod.splits)

lemma warned_calls:
  "calls (case warning of None \<Rightarrow> st | Some w \<Rightarrow> st \<lparr> errors := errors st @ [w] \<rparr>) = calls st"
  "remoteState (case warning of None \<Rightarrow> st | Some w \<Rightarrow> st \<lparr> errors := errors st @ [w] \<rparr>) = remoteState st"
  "importedCount (case warning of None \<Rightarrow> st | Some w \<Rightarrow> st \<lparr> errors := errors st @ [w] \<rparr>) = importedCount st"
  "updatedCount (case warning of None \<Rightarrow> st | Some w \<Rightarrow> st \<lparr> errors := errors st @ [w] \<rparr>) = updatedCount st"
  by (cases warning; simp)+

lemma importRow_calls:
  "validateRow eng idx (i + 2) r = Inr (productData, warning) \<Longrightarrow>
   calls (importRow eng svc idx i r st) =
     calls st @
     [case productCodeMap idx (toLowerCase (code productData)) of
        None \<Rightarrow> AddProductAdmin productData
      | Some p \<Rightarrow> UpdateProductAdmin (productData \<lparr> id' := Some (prod_id p) \<rparr>)]"
  by (simp add: importRow_accepted mutateRow_calls warned_calls)

text \<open>
  Claim C3, as the code has it. A row in which one of the six required fields is absent or
  \<^verbatim>\<open>null\<close> is turned away with one reason, the fixed message that names all six
  fields; nothing else of the row is checked, no counter moves and no call is made.
  The check is one of truthiness, though: it turns away in the same way a row whose
  title, code, category, manufacturer or image is present but empty, zero or
  \<^verbatim>\<open>false\<close>; only the price is tested for absence alone. A row is turned away with this
  reason, and leaves the pass in this state, exactly when the check fires.
\<close>

theorem required_field_gate:
  fixes st :: "'b importState"
  shows "((\<exists>k \<in> {''Title'', ''Code'', ''Price'', ''Category'', ''Manufacturer'', ''Image URL''}.
            isNullish (field r k)) \<longrightarrow>
          importRow eng svc idx i r st = st \<lparr> errors := errors st @ [missingRequiredReason (i + 2)] \<rparr>) \<and>
         (importRow eng svc idx i r st = st \<lparr> errors := errors st @ [missingRequiredReason (i + 2)] \<rparr> \<longleftrightarrow>
            \<not> truthy (field r ''Title'') \<or> \<not> truthy (field r ''Code'') \<or>
            isNullish (field r ''Price'') \<or> \<not> truthy (field r ''Category'') \<or>
            \<not> truthy (field r ''Manufacturer'') \<or> \<not> truthy (field r ''Image URL'')) \<and>
         (validateRow eng idx (i + 2) r = Inl (missingRequiredReason (i + 2)) \<longleftrightarrow>
            \<not> truthy (field r ''Title'') \<or> \<not> truthy (field r ''Code'') \<or>
            isNullish (field r ''Price'') \<or> \<not> truthy (field r ''Category'') \<or>
            \<not> truthy (field r ''Manufacturer'') \<or> \<not> truthy (field r ''Image URL''))"
proof -
  let ?turned = "st \<lparr> errors := errors st @ [missingRequiredReason (i + 2)] \<rparr>"
  have fires: "validateRow eng idx (i + 2) r = Inl (missingRequiredReason (i + 2)) \<longleftrightarrow> missingRequired r"
    using validateRow_missing validateRow_not_missing by blast
  have absent: "missingRequired r"
    if "\<exists>k \<in> {''Title'', ''Code'', ''Price'', ''Category'', ''Manufacturer'', ''Image URL''}.
          isNullish (field r k)"
    using that nullish_not_truthy by (auto simp: missingRequired_def)
  have turned: "importRow eng svc idx i r st = ?turned" if "missingRequired r"
    using that fires importRow_rejected [of eng idx i r "missingRequiredReason (i + 2)" svc st]
    by simp
  have passed: "importRow eng svc idx i r st \<noteq> ?turned" if "\<not> missingRequired r"
  proof (cases "validateRow eng idx (i + 2) r")
    case (Inl reason)
    with that fires have "reason \<noteq> missingRequiredReason (i + 2)" by auto
    moreover from importRow_rejected [OF Inl, of svc st]
    have "errors (importRow eng svc idx i r st) = errors st @ [reason]" by simp
    ultimately have "errors (importRow eng svc idx i r st) \<noteq> errors ?turned" by simp
    then show ?thesis by auto
  next
    case (Inr accepted)
    obtain productData warning where "accepted = (productData, warning)"
      by (cases accepted) auto
    with Inr have "validateRow eng idx (i + 2) r = Inr (productData, warning)" by simp
    from importRow_calls [OF this, of svc st]
    have "calls (importRow eng svc idx i r st) \<noteq> calls ?turned" by simp
    then show ?thesis by auto
  qed
  have effect: "importRow eng svc idx i r st = ?turned \<longleftrightarrow> missingRequired r"
    using turned passed by blast
  show ?thesis
  proof (intro conjI)
    show "(\<exists>k \<in> {''Title'', ''Code'', ''Price'', ''Category'', ''Manufacturer'', ''Image URL''}.
            isNullish (field r k)) \<longrightarrow> importRow eng svc idx i r st = ?turned"
      by (intro impI) (rule turned, rule absent)
    show "importRow eng svc idx i r st = ?turned \<longleftrightarrow>
            \<not> truthy (field r ''Title'') \<or> \<not> truthy (field r ''Code'') \<or>
            isNullish (field r ''Price'') \<or> \<not> truthy (field r ''Category'') \<or>
            \<not> truthy (field r ''Manufacturer'') \<or> \<not> truthy (field r ''Image URL'')"
      using effect by (simp only: missingRequired_def)
    show "validateRow eng idx (i + 2) r = Inl (missingRequiredReason (i + 2)) \<longleftrightarrow>
            \<not> truthy (field r ''Title'') \<or> \<not> truthy (field r ''Code'') \<or>
            isNullish (field r ''Price'') \<or> \<not> truthy (field r ''Category'') \<or>
            \<not> truthy (field r ''Manufacturer'') \<or> \<not> truthy (field r ''Image URL'')"
      using fires by (simp only: missingRequired_def)
  qed
qed

theorem required_field_gate_witness:
  "isNullish (field (exampleRow(''Title'' := None)) ''Title'') \<and>
   importRow exampleEngine alwaysOk exampleIndex 0 (exampleRow(''Title'' := None)) (initialState ()) =
     (initialState ()) \<lparr> errors := [missingRequiredReason 2] \<rparr> \<and>
   \<not> isNullish (field (exampleRow(''Image URL'' \<mapsto> Str [])) ''Image URL'') \<and>
   \<not> truthy (field (exampleRow(''Image URL'' \<mapsto> Str [])) ''Image URL'') \<and>
   importRow exampleEngine alwaysOk exampleIndex 0 (exampleRow(''Image URL'' \<mapsto> Str [])) (initialState ()) =
     (initialState ()) \<lparr> errors := [missingRequiredReason 2] \<rparr> \<and>
   validateRow exampleEngine exampleIndex 2 exampleRow \<noteq> Inl (missingRequiredReason 2) \<and>
   importRow exampleEngine alwaysOk exampleIndex 0 exampleRow (initialState ()) \<noteq>
     (initialState ()) \<lparr> errors := [missingRequiredReason 2] \<rparr>"
  using required_field_gate [where r = "exampleRow(''Title'' := None)" and eng = exampleEngine
          and svc = alwaysOk and idx = exampleIndex and i = 0 and st = "initialState ()"]
        required_field_gate [where r = "exampleRow(''Image URL'' \<mapsto> Str [])" and eng = exampleEngine
          and svc = alwaysOk and idx = exampleIndex and i = 0 and st = "initialState ()"]
        required_field_gate [where r = exampleRow and eng = exampleEngine
          and svc = alwaysOk and idx = exampleIndex and i = 0 and st = "initialState ()"]
  by (simp add: exampleRow_def cell_eval initialState_def)

text \<open>
  A row can have all six fields present and not \<^verbatim>\<open>null\<close> and still be turned away by
  this check: a numeric code \<open>0\<close> is falsy.
\<close>

theorem required_field_gate_counterexample:
  "\<not> isNullish (field (exampleRow(''Code'' \<mapsto> Num (Fin 0))) ''Title'') \<and>
   \<not> isNullish (field (exampleRow(''Code'' \<mapsto> Num (Fin 0))) ''Code'') \<and>
   \<not> isNullish (field (exampleRow(''Code'' \<mapsto> Num (Fin 0))) ''Price'') \<and>
   \<not> isNullish (field (exampleRow(''Code'' \<mapsto> Num (Fin 0))) ''Category'') \<and>
   \<not> isNullish (field (exampleRow(''Code'' \<mapsto> Num (Fin 0))) ''Manufacturer'') \<and>
   \<not> isNullish (field (exampleRow(''Code'' \<mapsto> Num (Fin 0))) ''Image URL'') \<and>
   importRow exampleEngine alwaysOk exampleIndex 0 (exampleRow(''Code'' \<mapsto> Num (Fin 0))) (initialState ()) =
     (initialState ()) \<lparr> errors := [missingRequiredReason 2] \<rparr>"
  by (simp add: exampleRow_def cell_eval initialState_def importRow_def validateRow_def missingRequired_def)

section \<open>Visibility\<close>

lemma validateRow_visible:
  "validateRow eng idx rowIndex r = Inr (productData, warning) \<Longrightarrow>
   isVisible productData = visibleOf (field r ''Is Visible'')"
  unfolding validateRow_def Let_def
  by (auto split: if_splits option.splits sum.splits)

lemma exampleRow_valid:
  "validateRow exampleEngine exampleIndex 2 exampleRow = Inr (exampleData, Some (noSizesWarning 2))"
  by (simp add: eval_simps)

text \<open>
  Claim C5, as the code has it. The record of a row is visible exactly when the
  \<^verbatim>\<open>Is Visible\<close> cell is absent or otherwise falsy (empty, zero, \<^verbatim>\<open>false\<close>), or its text
  is \<^verbatim>\<open>yes\<close> or \<^verbatim>\<open>true\<close> in any letter case. A cell with any other content makes the
  record hidden; in particular an absent column leaves every record visible.
\<close>

theorem visibility_parsing:
  assumes "validateRow eng idx rowIndex r = Inr (productData, warning)"
  shows "(isVisible productData \<longleftrightarrow>
            \<not> truthy (field r ''Is Visible'') \<or>
            toLowerCase (toString (field r ''Is Visible'')) = ''yes'' \<or>
            toLowerCase (toString (field r ''Is Visible'')) = ''true'') \<and>
         (r ''Is Visible'' = None \<longrightarrow> isVisible productData)"
  using validateRow_visible [OF assms]
  by (auto simp: visibleOf_def field_def truthy_def)

theorem visibility_parsing_witness:
  "validateRow exampleEngine exampleIndex 2 (exampleRow(''Is Visible'' \<mapsto> Str ''YES'')) =
     Inr (exampleData, Some (noSizesWarning 2)) \<and>
   toLowerCase (toString (field (exampleRow(''Is Visible'' \<mapsto> Str ''YES'')) ''Is Visible'')) = ''yes'' \<and>
   isVisible exampleData \<and>
   validateRow exampleEngine exampleIndex 2 exampleRow = Inr (exampleData, Some (noSizesWarning 2)) \<and>
   exampleRow ''Is Visible'' = None"
proof -
  have yes: "validateRow exampleEngine exampleIndex 2 (exampleRow(''Is Visible'' \<mapsto> Str ''YES'')) =
               Inr (exampleData, Some (noSizesWarning 2))"
    by (simp add: eval_simps)
  have lower: "toLowerCase (toString (field (exampleRow(''Is Visible'' \<mapsto> Str ''YES'')) ''Is Visible'')) = ''yes''"
    by (simp add: eval_simps)
  have absent: "exampleRow ''Is Visible'' = None"
    by (simp add: exampleRow_def)
  from visibility_parsing [OF yes] visibility_parsing [OF exampleRow_valid] lower absent
  have "isVisible exampleData" by blast
  with yes lower absent exampleRow_valid show ?thesis by blast
qed

text \<open>
  The text \<^verbatim>\<open>no\<close> is not one of the two affirmative tokens, and the record is hidden.
\<close>

theorem visibility_parsing_counterexample:
  "truthy (field (exampleRow(''Is Visible'' \<mapsto> Str ''no'')) ''Is Visible'') \<and>
   toLowerCase (toString (field (exampleRow(''Is Visible'' \<mapsto> Str ''no'')) ''Is Visible'')) \<noteq> ''yes'' \<and>
   toLowerCase (toString (field (exampleRow(''Is Visible'' \<mapsto> Str ''no'')) ''Is Visible'')) \<noteq> ''true'' \<and>
   validateRow exampleEngine exampleIndex 2 (exampleRow(''Is Visible'' \<mapsto> Str ''no'')) =
     Inr (exampleData \<lparr> isVisible := False \<rparr>, Some (noSizesWarning 2))"
  by (simp add: eval_simps)

section \<open>Category and manufacturer\<close>

lemma validateRow_category:
  "\<not> missingRequired r \<Longrightarrow> lookupId (categoryMap idx) (field r ''Category'') = None \<Longrightarrow>
   validateRow eng idx rowIndex r = Inl (notFoundReason rowIndex ''Category'' (field r ''Category''))"
  by (simp add: validateRow_def)

lemma validateRow_manufacturer:
  "\<not> missingRequired r \<Longrightarrow> lookupId (categoryMap idx) (field r ''Category'') = Some c \<Longrightarrow>
   lookupId (manufacturerMap idx) (field r ''Manufacturer'') = None \<Longrightarrow>
   validateRow eng idx rowIndex r = Inl (notFoundReason rowIndex ''Manufacturer'' (field r ''Manufacturer''))"
  by (simp add: validateRow_def)

lemma mapOfEntries_None: "mapOfEntries kvs k = None \<longleftrightarrow> k \<notin> fst ` set kvs"
  by (simp add: mapOfEntries_def map_of_eq_None_iff)

lemma categoryMap_None:
  "categoryMap (buildIndex cs ms ps) k = None \<longleftrightarrow> (\<forall>c \<in> set cs. toLowerCase (cat_name c) \<noteq> k)"
  by (auto simp: buildIndex_def mapOfEntries_None image_iff)

lemma manufacturerMap_None:
  "manufacturerMap (buildIndex cs ms ps) k = None \<longleftrightarrow> (\<forall>m \<in> set ms. toLowerCase (man_name m) \<noteq> k)"
  by (auto simp: buildIndex_def mapOfEntries_None image_iff)

text \<open>
  Claim C6, as the code has it. The lookups are by lower-cased name in maps built from
  the categories and manufacturers. A row that has its required fields and whose category
  is not found is turned away with the one reason that names the category as the cell
  gives it, and nothing further of the row is checked: the manufacturer, the price and
  the sizes add no reason, and no call is made. When the category is found and the
  manufacturer is not, the one reason names the manufacturer.
\<close>

theorem unresolved_reference:
  fixes st :: "'b importState"
  assumes "\<not> missingRequired r"
  shows "(lookupId (categoryMap idx) (field r ''Category'') = None \<longrightarrow>
            importRow eng svc idx i r st =
              st \<lparr> errors := errors st @
                     [rowPrefix (i + 2) @ '': Category \"'' @ toString (field r ''Category'') @
                      ''\" not found.''] \<rparr>) \<and>
         (lookupId (categoryMap idx) (field r ''Category'') \<noteq> None \<and>
          lookupId (manufacturerMap idx) (field r ''Manufacturer'') = None \<longrightarrow>
            importRow eng svc idx i r st =
              st \<lparr> errors := errors st @
                     [rowPrefix (i + 2) @ '': Manufacturer \"'' @ toString (field r ''Manufacturer'') @
                      ''\" not found.''] \<rparr>) \<and>
         (categoryMap (buildIndex cs ms ps) (toLowerCase (toString (field r ''Category''))) = None \<longleftrightarrow>
            (\<forall>c \<in> set cs. toLowerCase (cat_name c) \<noteq> toLowerCase (toString (field r ''Category'')))) \<and>
         (manufacturerMap (buildIndex cs ms ps) (toLowerCase (toString (field r ''Manufacturer''))) = None \<longleftrightarrow>
            (\<forall>m \<in> set ms. toLowerCase (man_name m) \<noteq> toLowerCase (toString (field r ''Manufacturer''))))"
proof -
  have "importRow eng svc idx i r st =
          st \<lparr> errors := errors st @ [notFoundReason (i + 2) ''Category'' (field r ''Category'')] \<rparr>"
    if "lookupId (categoryMap idx) (field r ''Category'') = None"
    using assms that by (simp add: importRow_rejected validateRow_category)
  moreover have "importRow eng svc idx i r st =
          st \<lparr> errors := errors st @ [notFoundReason (i + 2) ''Manufacturer'' (field r ''Manufacturer'')] \<rparr>"
    if "lookupId (categoryMap idx) (field r ''Category'') \<noteq> None"
       "lookupId (manufacturerMap idx) (field r ''Manufacturer'') = None"
    using assms that by (auto simp: importRow_rejected validateRow_manufacturer)
  ultimately show ?thesis
    by (simp add: notFoundReason_def categoryMap_None manufacturerMap_None)
qed

theorem unresolved_reference_witness:
  "\<not> missingRequired (exampleRow(''Manufacturer'' \<mapsto> Str ''Nobody'')) \<and>
   lookupId (categoryMap exampleIndex)
     (field (exampleRow(''Manufacturer'' \<mapsto> Str ''Nobody'')) ''Category'') \<noteq> None \<and>
   lookupId (manufacturerMap exampleIndex)
     (field (exampleRow(''Manufacturer'' \<mapsto> Str ''Nobody'')) ''Manufacturer'') = None \<and>
   importRow exampleEngine alwaysOk exampleIndex 0 (exampleRow(''Manufacturer'' \<mapsto> Str ''Nobody'')) (initialState ()) =
     (initialState ()) \<lparr> errors := [''Row 2: Manufacturer \"Nobody\" not found.''] \<rparr>"
proof -
  let ?r = "exampleRow(''Manufacturer'' \<mapsto> Str ''Nobody'')"
  have req: "\<not> missingRequired ?r"
    by (simp add: exampleRow_def missingRequired_def cell_eval)
  have cat: "lookupId (categoryMap exampleIndex) (field ?r ''Category'') \<noteq> None"
    by (simp add: eval_simps)
  have man: "lookupId (manufacturerMap exampleIndex) (field ?r ''Manufacturer'') = None"
    by (simp add: eval_simps)
  have msg: "rowPrefix (0 + 2) @ '': Manufacturer \"'' @ toString (field ?r ''Manufacturer'') @
               ''\" not found.'' = ''Row 2: Manufacturer \"Nobody\" not found.''"
    by (simp add: exampleRow_def rowPrefix_def showNat_digit digitChar_def cell_eval)
  from unresolved_reference [OF req, where idx = exampleIndex and eng = exampleEngine and svc = alwaysOk and i = 0
         and st = "initialState ()"] cat man
  have "importRow exampleEngine alwaysOk exampleIndex 0 ?r (initialState ()) =
          (initialState ()) \<lparr> errors := errors (initialState ()) @
             [rowPrefix (0 + 2) @ '': Manufacturer \"'' @ toString (field ?r ''Manufacturer'') @
              ''\" not found.''] \<rparr>"
    by blast
  then show ?thesis
    using req cat man by (simp only: msg) (simp add: initialState_def)
qed

text \<open>
  A row whose category, manufacturer and price are all bad gets the category's reason
  alone: the reasons do not accumulate.
\<close>

theorem unresolved_reference_counterexample:
  "\<not> missingRequired
       (exampleRow(''Category'' \<mapsto> Str ''Hats'', ''Manufacturer'' \<mapsto> Str ''Nobody'',
                   ''Price'' \<mapsto> Str ''free'')) \<and>
   lookupId (categoryMap exampleIndex) (Str ''Hats'') = None \<and>
   lookupId (manufacturerMap exampleIndex) (Str ''Nobody'') = None \<and>
   isNaN (parseFloat ''free'') \<and>
   errors (importRow exampleEngine alwaysOk exampleIndex 0
             (exampleRow(''Category'' \<mapsto> Str ''Hats'', ''Manufacturer'' \<mapsto> Str ''Nobody'',
                         ''Price'' \<mapsto> Str ''free''))
             (initialState ())) =
     [''Row 2: Category \"Hats\" not found.'']"
  by (simp add: eval_simps del: add_2_eq_Suc add_2_eq_Suc')

section \<open>Sizes and stock\<close>

lemma validateRow_sizes_rejected:
  "reachesSizes idx r \<Longrightarrow> sizesOfRow eng rowIndex r = Inl reason \<Longrightarrow>
   validateRow eng idx rowIndex r = Inl reason"
  unfolding reachesSizes_def validateRow_def Let_def
  by (auto split: option.splits)

lemma validateRow_sizes_rejected_anyway:
  "sizesOfRow eng rowIndex r = Inl reason \<Longrightarrow> \<exists>reason'. validateRow eng idx rowIndex r = Inl reason'"
  unfolding validateRow_def Let_def
  by (auto split: option.splits)

lemma validateRow_sizes_accepted:
  "reachesSizes idx r \<Longrightarrow> sizesOfRow eng rowIndex r = Inr (s, w) \<Longrightarrow>
   \<exists>productData. validateRow eng idx rowIndex r = Inr (productData, w) \<and> sizes productData = s \<and>
      code productData = toString (field r ''Code'')"
  unfolding reachesSizes_def validateRow_def Let_def
  by (auto split: option.splits)

lemma mutateRow_errors_prefix:
  "\<exists>more. errors (mutateRow svc idx rowIndex productData st) = errors st @ more"
  unfolding mutateRow_def Let_def
  by (auto split: option.splits prod.splits)

lemma every_True: "every f xs = Inr True \<longleftrightarrow> (\<forall>x \<in> set xs. f x = Inr True)"
  by (induction xs) (auto split: sum.splits)

lemma every_at:
  "k < length xs \<Longrightarrow> \<forall>j < k. f (xs ! j) = Inr True \<Longrightarrow>
   every f xs =
     (case f (xs ! k) of
        Inl e \<Rightarrow> Inl e
      | Inr ok \<Rightarrow> (if ok then every f (drop (Suc k) xs) else Inr False))"
proof (induction xs arbitrary: k)
  case Nil
  then show ?case by simp
next
  case (Cons x xs)
  show ?case
  proof (cases k)
    case 0
    then show ?thesis by (simp split: sum.splits)
  next
    case (Suc k')
    from Cons.prems(2) Suc have first: "f x = Inr True" by force
    from Cons.prems(2) Suc have "\<forall>j < k'. f (xs ! j) = Inr True" by force
    with Cons.IH [of k'] Cons.prems(1) Suc first show ?thesis
      by (simp split: sum.splits)
  qed
qed

lemma sizeStockOk_True:
  "sizeStockOk eng x = Inr True \<longleftrightarrow>
     (\<exists>sz. getProp x (codeUnits ''size'') = Some (JStr sz)) \<and>
     (\<exists>n. getProp x (codeUnits ''stock'') = Some (JNum n) \<and> num_ge n 0)"
  by (cases x) (auto simp: sizeStockOk_def getProp_def split: option.splits json.splits)

lemma sizeStockOk_value:
  "x \<noteq> JNull \<Longrightarrow>
   sizeStockOk eng x =
     Inr ((\<exists>sz. getProp x (codeUnits ''size'') = Some (JStr sz)) \<and>
          (\<exists>n. getProp x (codeUnits ''stock'') = Some (JNum n) \<and> num_ge n 0))"
  by (cases x) (auto simp: sizeStockOk_def getProp_def split: option.splits json.splits)

lemma JSON_parse_throws:
  "JSON_parse eng s = Inl e \<Longrightarrow> e = SyntaxError (syntaxErrorMessage eng s)"
  by (auto simp: JSON_parse_def split: option.splits)

lemma structured_accepted_iff:
  assumes "cellText (field r ''SizesStockJSON'') = s" and "s \<noteq> []"
  shows "sizesOfRow eng rowIndex r = Inr (s, None) \<longleftrightarrow>
           (\<exists>xs. JSON_parse eng s = Inr (JArr xs) \<and> every (sizeStockOk eng) xs = Inr True)"
  using assms unfolding sizesOfRow_def Let_def validSizeStockArray_def
  by (auto split: sum.splits json.splits)

lemma structured_not_json:
  assumes "cellText (field r ''SizesStockJSON'') = s" and "s \<noteq> []"
    and "JSON_parse eng s = Inl e"
  shows "sizesOfRow eng rowIndex r =
           Inl (rowPrefix rowIndex @ '': 'SizesStockJSON' (\"'' @ s @ ''\") is not valid JSON. '' @
                exnText e)"
  using assms unfolding sizesOfRow_def Let_def
  by simp

lemma structured_throws:
  assumes "cellText (field r ''SizesStockJSON'') = s" and "s \<noteq> []"
    and "JSON_parse eng s = Inr (JArr xs)" and "every (sizeStockOk eng) xs = Inl e"
  shows "sizesOfRow eng rowIndex r =
           Inl (rowPrefix rowIndex @ '': 'SizesStockJSON' (\"'' @ s @ ''\") is not valid JSON. '' @
                exnText e)"
  using assms unfolding sizesOfRow_def Let_def validSizeStockArray_def
  by simp

lemma structured_not_array:
  assumes "cellText (field r ''SizesStockJSON'') = s" and "s \<noteq> []"
    and "JSON_parse eng s = Inr parsed"
    and "\<forall>xs. parsed = JArr xs \<longrightarrow> every (sizeStockOk eng) xs = Inr False"
  shows "sizesOfRow eng rowIndex r =
           Inl (rowPrefix rowIndex @ '': 'SizesStockJSON' (\"'' @ s @
                ''\") is not a valid array of {size: string, stock: number (>=0)}.'')"
  using assms unfolding sizesOfRow_def Let_def validSizeStockArray_def
  by (cases parsed) simp_all

lemma structured_rejected:
  assumes "cellText (field r ''SizesStockJSON'') = s" and "s \<noteq> []"
    and "sizesOfRow eng rowIndex r \<noteq> Inr (s, None)"
  shows "\<exists>reason. sizesOfRow eng rowIndex r = Inl reason"
  using assms unfolding sizesOfRow_def Let_def
  by (auto split: sum.splits if_splits)

text \<open>
  Claim C7, as the code has it. A row that reaches the sizes block with a non-empty
  \<^verbatim>\<open>SizesStockJSON\<close> text is accepted there exactly when the text parses as a JSON
  array in which every element has a string \<^verbatim>\<open>size\<close> and a number \<^verbatim>\<open>stock\<close> that is
  at least \<open>0\<close>; the text itself becomes the sizes of the record, and the row goes on to
  its one insert or update. The size may be the empty string and the stock need not be
  an integer. Any other text turns the row away with one reason and no call, whether or
  not the row reaches the block. For a row that reaches it the reason quotes the text
  and gives the detail: a text that is no JSON is ``not valid JSON'', followed by the
  syntax error as the engine prints it; an array in which the first element that is no
  such pair is \<^verbatim>\<open>null\<close> gets the same words, followed by the type error of reading a
  property of \<^verbatim>\<open>null\<close>; a value that is no array, and an array whose first failing
  element is not \<^verbatim>\<open>null\<close>, is ``not a valid array''.
\<close>

theorem structured_payload:
  fixes st :: "'b importState"
  assumes "cellText (field r ''SizesStockJSON'') = s" and "s \<noteq> []"
    and "\<And>x. ok x \<longleftrightarrow>
           (\<exists>sz. getProp x (codeUnits ''size'') = Some (JStr sz)) \<and>
           (\<exists>n. getProp x (codeUnits ''stock'') = Some (JNum n) \<and> num_ge n 0)"
    and "valid \<longleftrightarrow> (\<exists>xs. JSON_parse eng s = Inr (JArr xs) \<and> (\<forall>x \<in> set xs. ok x))"
  shows "(\<not> valid \<longrightarrow>
            (\<exists>reason. importRow eng svc idx i r st = st \<lparr> errors := errors st @ [reason] \<rparr>)) \<and>
         (reachesSizes idx r \<and> valid \<longrightarrow>
            (\<exists>productData.
               validateRow eng idx (i + 2) r = Inr (productData, None) \<and> sizes productData = s \<and>
               importRow eng svc idx i r st = mutateRow svc idx (i + 2) productData st \<and>
               calls (importRow eng svc idx i r st) =
                 calls st @
                 [case productCodeMap idx (toLowerCase (code productData)) of
                    None \<Rightarrow> AddProductAdmin productData
                  | Some p \<Rightarrow> UpdateProductAdmin (productData \<lparr> id' := Some (prod_id p) \<rparr>)])) \<and>
         (reachesSizes idx r \<and> (\<forall>parsed. JSON_parse eng s \<noteq> Inr parsed) \<longrightarrow>
            importRow eng svc idx i r st =
              st \<lparr> errors := errors st @
                     [rowPrefix (i + 2) @ '': 'SizesStockJSON' (\"'' @ s @ ''\") is not valid JSON. '' @
                      errorToString ''SyntaxError'' (syntaxErrorMessage eng s)] \<rparr>) \<and>
         (\<forall>xs k. reachesSizes idx r \<and> JSON_parse eng s = Inr (JArr xs) \<and>
                 k < length xs \<and> xs ! k = JNull \<and> (\<forall>j < k. ok (xs ! j)) \<longrightarrow>
            importRow eng svc idx i r st =
              st \<lparr> errors := errors st @
                     [rowPrefix (i + 2) @ '': 'SizesStockJSON' (\"'' @ s @ ''\") is not valid JSON. '' @
                      errorToString ''TypeError'' (typeErrorMessage eng)] \<rparr>) \<and>
         (\<forall>xs k. reachesSizes idx r \<and> JSON_parse eng s = Inr (JArr xs) \<and>
                 k < length xs \<and> xs ! k \<noteq> JNull \<and> \<not> ok (xs ! k) \<and> (\<forall>j < k. ok (xs ! j)) \<longrightarrow>
            importRow eng svc idx i r st =
              st \<lparr> errors := errors st @
                     [rowPrefix (i + 2) @ '': 'SizesStockJSON' (\"'' @ s @
                      ''\") is not a valid array of {size: string, stock: number (>=0)}.''] \<rparr>) \<and>
         (\<forall>parsed. reachesSizes idx r \<and> JSON_parse eng s = Inr parsed \<and> (\<forall>xs. parsed \<noteq> JArr xs) \<longrightarrow>
            importRow eng svc idx i r st =
              st \<lparr> errors := errors st @
                     [rowPrefix (i + 2) @ '': 'SizesStockJSON' (\"'' @ s @
                      ''\") is not a valid array of {size: string, stock: number (>=0)}.''] \<rparr>)"
proof -
  have okTrue: "sizeStockOk eng x = Inr True \<longleftrightarrow> ok x" for x
    by (simp add: sizeStockOk_True assms(3))
  have iff: "sizesOfRow eng (i + 2) r = Inr (s, None) \<longleftrightarrow> valid"
    using structured_accepted_iff [OF assms(1,2), of eng "i + 2"]
    by (simp add: every_True okTrue assms(4))
  have rejected: "importRow eng svc idx i r st = st \<lparr> errors := errors st @ [reason] \<rparr>"
    if "reachesSizes idx r" "sizesOfRow eng (i + 2) r = Inl reason" for reason
    using importRow_rejected [OF validateRow_sizes_rejected [OF that]] .
  have accepted: "\<exists>productData.
             validateRow eng idx (i + 2) r = Inr (productData, None) \<and> sizes productData = s \<and>
             importRow eng svc idx i r st = mutateRow svc idx (i + 2) productData st \<and>
             calls (importRow eng svc idx i r st) =
               calls st @
               [case productCodeMap idx (toLowerCase (code productData)) of
                  None \<Rightarrow> AddProductAdmin productData
                | Some p \<Rightarrow> UpdateProductAdmin (productData \<lparr> id' := Some (prod_id p) \<rparr>)]"
    if "reachesSizes idx r" valid
  proof -
    from that(2) iff have "sizesOfRow eng (i + 2) r = Inr (s, None)" by simp
    from validateRow_sizes_accepted [OF that(1) this]
    obtain productData where v: "validateRow eng idx (i + 2) r = Inr (productData, None)"
      and "sizes productData = s" by blast
    then show ?thesis
      using importRow_accepted [OF v, of svc st] importRow_calls [OF v, of svc st] by auto
  qed
  have anyway: "\<exists>reason. importRow eng svc idx i r st = st \<lparr> errors := errors st @ [reason] \<rparr>"
    if "\<not> valid"
  proof -
    from that iff have "sizesOfRow eng (i + 2) r \<noteq> Inr (s, None)" by simp
    from structured_rejected [OF assms(1,2) this]
    obtain why where "sizesOfRow eng (i + 2) r = Inl why" by blast
    from validateRow_sizes_rejected_anyway [OF this, of idx]
    obtain reason' where "validateRow eng idx (i + 2) r = Inl reason'" by blast
    from importRow_rejected [OF this] show ?thesis by blast
  qed
  have noJson: "importRow eng svc idx i r st =
              st \<lparr> errors := errors st @
                     [rowPrefix (i + 2) @ '': 'SizesStockJSON' (\"'' @ s @ ''\") is not valid JSON. '' @
                      errorToString ''SyntaxError'' (syntaxErrorMessage eng s)] \<rparr>"
    if "reachesSizes idx r" "\<forall>parsed. JSON_parse eng s \<noteq> Inr parsed"
  proof -
    from that(2) obtain e where e: "JSON_parse eng s = Inl e"
      by (cases "JSON_parse eng s") auto
    from JSON_parse_throws [OF e] have "exnText e = errorToString ''SyntaxError'' (syntaxErrorMessage eng s)"
      by (simp add: exnText_def)
    with rejected [OF that(1) structured_not_json [OF assms(1,2) e]] show ?thesis by simp
  qed
  have null: "importRow eng svc idx i r st =
              st \<lparr> errors := errors st @
                     [rowPrefix (i + 2) @ '': 'SizesStockJSON' (\"'' @ s @ ''\") is not valid JSON. '' @
                      errorToString ''TypeError'' (typeErrorMessage eng)] \<rparr>"
    if "reachesSizes idx r" "JSON_parse eng s = Inr (JArr xs)" "k < length xs" "xs ! k = JNull"
       "\<forall>j < k. ok (xs ! j)" for xs k
  proof -
    from that(5) have before: "\<forall>j < k. sizeStockOk eng (xs ! j) = Inr True"
      by (simp add: okTrue)
    have "sizeStockOk eng (xs ! k) = Inl (TypeError (typeErrorMessage eng))"
      by (simp add: that(4) sizeStockOk_def)
    with every_at [OF that(3) before]
    have "every (sizeStockOk eng) xs = Inl (TypeError (typeErrorMessage eng))" by simp
    from rejected [OF that(1) structured_throws [OF assms(1,2) that(2) this]] show ?thesis
      by (simp add: exnText_def)
  qed
  have element: "importRow eng svc idx i r st =
              st \<lparr> errors := errors st @
                     [rowPrefix (i + 2) @ '': 'SizesStockJSON' (\"'' @ s @
                      ''\") is not a valid array of {size: string, stock: number (>=0)}.''] \<rparr>"
    if "reachesSizes idx r" "JSON_parse eng s = Inr (JArr xs)" "k < length xs" "xs ! k \<noteq> JNull"
       "\<not> ok (xs ! k)" "\<forall>j < k. ok (xs ! j)" for xs k
  proof -
    from that(6) have before: "\<forall>j < k. sizeStockOk eng (xs ! j) = Inr True"
      by (simp add: okTrue)
    have "sizeStockOk eng (xs ! k) = Inr False"
      using sizeStockOk_value [OF that(4), of eng] that(5) by (simp add: assms(3))
    with every_at [OF that(3) before]
    have "every (sizeStockOk eng) xs = Inr False" by simp
    then have "\<forall>ys. JArr xs = JArr ys \<longrightarrow> every (sizeStockOk eng) ys = Inr False" by simp
    from rejected [OF that(1) structured_not_array [OF assms(1,2) that(2) this]] show ?thesis .
  qed
  have other: "importRow eng svc idx i r st =
              st \<lparr> errors := errors st @
                     [rowPrefix (i + 2) @ '': 'SizesStockJSON' (\"'' @ s @
                      ''\") is not a valid array of {size: string, stock: number (>=0)}.''] \<rparr>"
    if "reachesSizes idx r" "JSON_parse eng s = Inr parsed" "\<forall>xs. parsed \<noteq> JArr xs" for parsed
  proof -
    from that(3) have "\<forall>xs. parsed = JArr xs \<longrightarrow> every (sizeStockOk eng) xs = Inr False" by simp
    from rejected [OF that(1) structured_not_array [OF assms(1,2) that(2) this]] show ?thesis .
  qed
  show ?thesis
  proof (intro conjI allI impI)
    show "\<exists>reason. importRow eng svc idx i r st = st \<lparr> errors := errors st @ [reason] \<rparr>" if "\<not> valid"
      using anyway [OF that] .
  qed (use accepted noJson null element other in blast)+
qed

theorem structured_payload_witness:
  "reachesSizes exampleIndex
     (exampleRow(''SizesStockJSON'' \<mapsto> Str (''[{\"size\":\"'' @ [CHR 0x5C] @ ''u0161\",\"stock\":1}] ''))) \<and>
   cellText (field (exampleRow(''SizesStockJSON'' \<mapsto>
                      Str (''[{\"size\":\"'' @ [CHR 0x5C] @ ''u0161\",\"stock\":1}] '')))
               ''SizesStockJSON'') = ''[{\"size\":\"'' @ [CHR 0x5C] @ ''u0161\",\"stock\":1}]'' \<and>
   JSON_parse exampleEngine (''[{\"size\":\"'' @ [CHR 0x5C] @ ''u0161\",\"stock\":1}]'') =
     Inr (JArr [JObj [(codeUnits ''size'', JStr [0x161]), (codeUnits ''stock'', JNum (Fin 1))]]) \<and>
   (\<exists>productData.
      validateRow exampleEngine exampleIndex 2
        (exampleRow(''SizesStockJSON'' \<mapsto> Str (''[{\"size\":\"'' @ [CHR 0x5C] @ ''u0161\",\"stock\":1}] ''))) =
        Inr (productData, None) \<and>
      sizes productData = ''[{\"size\":\"'' @ [CHR 0x5C] @ ''u0161\",\"stock\":1}]'' \<and>
      calls (importRow exampleEngine alwaysOk exampleIndex 0
               (exampleRow(''SizesStockJSON'' \<mapsto>
                  Str (''[{\"size\":\"'' @ [CHR 0x5C] @ ''u0161\",\"stock\":1}] '')))
               (initialState ())) = [AddProductAdmin productData]) \<and>
   importRow exampleEngine alwaysOk exampleIndex 0 (exampleRow(''SizesStockJSON'' \<mapsto> Str ''{\"S\":1}''))
     (initialState ()) =
     (initialState ())
       \<lparr> errors := [''Row 2: 'SizesStockJSON' (\"{\"S\":1}\") is not a valid array of {size: string, stock: number (>=0)}.''] \<rparr> \<and>
   importRow exampleEngine alwaysOk exampleIndex 0 (exampleRow(''SizesStockJSON'' \<mapsto> Str ''[1,''))
     (initialState ()) =
     (initialState ())
       \<lparr> errors := [''Row 2: 'SizesStockJSON' (\"[1,\") is not valid JSON. SyntaxError: Unexpected token in JSON''] \<rparr> \<and>
   importRow exampleEngine alwaysOk exampleIndex 0 (exampleRow(''SizesStockJSON'' \<mapsto> Str ''[null]''))
     (initialState ()) =
     (initialState ())
       \<lparr> errors := [''Row 2: 'SizesStockJSON' (\"[null]\") is not valid JSON. TypeError: Cannot read properties of null (reading 'size')''] \<rparr>"
proof -
  let ?text = "''[{\"size\":\"'' @ [CHR 0x5C] @ ''u0161\",\"stock\":1}]''"
  let ?good = "exampleRow(''SizesStockJSON'' \<mapsto> Str (''[{\"size\":\"'' @ [CHR 0x5C] @ ''u0161\",\"stock\":1}] ''))"
  let ?object = "exampleRow(''SizesStockJSON'' \<mapsto> Str ''{\"S\":1}'')"
  let ?broken = "exampleRow(''SizesStockJSON'' \<mapsto> Str ''[1,'')"
  let ?null = "exampleRow(''SizesStockJSON'' \<mapsto> Str ''[null]'')"
  let ?ok = "\<lambda>x. (\<exists>sz. getProp x (codeUnits ''size'') = Some (JStr sz)) \<and>
                 (\<exists>n. getProp x (codeUnits ''stock'') = Some (JNum n) \<and> num_ge n 0)"
  have reach: "reachesSizes exampleIndex ?good" "reachesSizes exampleIndex ?object"
      "reachesSizes exampleIndex ?broken" "reachesSizes exampleIndex ?null"
    by (simp_all add: eval_simps)
  have cell_good: "cellText (field ?good ''SizesStockJSON'') = ?text"
    and cell_object: "cellText (field ?object ''SizesStockJSON'') = ''{\"S\":1}''"
    and cell_broken: "cellText (field ?broken ''SizesStockJSON'') = ''[1,''"
    and cell_null: "cellText (field ?null ''SizesStockJSON'') = ''[null]''"
    by (simp_all add: cell_eval trim_def isWhiteSpace_def)
  have parse_good: "JSON_parse exampleEngine ?text =
     Inr (JArr [JObj [(codeUnits ''size'', JStr [0x161]), (codeUnits ''stock'', JNum (Fin 1))]])"
    by (simp add: eval_simps)
  have parse_object: "JSON_parse exampleEngine ''{\"S\":1}'' = Inr (JObj [(codeUnits ''S'', JNum (Fin 1))])"
    by (simp add: eval_simps)
  have parse_broken: "\<forall>parsed. JSON_parse exampleEngine ''[1,'' \<noteq> Inr parsed"
    by (simp add: eval_simps)
  have parse_null: "JSON_parse exampleEngine ''[null]'' = Inr (JArr [JNull])"
    by (simp add: eval_simps)
  have call: "productCodeMap exampleIndex (toLowerCase (toString (field ?good ''Code''))) = None"
    by (simp add: eval_simps)
  have valid: "\<exists>xs. JSON_parse exampleEngine ?text = Inr (JArr xs) \<and> (\<forall>x \<in> set xs. ?ok x)"
    unfolding parse_good by (simp add: getProp_def codeUnits_def num_ge_def)
  note good = structured_payload [OF cell_good _ refl refl, where eng = exampleEngine
      and svc = alwaysOk and i = 0 and st = "initialState ()" and idx = exampleIndex]
  note object = structured_payload [OF cell_object _ refl refl, where eng = exampleEngine
      and svc = alwaysOk and i = 0 and st = "initialState ()" and idx = exampleIndex]
  note broken = structured_payload [OF cell_broken _ refl refl, where eng = exampleEngine
      and svc = alwaysOk and i = 0 and st = "initialState ()" and idx = exampleIndex]
  note null = structured_payload [OF cell_null _ refl refl, where eng = exampleEngine
      and svc = alwaysOk and i = 0 and st = "initialState ()" and idx = exampleIndex]
  have first: "\<exists>productData.
      validateRow exampleEngine exampleIndex 2 ?good = Inr (productData, None) \<and>
      sizes productData = ?text \<and>
      calls (importRow exampleEngine alwaysOk exampleIndex 0 ?good (initialState ())) =
        [AddProductAdmin productData]"
  proof -
    from good reach(1) valid
    obtain productData where v: "validateRow exampleEngine exampleIndex (0 + 2) ?good = Inr (productData, None)"
      and s: "sizes productData = ?text"
      and c: "calls (importRow exampleEngine alwaysOk exampleIndex 0 ?good (initialState ())) =
                 calls (initialState ()) @
                 [case productCodeMap exampleIndex (toLowerCase (code productData)) of
                    None \<Rightarrow> AddProductAdmin productData
                  | Some p \<Rightarrow> UpdateProductAdmin (productData \<lparr> id' := Some (prod_id p) \<rparr>)]"
      by auto
    from validateRow_sizes_accepted [OF reach(1), of exampleEngine "0 + 2"] v
    have "code productData = toString (field ?good ''Code'')"
      by (cases "sizesOfRow exampleEngine (0 + 2) ?good") (auto simp: validateRow_def Let_def split: option.splits if_splits)
    with call c have "calls (importRow exampleEngine alwaysOk exampleIndex 0 ?good (initialState ())) =
        [AddProductAdmin productData]"
      by (simp add: initialState_def)
    with v s show ?thesis by auto
  qed
  have second: "importRow exampleEngine alwaysOk exampleIndex 0 ?object (initialState ()) =
     (initialState ())
       \<lparr> errors := [''Row 2: 'SizesStockJSON' (\"{\"S\":1}\") is not a valid array of {size: string, stock: number (>=0)}.''] \<rparr>"
    using object reach(2) parse_object
    by (simp add: initialState_def rowPrefix_def showNat_digit digitChar_def)
  have third: "importRow exampleEngine alwaysOk exampleIndex 0 ?broken (initialState ()) =
     (initialState ())
       \<lparr> errors := [''Row 2: 'SizesStockJSON' (\"[1,\") is not valid JSON. SyntaxError: Unexpected token in JSON''] \<rparr>"
    using broken reach(3) parse_broken
    by (simp add: initialState_def rowPrefix_def showNat_digit digitChar_def errorToString_def exampleEngine_def)
  have fourth: "importRow exampleEngine alwaysOk exampleIndex 0 ?null (initialState ()) =
     (initialState ())
       \<lparr> errors := [''Row 2: 'SizesStockJSON' (\"[null]\") is not valid JSON. TypeError: Cannot read properties of null (reading 'size')''] \<rparr>"
  proof -
    from null have "\<forall>xs k. reachesSizes exampleIndex ?null \<and> JSON_parse exampleEngine ''[null]'' = Inr (JArr xs) \<and>
                 k < length xs \<and> xs ! k = JNull \<and> (\<forall>j < k. ?ok (xs ! j)) \<longrightarrow>
            importRow exampleEngine alwaysOk exampleIndex 0 ?null (initialState ()) =
              (initialState ()) \<lparr> errors := errors (initialState ()) @
                     [rowPrefix (0 + 2) @ '': 'SizesStockJSON' (\"'' @ ''[null]'' @ ''\") is not valid JSON. '' @
                      errorToString ''TypeError'' (typeErrorMessage exampleEngine)] \<rparr>"
      by blast
    from this [rule_format, of "[JNull]" 0] reach(4) parse_null show ?thesis
      by (simp add: initialState_def rowPrefix_def showNat_digit digitChar_def errorToString_def exampleEngine_def)
  qed
  from reach(1) cell_good parse_good first second third fourth show ?thesis by blast
qed

text \<open>
  An element with an empty size and the stock \<open>1.5\<close> passes, and the row is inserted.
\<close>

theorem structured_payload_counterexample:
  "JSON_parse exampleEngine ''[{\"size\":\"\",\"stock\":1.5}]'' =
     Inr (JArr [JObj [(codeUnits ''size'', JStr []), (codeUnits ''stock'', JNum (Fin (3 / 2)))]]) \<and>
   importRow exampleEngine alwaysOk exampleIndex 0
     (exampleRow(''SizesStockJSON'' \<mapsto> Str ''[{\"size\":\"\",\"stock\":1.5}]'')) (initialState ()) =
     (initialState ())
       \<lparr> importedCount := 1,
         calls := [AddProductAdmin (exampleData \<lparr> sizes := ''[{\"size\":\"\",\"stock\":1.5}]'' \<rparr>)] \<rparr>"
  by (simp add: eval_simps)

subsection \<open>The parallel columns\<close>


lemma zipSizesStocks_ok:
  "length stockValues = length sizeNames \<Longrightarrow>
   \<forall>k < length sizeNames. sizeNames ! k \<noteq> [] \<and> \<not> isNaN (stockValues ! k) \<and> \<not> num_lt (stockValues ! k) 0 \<Longrightarrow>
   zipSizesStocks rowIndex j sizeNames stockValues rawStocks acc =
     Inr (acc @ map2 (\<lambda>n s. \<lparr> size' = n, stock = s \<rparr>) sizeNames stockValues)"
proof (induction sizeNames arbitrary: j stockValues rawStocks acc)
  case Nil
  then show ?case by simp
next
  case (Cons n ns)
  then obtain v vs where sv: "stockValues = v # vs"
    by (cases stockValues) auto
  from Cons.prems(2) sv have here: "n \<noteq> [] \<and> \<not> isNaN v \<and> \<not> num_lt v 0"
    by force
  from Cons.prems(2) sv
  have rest: "\<forall>k < length ns. ns ! k \<noteq> [] \<and> \<not> isNaN (vs ! k) \<and> \<not> num_lt (vs ! k) 0"
    by force
  from Cons.prems(1) sv have len: "length vs = length ns" by simp
  show ?case
    using here sv Cons.IH [OF len rest]
    by (simp add: positionCheck_def)
qed

lemma zipSizesStocks_first_failure:
  "length stockValues = length sizeNames \<Longrightarrow> length rawStocks = length sizeNames \<Longrightarrow>
   k < length sizeNames \<Longrightarrow>
   \<forall>k' < k. sizeNames ! k' \<noteq> [] \<and> \<not> isNaN (stockValues ! k') \<and> \<not> num_lt (stockValues ! k') 0 \<Longrightarrow>
   positionCheck rowIndex (j + k) (sizeNames ! k) (stockValues ! k) (trim (rawStocks ! k)) = Some reason \<Longrightarrow>
   zipSizesStocks rowIndex j sizeNames stockValues rawStocks acc = Inl reason"
proof (induction sizeNames arbitrary: j k stockValues rawStocks acc)
  case Nil
  then show ?case by simp
next
  case (Cons n ns)
  then obtain v vs w ws where sv: "stockValues = v # vs" and rw: "rawStocks = w # ws"
    by (cases stockValues; cases rawStocks) auto
  show ?case
  proof (cases k)
    case 0
    with Cons.prems(5) sv rw show ?thesis by simp
  next
    case (Suc k')
    from Cons.prems(4) Suc sv have here: "n \<noteq> [] \<and> \<not> isNaN v \<and> \<not> num_lt v 0"
      by force
    have "zipSizesStocks rowIndex (j + 1) ns vs ws (acc @ [\<lparr> size' = n, stock = v \<rparr>]) = Inl reason"
    proof (rule Cons.IH [where k = k'])
      show "length vs = length ns" using Cons.prems(1) sv by simp
      show "length ws = length ns" using Cons.prems(2) rw by simp
      show "k' < length ns" using Cons.prems(3) Suc by simp
      show "\<forall>k'' < k'. ns ! k'' \<noteq> [] \<and> \<not> isNaN (vs ! k'') \<and> \<not> num_lt (vs ! k'') 0"
        using Cons.prems(4) Suc sv by force
      show "positionCheck rowIndex (j + 1 + k') (ns ! k') (vs ! k') (trim (ws ! k')) = Some reason"
        using Cons.prems(5) Suc sv rw by simp
    qed
    with here sv rw show ?thesis
      by (simp add: positionCheck_def)
  qed
qed


lemma sizesOfRow_parallel:
  assumes "cellText (field r ''SizesStockJSON'') = []"
    and "cellText (field r ''Sizes'') = sizesList" and "sizesList \<noteq> []"
    and "cellText (field r ''Stocks'') = stocksList" and "stocksList \<noteq> []"
  shows "sizesOfRow eng rowIndex r =
     (let sizeNamesArray = map trim (split_str CHR '','' sizesList);
          rawStocks = split_str CHR '','' stocksList;
          stockValuesArray = map (\<lambda>s. parseInt (trim s)) rawStocks
      in if length sizeNamesArray \<noteq> length stockValuesArray
         then Inl (rowPrefix rowIndex @ '': Mismatch between number of sizes ('' @
                   showNat (length sizeNamesArray) @ '') in \"Sizes\" and stock values ('' @
                   showNat (length stockValuesArray) @ '') in \"Stocks\".'')
         else (case zipSizesStocks rowIndex 0 sizeNamesArray stockValuesArray rawStocks [] of
                 Inl reason \<Rightarrow> Inl reason
               | Inr sizeStockArray \<Rightarrow>
                   Inr (stringify (JArr (map sizeStockJson sizeStockArray)), None)))"
  using assms unfolding sizesOfRow_def by (simp add: Let_def)



lemma sizesOfRow_fallback:
  assumes "cellText (field r ''SizesStockJSON'') = []"
    and "cellText (field r ''Sizes'') = [] \<or> cellText (field r ''Stocks'') = []"
    and "\<forall>c \<in> {''TotalStock'', ''Stock''}.
           field r c = Undefined \<or> \<not> num_ge (parseInt (toString (field r c))) 0"
  shows "sizesOfRow eng rowIndex r = Inr (''[]'', Some (noSizesWarning rowIndex))"
  using assms unfolding sizesOfRow_def totalStockOf_def Let_def
  by auto

lemma finalNotice_errors:
  "errors st \<noteq> [] \<Longrightarrow> \<exists>details. finalNotice st = ActionError (''Import completed with errors. '' @ details)"
  by (simp add: finalNotice_def)

text \<open>
  Claim C9. A row that reaches the sizes block with no structured payload, without both
  of \<^verbatim>\<open>Sizes\<close> and \<^verbatim>\<open>Stocks\<close>, and with neither \<^verbatim>\<open>TotalStock\<close> nor \<^verbatim>\<open>Stock\<close> giving a
  number that is at least \<open>0\<close>, is not turned away: its record gets the sizes \<^verbatim>\<open>[]\<close>, the
  warning is pushed on the list of errors, and the row goes on to its insert or update,
  which is the one call made for it. Because the warning is on that list, the pass
  reports that it completed with errors.
\<close>

theorem no_size_data:
  fixes st :: "'b importState"
  assumes "reachesSizes idx r"
    and "cellText (field r ''SizesStockJSON'') = []"
    and "cellText (field r ''Sizes'') = [] \<or> cellText (field r ''Stocks'') = []"
    and "\<forall>c \<in> {''TotalStock'', ''Stock''}.
           field r c = Undefined \<or> \<not> num_ge (parseInt (toString (field r c))) 0"
  shows "\<exists>productData.
           validateRow eng idx (i + 2) r = Inr (productData, Some (noSizesWarning (i + 2))) \<and>
           sizes productData = ''[]'' \<and>
           importRow eng svc idx i r st =
             mutateRow svc idx (i + 2) productData
               (st \<lparr> errors := errors st @ [noSizesWarning (i + 2)] \<rparr>) \<and>
           calls (importRow eng svc idx i r st) =
             calls st @
             [case productCodeMap idx (toLowerCase (code productData)) of
                None \<Rightarrow> AddProductAdmin productData
              | Some p \<Rightarrow> UpdateProductAdmin (productData \<lparr> id' := Some (prod_id p) \<rparr>)] \<and>
           (\<exists>more. errors (importRow eng svc idx i r st) = errors st @ noSizesWarning (i + 2) # more) \<and>
           (\<exists>details. finalNotice (importRow eng svc idx i r st) =
              ActionError (''Import completed with errors. '' @ details))"
proof -
  from validateRow_sizes_accepted [OF assms(1) sizesOfRow_fallback [OF assms(2-4)]]
  obtain productData where v: "validateRow eng idx (i + 2) r = Inr (productData, Some (noSizesWarning (i + 2)))"
    and s: "sizes productData = ''[]''" by blast
  let ?st = "st \<lparr> errors := errors st @ [noSizesWarning (i + 2)] \<rparr>"
  have step: "importRow eng svc idx i r st = mutateRow svc idx (i + 2) productData ?st"
    using importRow_accepted [OF v] by simp
  obtain more where e: "errors (importRow eng svc idx i r st) = errors st @ noSizesWarning (i + 2) # more"
    using mutateRow_errors_prefix [of svc idx "i + 2" productData ?st] step by auto
  then have "errors (importRow eng svc idx i r st) \<noteq> []" by simp
  from finalNotice_errors [OF this] v s step e show ?thesis
    by (auto simp: mutateRow_calls)
qed

theorem no_size_data_witness:
  "reachesSizes exampleIndex exampleRow \<and>
   cellText (field exampleRow ''SizesStockJSON'') = [] \<and>
   cellText (field exampleRow ''Sizes'') = [] \<and>
   field exampleRow ''TotalStock'' = Undefined \<and> field exampleRow ''Stock'' = Undefined \<and>
   importRow exampleEngine alwaysOk exampleIndex 0 exampleRow (initialState ()) =
     (initialState ())
       \<lparr> importedCount := 1, errors := [noSizesWarning 2], calls := [AddProductAdmin exampleData] \<rparr>"
proof -
  have reach: "reachesSizes exampleIndex exampleRow"
    by (simp add: eval_simps)
  have none: "cellText (field exampleRow ''SizesStockJSON'') = []"
     "cellText (field exampleRow ''Sizes'') = []"
     "field exampleRow ''TotalStock'' = Undefined" "field exampleRow ''Stock'' = Undefined"
    by (simp_all add: exampleRow_def cell_eval)
  have stock: "\<forall>c \<in> {''TotalStock'', ''Stock''}.
           field exampleRow c = Undefined \<or> \<not> num_ge (parseInt (toString (field exampleRow c))) 0"
    using none by simp
  have step: "mutateRow alwaysOk exampleIndex 2 exampleData
                ((initialState ()) \<lparr> errors := [noSizesWarning 2] \<rparr>) =
              (initialState ())
                \<lparr> importedCount := 1, errors := [noSizesWarning 2], calls := [AddProductAdmin exampleData] \<rparr>"
    by (simp add: mutateRow_def exampleIndex_def exampleData_def buildIndex_def mapOfEntries_def
          exampleProduct_def toLowerCase_def lowerChar_def upperLetters_def lowerLetters_def
          addProductAdmin_def alwaysOk_def initialState_def)
  from no_size_data [OF reach none(1) disjI1 [OF none(2)] stock,
         where svc = alwaysOk and i = 0 and st = "initialState ()" and eng = exampleEngine]
  obtain productData where "validateRow exampleEngine exampleIndex (0 + 2) exampleRow =
        Inr (productData, Some (noSizesWarning (0 + 2)))"
    and "importRow exampleEngine alwaysOk exampleIndex 0 exampleRow (initialState ()) =
           mutateRow alwaysOk exampleIndex (0 + 2) productData
             ((initialState ()) \<lparr> errors := errors (initialState ()) @ [noSizesWarning (0 + 2)] \<rparr>)"
    by blast
  with exampleRow_valid step
  have "importRow exampleEngine alwaysOk exampleIndex 0 exampleRow (initialState ()) =
     (initialState ())
       \<lparr> importedCount := 1, errors := [noSizesWarning 2], calls := [AddProductAdmin exampleData] \<rparr>"
    by (simp add: initialState_def del: add_2_eq_Suc add_2_eq_Suc')
  with reach none show ?thesis by blast
qed

subsection \<open>What \<^verbatim>\<open>parseInt\<close> makes of a stock token\<close>

lemma digit_not_space: "isDigit c \<Longrightarrow> \<not> isWhiteSpace c"
  by (auto simp: isDigit_def isWhiteSpace_def)

lemma digit_not_sign: "isDigit c \<Longrightarrow> c \<noteq> CHR ''-'' \<and> c \<noteq> CHR ''+''"
  by (auto simp: isDigit_def)

lemma takeWhile_digits:
  "list_all isDigit ds \<Longrightarrow> rest = [] \<or> \<not> isDigit (hd rest) \<Longrightarrow> takeWhile isDigit (ds @ rest) = ds"
  by (cases rest) (auto simp: list_all_iff takeWhile_append2 takeWhile_eq_Nil_iff)

lemma parseInt_leading:
  assumes "sg \<in> {[], ''+'', ''-''}" and "ds \<noteq> []" and "list_all isDigit ds"
    and "rest = [] \<or> \<not> isDigit (hd rest)"
  shows "parseInt (sg @ ds @ rest) =
           toDouble (if sg = ''-'' then - of_nat (digitsVal ds) else of_nat (digitsVal ds))"
proof -
  from assms(2) obtain d ds' where ds: "ds = d # ds'" by (cases ds) auto
  with assms(3) have d: "isDigit d" by simp
  have digits: "takeWhile isDigit (ds @ rest) = ds"
    using takeWhile_digits [OF assms(3,4)] .
  have plain: "dropWhile isWhiteSpace (ds @ rest) = ds @ rest" "signOf (ds @ rest) = (False, ds @ rest)"
    using ds digit_not_space [OF d] digit_not_sign [OF d] by (simp_all add: signOf_def)
  from assms(1) consider "sg = []" | "sg = ''+''" | "sg = ''-''" by auto
  then show ?thesis
  proof cases
    case 1
    then show ?thesis
      using assms(2) by (simp add: parseInt_def plain digits)
  next
    case 2
    then show ?thesis
      using assms(2) by (simp add: parseInt_def signOf_def isWhiteSpace_def digits)
  next
    case 3
    then show ?thesis
      using assms(2) by (simp add: parseInt_def signOf_def isWhiteSpace_def digits)
  qed
qed

lemma toDouble_safe: "n \<le> 2 ^ 53 \<Longrightarrow> toDouble (of_nat n) = Fin (of_nat n)"
proof (cases "n = 0")
  case True
  then show ?thesis by (simp add: toDouble_zero)
next
  case False
  assume "n \<le> 2 ^ 53"
  then have le: "(of_nat n :: rat) \<le> 2 ^ 53" by simp
  from False have ge: "(1 :: rat) \<le> of_nat n" by simp
  have "(2 :: rat) ^ 53 < 2 ^ 1024 - 2 ^ 970" by simp
  with le have big: "\<not> 2 ^ 1024 - 2 ^ 970 \<le> \<bar>of_nat n :: rat\<bar>" by simp
  have "(1 :: rat) / 2 ^ 1075 < 1" by simp
  with ge have small: "\<not> \<bar>of_nat n :: rat\<bar> \<le> 1 / 2 ^ 1075" by simp
  from big small show ?thesis by (simp add: toDouble_def)
qed

lemma toDouble_number: "toDouble q \<noteq> NaN"
  by (simp add: toDouble_def)

lemma toDouble_nonneg: "0 \<le> q \<Longrightarrow> \<not> isNaN (toDouble q) \<and> \<not> num_lt (toDouble q) 0"
  by (simp add: toDouble_def isNaN_def num_lt_def)

lemma trim_no_leading: "dropWhile isWhiteSpace (trim s) = trim s"
proof (cases "dropWhile isWhiteSpace s")
  case Nil
  show ?thesis by (simp only: trim_def Nil) simp
next
  case (Cons x t)
  then have x: "\<not> isWhiteSpace x"
    using hd_dropWhile [of isWhiteSpace s] by (metis list.distinct(1) list.sel(1))
  have "dropWhile isWhiteSpace (rev t @ [x]) = dropWhile isWhiteSpace (rev t) @ [x]"
    using x by (simp add: dropWhile_append3)
  then have "trim s = x # rev (dropWhile isWhiteSpace (rev t))"
    by (simp add: trim_def Cons)
  with x show ?thesis by simp
qed

lemma signOf_form: "\<exists>sg \<in> {[], ''+'', ''-''}. s = sg @ snd (signOf s)"
  by (cases s) (auto simp: signOf_def)

lemma parseInt_no_integer:
  assumes "\<forall>sg ds rest. sg \<in> {[], ''+'', ''-''} \<and> ds \<noteq> [] \<and> list_all isDigit ds \<and>
             (rest = [] \<or> \<not> isDigit (hd rest)) \<longrightarrow> trim raw \<noteq> sg @ ds @ rest"
  shows "parseInt (trim raw) = NaN"
proof -
  obtain sg where sg: "sg \<in> {[], ''+'', ''-''}" "trim raw = sg @ snd (signOf (trim raw))"
    using signOf_form [of "trim raw"] by blast
  let ?s2 = "snd (signOf (trim raw))"
  have "takeWhile isDigit ?s2 = []"
  proof (rule ccontr)
    assume some: "takeWhile isDigit ?s2 \<noteq> []"
    have all: "list_all isDigit (takeWhile isDigit ?s2)"
      by (auto simp: list_all_iff dest: set_takeWhileD)
    have rest: "dropWhile isDigit ?s2 = [] \<or> \<not> isDigit (hd (dropWhile isDigit ?s2))"
      using hd_dropWhile [of isDigit ?s2] by blast
    have "trim raw = sg @ takeWhile isDigit ?s2 @ dropWhile isDigit ?s2"
      using sg(2) by simp
    with assms sg(1) some all rest show False by blast
  qed
  then show ?thesis
    by (cases "signOf (trim raw)") (simp add: parseInt_def trim_no_leading Let_def)
qed

lemma mutateRow_success:
  assumes "(case productCodeMap idx (toLowerCase (code productData)) of
              None \<Rightarrow> addProductAdmin svc (remoteState st) productData
            | Some p \<Rightarrow> updateProductAdmin svc (remoteState st)
                         (productData \<lparr> id' := Some (prod_id p) \<rparr>)) = (None, b)"
  shows "importedCount (mutateRow svc idx rowIndex productData st) +
         updatedCount (mutateRow svc idx rowIndex productData st) =
           importedCount st + updatedCount st + 1 \<and>
         errors (mutateRow svc idx rowIndex productData st) = errors st \<and>
         remoteState (mutateRow svc idx rowIndex productData st) = b"
  using assms unfolding mutateRow_def Let_def
  by (auto split: option.splits)

text \<open>
  Claim C10. In a row that reaches the sizes block with no structured payload and with
  both \<^verbatim>\<open>Sizes\<close> and \<^verbatim>\<open>Stocks\<close>, each stock token is the trimmed piece between commas and is
  read with \<^verbatim>\<open>parseInt\<close> in base ten. A token begins with an integer when, after an
  optional sign, it has one or more decimal digits; what follows the digits may be
  anything that does not begin with a digit. When every size name is non-empty and every
  token begins with an integer that has no minus sign and is at most \<open>2 ^ 53\<close> (up to
  which every integer is a number of the engine), the row is accepted: the stock of each
  size is the value of the leading digits of its token, the rest of the token is dropped
  without a reason, and the row goes on to its one insert or update, which is counted
  when the service accepts it. So \<^verbatim>\<open>2.9\<close> gives the stock \<open>2\<close> and \<^verbatim>\<open>3x\<close> the stock \<open>3\<close>.
  A token is read as no number exactly when it begins with no integer at all, as
  \<^verbatim>\<open>abc\<close> and the empty token do; when that is the first token that does not begin
  with an integer as above, the row is turned away with the reason that names the size and
  quotes the token, and no call is made.
\<close>

theorem parseInt_truncates:
  fixes st :: "'b importState"
  assumes "reachesSizes idx r"
    and "cellText (field r ''SizesStockJSON'') = []"
    and "cellText (field r ''Sizes'') = sizesList" and "sizesList \<noteq> []"
    and "cellText (field r ''Stocks'') = stocksList" and "stocksList \<noteq> []"
    and "names = map trim (split_str CHR '','' sizesList)"
    and "tokens = map trim (split_str CHR '','' stocksList)"
    and "length names = length tokens" and "\<forall>j < length names. names ! j \<noteq> []"
    and "\<And>tok sg ds. leads tok sg ds \<longleftrightarrow>
           sg \<in> {[], ''+'', ''-''} \<and> ds \<noteq> [] \<and> list_all isDigit ds \<and>
           (\<exists>rest. tok = sg @ ds @ rest \<and> (rest = [] \<or> \<not> isDigit (hd rest)))"
  shows "(length digits = length tokens \<and>
          (\<forall>j < length tokens. \<exists>sg. sg \<noteq> ''-'' \<and> leads (tokens ! j) sg (digits ! j) \<and>
                                   digitsVal (digits ! j) \<le> 2 ^ 53) \<longrightarrow>
            (\<exists>productData.
               validateRow eng idx (i + 2) r = Inr (productData, None) \<and>
               sizes productData =
                 stringify (JArr (map sizeStockJson
                   (map2 (\<lambda>n ds. \<lparr> size' = n, stock = Fin (of_nat (digitsVal ds)) \<rparr>) names digits))) \<and>
               calls (importRow eng svc idx i r st) =
                 calls st @
                 [case productCodeMap idx (toLowerCase (code productData)) of
                    None \<Rightarrow> AddProductAdmin productData
                  | Some p \<Rightarrow> UpdateProductAdmin (productData \<lparr> id' := Some (prod_id p) \<rparr>)] \<and>
               (\<forall>b. (case productCodeMap idx (toLowerCase (code productData)) of
                        None \<Rightarrow> addProductAdmin svc (remoteState st) productData
                      | Some p \<Rightarrow> updateProductAdmin svc (remoteState st)
                                   (productData \<lparr> id' := Some (prod_id p) \<rparr>)) = (None, b) \<longrightarrow>
                    importedCount (importRow eng svc idx i r st) +
                    updatedCount (importRow eng svc idx i r st) =
                      importedCount st + updatedCount st + 1 \<and>
                    errors (importRow eng svc idx i r st) = errors st))) \<and>
         (\<forall>j. j < length tokens \<and>
              (\<forall>k < j. \<exists>sg ds. sg \<noteq> ''-'' \<and> leads (tokens ! k) sg ds) \<and>
              (\<forall>sg ds. \<not> leads (tokens ! j) sg ds) \<longrightarrow>
            importRow eng svc idx i r st =
              st \<lparr> errors := errors st @
                     [rowPrefix (i + 2) @ '': Stock value for size \"'' @ names ! j @
                      ''\" is not a valid number (\"'' @ tokens ! j @ ''\").''] \<rparr>) \<and>
         (\<forall>j < length tokens.
            parseInt (tokens ! j) = NaN \<longleftrightarrow> (\<forall>sg ds. \<not> leads (tokens ! j) sg ds))"
proof -
  let ?raws = "split_str CHR '','' stocksList"
  let ?stocks = "map (\<lambda>s. parseInt (trim s)) ?raws"
  note block = sizesOfRow_parallel [OF assms(2-6), of eng "i + 2", folded assms(7)]
  have len: "length ?stocks = length names" "length ?raws = length names"
    by (simp_all add: assms(8,9))
  have token: "tokens ! k = trim (?raws ! k)" "?stocks ! k = parseInt (tokens ! k)" if "k < length tokens" for k
    using that by (simp_all add: assms(8))
  have reads: "parseInt tok = toDouble (of_nat (digitsVal ds))" if "leads tok sg ds" "sg \<noteq> ''-''"
    for tok sg ds
  proof -
    from that(1) obtain rest where "sg \<in> {[], ''+'', ''-''}" "ds \<noteq> []" "list_all isDigit ds"
      "tok = sg @ ds @ rest" "rest = [] \<or> \<not> isDigit (hd rest)"
      unfolding assms(11) by blast
    with parseInt_leading [of sg ds rest] that(2) show ?thesis by simp
  qed
  have fine: "\<not> isNaN (parseInt tok) \<and> \<not> num_lt (parseInt tok) 0" if "leads tok sg ds" "sg \<noteq> ''-''"
    for tok sg ds
    using reads [OF that] toDouble_nonneg [of "of_nat (digitsVal ds)"] by simp
  have accepted: "\<exists>productData.
               validateRow eng idx (i + 2) r = Inr (productData, None) \<and>
               sizes productData =
                 stringify (JArr (map sizeStockJson
                   (map2 (\<lambda>n ds. \<lparr> size' = n, stock = Fin (of_nat (digitsVal ds)) \<rparr>) names digits))) \<and>
               calls (importRow eng svc idx i r st) =
                 calls st @
                 [case productCodeMap idx (toLowerCase (code productData)) of
                    None \<Rightarrow> AddProductAdmin productData
                  | Some p \<Rightarrow> UpdateProductAdmin (productData \<lparr> id' := Some (prod_id p) \<rparr>)] \<and>
               (\<forall>b. (case productCodeMap idx (toLowerCase (code productData)) of
                        None \<Rightarrow> addProductAdmin svc (remoteState st) productData
                      | Some p \<Rightarrow> updateProductAdmin svc (remoteState st)
                                   (productData \<lparr> id' := Some (prod_id p) \<rparr>)) = (None, b) \<longrightarrow>
                    importedCount (importRow eng svc idx i r st) +
                    updatedCount (importRow eng svc idx i r st) =
                      importedCount st + updatedCount st + 1 \<and>
                    errors (importRow eng svc idx i r st) = errors st)"
    if same: "length digits = length tokens"
      and all: "\<forall>j < length tokens. \<exists>sg. sg \<noteq> ''-'' \<and> leads (tokens ! j) sg (digits ! j) \<and>
                                   digitsVal (digits ! j) \<le> 2 ^ 53"
  proof -
    have each: "?stocks ! k = Fin (of_nat (digitsVal (digits ! k)))" if "k < length tokens" for k
    proof -
      from all that obtain sg where "sg \<noteq> ''-''" "leads (tokens ! k) sg (digits ! k)"
        "digitsVal (digits ! k) \<le> 2 ^ 53" by blast
      with reads [of "tokens ! k" sg "digits ! k"] toDouble_safe [of "digitsVal (digits ! k)"]
        token(2) [OF that]
      show ?thesis by simp
    qed
    have stocks: "?stocks = map (\<lambda>ds. Fin (of_nat (digitsVal ds))) digits"
    proof (rule nth_equalityI)
      show "length ?stocks = length (map (\<lambda>ds. Fin (of_nat (digitsVal ds))) digits)"
        using same by (simp add: assms(8))
      fix k assume "k < length ?stocks"
      then have k: "k < length tokens" by (simp add: assms(8))
      with each [OF k] same show "?stocks ! k = map (\<lambda>ds. Fin (of_nat (digitsVal ds))) digits ! k"
        by simp
    qed
    have good: "\<forall>k < length names. names ! k \<noteq> [] \<and> \<not> isNaN (?stocks ! k) \<and> \<not> num_lt (?stocks ! k) 0"
    proof (intro allI impI)
      fix k assume k: "k < length names"
      with assms(9) have "k < length tokens" by simp
      from each [OF this] assms(10) k
      show "names ! k \<noteq> [] \<and> \<not> isNaN (?stocks ! k) \<and> \<not> num_lt (?stocks ! k) 0"
        by (simp add: isNaN_def num_lt_def)
    qed
    have "zipSizesStocks (i + 2) 0 names ?stocks ?raws [] =
            Inr (map2 (\<lambda>n s. \<lparr> size' = n, stock = s \<rparr>) names ?stocks)"
      using zipSizesStocks_ok [OF len(1) good, of "i + 2" 0 ?raws "[]"] by simp
    moreover have "map2 (\<lambda>n s. \<lparr> size' = n, stock = s \<rparr>) names ?stocks =
                     map2 (\<lambda>n ds. \<lparr> size' = n, stock = Fin (of_nat (digitsVal ds)) \<rparr>) names digits"
      unfolding stocks by (simp add: zip_map2 comp_def case_prod_beta)
    ultimately have "sizesOfRow eng (i + 2) r =
            Inr (stringify (JArr (map sizeStockJson
                   (map2 (\<lambda>n ds. \<lparr> size' = n, stock = Fin (of_nat (digitsVal ds)) \<rparr>) names digits))), None)"
      using block len(1) by (simp add: Let_def del: stringify.simps)
    from validateRow_sizes_accepted [OF assms(1) this]
    obtain productData where v: "validateRow eng idx (i + 2) r = Inr (productData, None)"
      and s: "sizes productData =
             stringify (JArr (map sizeStockJson
               (map2 (\<lambda>n ds. \<lparr> size' = n, stock = Fin (of_nat (digitsVal ds)) \<rparr>) names digits)))"
      by blast
    have step: "importRow eng svc idx i r st = mutateRow svc idx (i + 2) productData st"
      using importRow_accepted [OF v, of svc st] by simp
    from v s importRow_calls [OF v, of svc st] mutateRow_success [where idx = idx and productData = productData and svc = svc and st = st
        and rowIndex = "i + 2"]
    show ?thesis
      unfolding step by blast
  qed
  have noInteger: "parseInt (tokens ! j) = NaN"
    if j: "j < length tokens" and none: "\<forall>sg ds. \<not> leads (tokens ! j) sg ds" for j
  proof -
    from none have "\<forall>sg ds rest. sg \<in> {[], ''+'', ''-''} \<and> ds \<noteq> [] \<and> list_all isDigit ds \<and>
             (rest = [] \<or> \<not> isDigit (hd rest)) \<longrightarrow> trim (?raws ! j) \<noteq> sg @ ds @ rest"
      unfolding assms(11) token(1) [OF j] by blast
    from parseInt_no_integer [OF this] show ?thesis
      by (simp add: token(1) [OF j])
  qed
  have someInteger: "parseInt tok \<noteq> NaN" if "leads tok sg ds" for tok sg ds
  proof -
    from that obtain rest where "sg \<in> {[], ''+'', ''-''}" "ds \<noteq> []" "list_all isDigit ds"
      "tok = sg @ ds @ rest" "rest = [] \<or> \<not> isDigit (hd rest)"
      unfolding assms(11) by blast
    with parseInt_leading [of sg ds rest] show ?thesis
      by (simp add: toDouble_number)
  qed
  have rejected: "importRow eng svc idx i r st =
              st \<lparr> errors := errors st @
                     [rowPrefix (i + 2) @ '': Stock value for size \"'' @ names ! j @
                      ''\" is not a valid number (\"'' @ tokens ! j @ ''\").''] \<rparr>"
    if j: "j < length tokens"
      and before: "\<forall>k < j. \<exists>sg ds. sg \<noteq> ''-'' \<and> leads (tokens ! k) sg ds"
      and none: "\<forall>sg ds. \<not> leads (tokens ! j) sg ds" for j
  proof -
    note nan = noInteger [OF j none]
    have earlier: "\<forall>k < j. names ! k \<noteq> [] \<and> \<not> isNaN (?stocks ! k) \<and> \<not> num_lt (?stocks ! k) 0"
    proof (intro allI impI)
      fix k assume k: "k < j"
      with j have kt: "k < length tokens" by simp
      from before k obtain sg ds where "sg \<noteq> ''-''" "leads (tokens ! k) sg ds" by blast
      from fine [OF this(2,1)] token(2) [OF kt] assms(9,10) kt
      show "names ! k \<noteq> [] \<and> \<not> isNaN (?stocks ! k) \<and> \<not> num_lt (?stocks ! k) 0"
        by simp
    qed
    have here: "positionCheck (i + 2) (0 + j) (names ! j) (?stocks ! j) (trim (?raws ! j)) =
                  Some (rowPrefix (i + 2) @ '': Stock value for size \"'' @ names ! j @
                        ''\" is not a valid number (\"'' @ tokens ! j @ ''\").'')"
      using nan token [OF j] assms(9,10) j by (simp add: positionCheck_def isNaN_def)
    from j assms(9) have "j < length names" by simp
    from zipSizesStocks_first_failure [OF len this earlier here, of "[]"] block len(1)
    have "sizesOfRow eng (i + 2) r =
            Inl (rowPrefix (i + 2) @ '': Stock value for size \"'' @ names ! j @
                 ''\" is not a valid number (\"'' @ tokens ! j @ ''\").'')"
      by (simp add: Let_def)
    from importRow_rejected [OF validateRow_sizes_rejected [OF assms(1) this], of svc st]
    show ?thesis by simp
  qed
  have only: "\<forall>j < length tokens.
            parseInt (tokens ! j) = NaN \<longleftrightarrow> (\<forall>sg ds. \<not> leads (tokens ! j) sg ds)"
    using noInteger someInteger by blast
  from accepted rejected only show ?thesis by blast
qed

theorem parseInt_truncates_witness:
  "reachesSizes exampleIndex (exampleRow(''Sizes'' \<mapsto> Str ''S,M'', ''Stocks'' \<mapsto> Str ''2.9,3x'')) \<and>
   map trim (split_str CHR '','' ''S,M'') = [''S'', ''M''] \<and>
   map trim (split_str CHR '','' ''2.9,3x'') = [''2.9'', ''3x''] \<and>
   digitsVal ''2'' = 2 \<and> digitsVal ''3'' = 3 \<and>
   (\<exists>productData.
      validateRow exampleEngine exampleIndex 2
        (exampleRow(''Sizes'' \<mapsto> Str ''S,M'', ''Stocks'' \<mapsto> Str ''2.9,3x'')) = Inr (productData, None) \<and>
      sizes productData = ''[{\"size\":\"S\",\"stock\":2},{\"size\":\"M\",\"stock\":3}]'' \<and>
      calls (importRow exampleEngine alwaysOk exampleIndex 0
               (exampleRow(''Sizes'' \<mapsto> Str ''S,M'', ''Stocks'' \<mapsto> Str ''2.9,3x'')) (initialState ())) =
        [AddProductAdmin productData]) \<and>
   importedCount (importRow exampleEngine alwaysOk exampleIndex 0
                    (exampleRow(''Sizes'' \<mapsto> Str ''S,M'', ''Stocks'' \<mapsto> Str ''2.9,3x'')) (initialState ())) +
   updatedCount (importRow exampleEngine alwaysOk exampleIndex 0
                   (exampleRow(''Sizes'' \<mapsto> Str ''S,M'', ''Stocks'' \<mapsto> Str ''2.9,3x'')) (initialState ())) = 1 \<and>
   errors (importRow exampleEngine alwaysOk exampleIndex 0
             (exampleRow(''Sizes'' \<mapsto> Str ''S,M'', ''Stocks'' \<mapsto> Str ''2.9,3x'')) (initialState ())) = [] \<and>
   map trim (split_str CHR '','' ''2,abc'') = [''2'', ''abc''] \<and>
   parseInt ''abc'' = NaN \<and>
   importRow exampleEngine alwaysOk exampleIndex 0
     (exampleRow(''Sizes'' \<mapsto> Str ''S,M'', ''Stocks'' \<mapsto> Str ''2,abc'')) (initialState ()) =
     (initialState ())
       \<lparr> errors := [''Row 2: Stock value for size \"M\" is not a valid number (\"abc\").''] \<rparr> \<and>
   map trim (split_str CHR '','' ''2,'') = [''2'', []] \<and>
   parseInt [] = NaN \<and>
   importRow exampleEngine alwaysOk exampleIndex 0
     (exampleRow(''Sizes'' \<mapsto> Str ''S,M'', ''Stocks'' \<mapsto> Str ''2,'')) (initialState ()) =
     (initialState ())
       \<lparr> errors := [''Row 2: Stock value for size \"M\" is not a valid number (\"\").''] \<rparr>"
proof -
  let ?r1 = "exampleRow(''Sizes'' \<mapsto> Str ''S,M'', ''Stocks'' \<mapsto> Str ''2.9,3x'')"
  let ?r2 = "exampleRow(''Sizes'' \<mapsto> Str ''S,M'', ''Stocks'' \<mapsto> Str ''2,abc'')"
  let ?r3 = "exampleRow(''Sizes'' \<mapsto> Str ''S,M'', ''Stocks'' \<mapsto> Str ''2,'')"
  let ?leads = "\<lambda>tok sg ds. sg \<in> {[], ''+'', ''-''} \<and> ds \<noteq> [] \<and> list_all isDigit ds \<and>
                  (\<exists>rest. tok = sg @ ds @ rest \<and> (rest = [] \<or> \<not> isDigit (hd rest)))"
  have reach: "reachesSizes exampleIndex ?r1" "reachesSizes exampleIndex ?r2" "reachesSizes exampleIndex ?r3"
    by (simp_all add: eval_simps)
  have cells1: "cellText (field ?r1 ''SizesStockJSON'') = []"
      "cellText (field ?r1 ''Sizes'') = ''S,M''" "cellText (field ?r1 ''Stocks'') = ''2.9,3x''"
    and cells2: "cellText (field ?r2 ''SizesStockJSON'') = []"
      "cellText (field ?r2 ''Sizes'') = ''S,M''" "cellText (field ?r2 ''Stocks'') = ''2,abc''"
    and cells3: "cellText (field ?r3 ''SizesStockJSON'') = []"
      "cellText (field ?r3 ''Sizes'') = ''S,M''" "cellText (field ?r3 ''Stocks'') = ''2,''"
    by (simp_all add: exampleRow_def cell_eval trim_def isWhiteSpace_def)
  have names: "map trim (split_str CHR '','' ''S,M'') = [''S'', ''M'']"
    and tokens1: "map trim (split_str CHR '','' ''2.9,3x'') = [''2.9'', ''3x'']"
    and tokens2: "map trim (split_str CHR '','' ''2,abc'') = [''2'', ''abc'']"
    and tokens3: "map trim (split_str CHR '','' ''2,'') = [''2'', []]"
    by (simp_all add: trim_def isWhiteSpace_def)
  have vals: "digitsVal ''2'' = 2" "digitsVal ''3'' = 3"
    by (simp_all add: digitsVal_def digitVal_def)
  have two: "?leads ''2'' [] ''2''" and first: "?leads ''2.9'' [] ''2''" and second: "?leads ''3x'' [] ''3''"
    by (simp_all add: isDigit_def)
  have letters: "\<not> ?leads ''abc'' sg ds" and blank: "\<not> ?leads [] sg ds" for sg ds
    by (auto simp: Cons_eq_append_conv isDigit_def)
  have fresh: "productCodeMap exampleIndex (toLowerCase (toString (field ?r1 ''Code''))) = None"
    by (simp add: eval_simps)
  have call: "addProductAdmin alwaysOk (remoteState (initialState ())) productData = (None, ())"
    for productData
    by (simp add: addProductAdmin_def alwaysOk_def)
  have printed: "stringify (JArr (map sizeStockJson
                (map2 (\<lambda>n ds. \<lparr> size' = n, stock = Fin (of_nat (digitsVal ds)) \<rparr>) [''S'', ''M''] [''2'', ''3'']))) =
              ''[{\"size\":\"S\",\"stock\":2},{\"size\":\"M\",\"stock\":3}]''"
    by (simp add: vals sizeStockJson_def quoteJSON_def escapeChar_def isControl_def showRat_def
          showNat_digit digitChar_def)
  have filled: "''S,M'' \<noteq> []" "''2.9,3x'' \<noteq> []" "''2,abc'' \<noteq> []" "''2,'' \<noteq> []"
    by simp_all
  have lengths: "length [''S'', ''M''] = length [''2.9'', ''3x'']"
      "length [''S'', ''M''] = length [''2'', ''abc'']" "length [''S'', ''M''] = length [''2'', []]"
      "length [''2'', ''3''] = length [''2.9'', ''3x'']"
    by simp_all
  have named: "\<forall>j < length [''S'', ''M'']. [''S'', ''M''] ! j \<noteq> []"
    by (auto simp: less_Suc_eq)
  note a = parseInt_truncates [OF reach(1) cells1(1,2) filled(1) cells1(3) filled(2) names [symmetric]
      tokens1 [symmetric] lengths(1) named refl,
      where eng = exampleEngine and svc = alwaysOk and i = 0 and st = "initialState ()"
        and digits = "[''2'', ''3'']"]
  note b = parseInt_truncates [OF reach(2) cells2(1,2) filled(1) cells2(3) filled(3) names [symmetric]
      tokens2 [symmetric] lengths(2) named refl,
      where eng = exampleEngine and svc = alwaysOk and i = 0 and st = "initialState ()"]
  note c = parseInt_truncates [OF reach(3) cells3(1,2) filled(1) cells3(3) filled(4) names [symmetric]
      tokens3 [symmetric] lengths(3) named refl,
      where eng = exampleEngine and svc = alwaysOk and i = 0 and st = "initialState ()"]
  have accepted: "\<forall>j < length [''2.9'', ''3x''].
           \<exists>sg. sg \<noteq> ''-'' \<and> ?leads ([''2.9'', ''3x''] ! j) sg ([''2'', ''3''] ! j) \<and>
                digitsVal ([''2'', ''3''] ! j) \<le> 2 ^ 53"
  proof (intro allI impI)
    fix j :: nat assume "j < length [''2.9'', ''3x'']"
    then consider "j = 0" | "j = 1" by fastforce
    then show "\<exists>sg. sg \<noteq> ''-'' \<and> ?leads ([''2.9'', ''3x''] ! j) sg ([''2'', ''3''] ! j) \<and>
                digitsVal ([''2'', ''3''] ! j) \<le> 2 ^ 53"
    proof cases
      case 1
      with first vals show ?thesis by (intro exI [of _ "[]"]) simp
    next
      case 2
      with second vals show ?thesis by (intro exI [of _ "[]"]) simp
    qed
  qed
  have row1: "\<exists>productData.
      validateRow exampleEngine exampleIndex 2 ?r1 = Inr (productData, None) \<and>
      sizes productData = ''[{\"size\":\"S\",\"stock\":2},{\"size\":\"M\",\"stock\":3}]'' \<and>
      calls (importRow exampleEngine alwaysOk exampleIndex 0 ?r1 (initialState ())) =
        [AddProductAdmin productData] \<and>
      importedCount (importRow exampleEngine alwaysOk exampleIndex 0 ?r1 (initialState ())) +
      updatedCount (importRow exampleEngine alwaysOk exampleIndex 0 ?r1 (initialState ())) = 1 \<and>
      errors (importRow exampleEngine alwaysOk exampleIndex 0 ?r1 (initialState ())) = []"
  proof -
    from a [THEN conjunct1, rule_format, OF conjI [OF lengths(4) accepted]]
    obtain productData where v: "validateRow exampleEngine exampleIndex (0 + 2) ?r1 = Inr (productData, None)"
      and s: "sizes productData =
                 stringify (JArr (map sizeStockJson
                   (map2 (\<lambda>n ds. \<lparr> size' = n, stock = Fin (of_nat (digitsVal ds)) \<rparr>) [''S'', ''M''] [''2'', ''3''])))"
      and c: "calls (importRow exampleEngine alwaysOk exampleIndex 0 ?r1 (initialState ())) =
                 calls (initialState ()) @
                 [case productCodeMap exampleIndex (toLowerCase (code productData)) of
                    None \<Rightarrow> AddProductAdmin productData
                  | Some p \<Rightarrow> UpdateProductAdmin (productData \<lparr> id' := Some (prod_id p) \<rparr>)]"
      and n: "\<forall>b. (case productCodeMap exampleIndex (toLowerCase (code productData)) of
                        None \<Rightarrow> addProductAdmin alwaysOk (remoteState (initialState ())) productData
                      | Some p \<Rightarrow> updateProductAdmin alwaysOk (remoteState (initialState ()))
                                   (productData \<lparr> id' := Some (prod_id p) \<rparr>)) = (None, b) \<longrightarrow>
                    importedCount (importRow exampleEngine alwaysOk exampleIndex 0 ?r1 (initialState ())) +
                    updatedCount (importRow exampleEngine alwaysOk exampleIndex 0 ?r1 (initialState ())) =
                      importedCount (initialState ()) + updatedCount (initialState ()) + 1 \<and>
                    errors (importRow exampleEngine alwaysOk exampleIndex 0 ?r1 (initialState ())) =
                      errors (initialState ())"
      by blast
    from validateRow_sizes_accepted [OF reach(1), of exampleEngine "0 + 2"] v
    have "code productData = toString (field ?r1 ''Code'')"
      by (cases "sizesOfRow exampleEngine (0 + 2) ?r1")
         (auto simp: validateRow_def Let_def split: option.splits if_splits)
    with fresh have none: "productCodeMap exampleIndex (toLowerCase (code productData)) = None"
      by simp
    from n [rule_format, of "()"] none call [of productData] c v s printed show ?thesis
      by (simp add: initialState_def)
  qed
  have row2: "parseInt ''abc'' = NaN \<and>
     importRow exampleEngine alwaysOk exampleIndex 0 ?r2 (initialState ()) =
     (initialState ())
       \<lparr> errors := [''Row 2: Stock value for size \"M\" is not a valid number (\"abc\").''] \<rparr>"
  proof -
    have "\<forall>k < 1. \<exists>sg ds. sg \<noteq> ''-'' \<and> ?leads ([''2'', ''abc''] ! k) sg ds"
      using two by (intro allI impI exI [of _ "[]"] exI [of _ "''2''"]) simp
    moreover have "\<forall>sg ds. \<not> ?leads ([''2'', ''abc''] ! 1) sg ds"
      using letters by simp
    ultimately show ?thesis
      using b [THEN conjunct2, THEN conjunct1, rule_format, of 1]
            b [THEN conjunct2, THEN conjunct2, rule_format, of 1]
      by (simp add: initialState_def rowPrefix_def showNat_digit digitChar_def)
  qed
  have row3: "parseInt [] = NaN \<and>
     importRow exampleEngine alwaysOk exampleIndex 0 ?r3 (initialState ()) =
     (initialState ())
       \<lparr> errors := [''Row 2: Stock value for size \"M\" is not a valid number (\"\").''] \<rparr>"
  proof -
    have "\<forall>k < 1. \<exists>sg ds. sg \<noteq> ''-'' \<and> ?leads ([''2'', []] ! k) sg ds"
      using two by (intro allI impI exI [of _ "[]"] exI [of _ "''2''"]) simp
    moreover have "\<forall>sg ds. \<not> ?leads ([''2'', []] ! 1) sg ds"
      using blank by simp
    ultimately show ?thesis
      using c [THEN conjunct2, THEN conjunct1, rule_format, of 1]
            c [THEN conjunct2, THEN conjunct2, rule_format, of 1]
      by (simp add: initialState_def rowPrefix_def showNat_digit digitChar_def)
  qed
  from reach(1) names tokens1 tokens2 tokens3 vals row1 row2 row3 show ?thesis by blast
qed

section \<open>The report of a pass\<close>

lemma mutateRow_progress:
  "importedCount (mutateRow svc idx rowIndex productData st) +
   updatedCount (mutateRow svc idx rowIndex productData st) +
   length (errors (mutateRow svc idx rowIndex productData st)) =
   importedCount st + updatedCount st + length (errors st) + 1"
  unfolding mutateRow_def Let_def
  by (auto split: option.splits prod.splits)

lemma importRow_progress:
  "importedCount (importRow eng svc idx i r st) + updatedCount (importRow eng svc idx i r st) +
   length (errors (importRow eng svc idx i r st)) \<ge>
   importedCount st + updatedCount st + length (errors st) + 1"
  unfolding importRow_def Let_def
  by (auto simp: mutateRow_progress split: sum.splits option.splits)

lemma importRows_progress:
  "importedCount (importRows eng svc idx i rs st) + updatedCount (importRows eng svc idx i rs st) +
   length (errors (importRows eng svc idx i rs st)) \<ge>
   importedCount st + updatedCount st + length (errors st) + length rs"
proof (induction rs arbitrary: i st)
  case Nil
  then show ?case by simp
next
  case (Cons r rs)
  from Cons.IH [where i = "i + 1" and st = "importRow eng svc idx i r st"]
       importRow_progress [where st = st and svc = svc and idx = idx and i = i and r = r and eng = eng]
  show ?case by simp
qed

lemma summaryMessage_counts:
  "summaryMessage st \<noteq> [] \<longleftrightarrow> importedCount st > 0 \<or> updatedCount st > 0"
  by (auto simp: summaryMessage_def)

text \<open>
  Claim C4, as the code has it. A sheet without data rows is reported on its own, before
  anything is looked up or sent: the notice is the error text for an empty file and no
  call is made. For a sheet with rows, the verdict follows the list of errors, not the
  counts: when the list is empty, at least one product was imported or updated and the
  notice is the success message with the counts; when the list holds any rejection or
  warning, the notice goes out as an error, ``Import completed with errors.'', followed
  by the counts and the details, however many rows succeeded. The notice that nothing was
  imported or updated is never given for a sheet with rows.
\<close>

theorem aggregate_report:
  fixes b :: 'b
  shows "handleFileImport eng t svc b cs ms ps [] =
           (ActionError (t ''errors.apiErrorGeneric''
              [(''message'', ''The imported file is empty or not formatted correctly.'')]),
            initialState b) \<and>
         calls (snd (handleFileImport eng t svc b cs ms ps [])) = [] \<and>
         (jsonData \<noteq> [] \<and> errors (snd (handleFileImport eng t svc b cs ms ps jsonData)) = [] \<longrightarrow>
            (importedCount (snd (handleFileImport eng t svc b cs ms ps jsonData)) > 0 \<or>
             updatedCount (snd (handleFileImport eng t svc b cs ms ps jsonData)) > 0) \<and>
            fst (handleFileImport eng t svc b cs ms ps jsonData) =
              SuccessMessage (''Import successful! '' @
                summaryMessage (snd (handleFileImport eng t svc b cs ms ps jsonData)))) \<and>
         (jsonData \<noteq> [] \<and> errors (snd (handleFileImport eng t svc b cs ms ps jsonData)) \<noteq> [] \<longrightarrow>
            fst (handleFileImport eng t svc b cs ms ps jsonData) =
              ActionError (''Import completed with errors. '' @
                summaryMessage (snd (handleFileImport eng t svc b cs ms ps jsonData)) @
                '' See details below:'' @ [CHR 0x0A] @ ''- '' @
                join ([CHR 0x0A] @ ''- '') (errors (snd (handleFileImport eng t svc b cs ms ps jsonData)))))"
proof -
  let ?st = "importRows eng svc (buildIndex cs ms ps) 0 jsonData (initialState b)"
  have run: "handleFileImport eng t svc b cs ms ps jsonData = (finalNotice ?st, ?st)" if "jsonData \<noteq> []"
    using that by (simp add: handleFileImport_def Let_def)
  have some: "importedCount ?st > 0 \<or> updatedCount ?st > 0" if "jsonData \<noteq> []" "errors ?st = []"
  proof -
    from that(1) have "length jsonData > 0" by simp
    moreover
    from importRows_progress [where st = "initialState b" and rs = jsonData and svc = svc
           and idx = "buildIndex cs ms ps" and i = 0 and eng = eng] that(2)
    have "length jsonData \<le> importedCount ?st + updatedCount ?st"
      by (simp add: initialState_def)
    ultimately show ?thesis by linarith
  qed
  show ?thesis
    using run some
    by (auto simp: handleFileImport_def initialState_def finalNotice_def summaryMessage_counts)
qed

theorem aggregate_report_witness:
  "[exampleRow(''TotalStock'' \<mapsto> Num (Fin 3))] \<noteq> [] \<and>
   errors (snd (handleFileImport exampleEngine english alwaysOk () exampleCategories
                  exampleManufacturers [exampleProduct]
                  [exampleRow(''TotalStock'' \<mapsto> Num (Fin 3))])) = [] \<and>
   fst (handleFileImport exampleEngine english alwaysOk () exampleCategories exampleManufacturers [exampleProduct]
          [exampleRow(''TotalStock'' \<mapsto> Num (Fin 3))]) =
     SuccessMessage ''Import successful! 1 products imported. '' \<and>
   fst (handleFileImport exampleEngine english alwaysOk () exampleCategories exampleManufacturers [exampleProduct] []) =
     ActionError ''An API error occurred: The imported file is empty or not formatted correctly.''"
proof -
  let ?run = "handleFileImport exampleEngine english alwaysOk () exampleCategories exampleManufacturers [exampleProduct]
                [exampleRow(''TotalStock'' \<mapsto> Num (Fin 3))]"
  have st: "snd ?run =
     \<lparr> importedCount = 1, updatedCount = 0, errors = [],
       calls = [AddProductAdmin (exampleData \<lparr> sizes := ''[{\"size\":\"One Size\",\"stock\":3}]'' \<rparr>)],
       remoteState = () \<rparr>"
    by (simp add: eval_simps)
  then have e: "errors (snd ?run) = []"
    and s: "summaryMessage (snd ?run) = ''1 products imported. ''"
    by (simp_all add: summaryMessage_def showNat_digit digitChar_def)
  from aggregate_report [of exampleEngine english alwaysOk "()" exampleCategories exampleManufacturers "[exampleProduct]"
         "[exampleRow(''TotalStock'' \<mapsto> Num (Fin 3))]"] e s
  show ?thesis
    by (simp add: english_def)
qed

text \<open>
  A pass with one product imported and one row turned away is reported as an error.
\<close>

theorem aggregate_report_counterexample:
  "handleFileImport exampleEngine english alwaysOk () exampleCategories exampleManufacturers [exampleProduct]
     [exampleRow(''TotalStock'' \<mapsto> Num (Fin 3)), exampleRow(''Title'' := None)] =
   (ActionError
      (''Import completed with errors. 1 products imported.  See details below:'' @ [CHR 0x0A] @
       ''- Row 3: Missing required fields (Title, Code, Price, Category, Manufacturer, Image URL).''),
    \<lparr> importedCount = 1, updatedCount = 0,
      errors = [''Row 3: Missing required fields (Title, Code, Price, Category, Manufacturer, Image URL).''],
      calls = [AddProductAdmin (exampleData \<lparr> sizes := ''[{\"size\":\"One Size\",\"stock\":3}]'' \<rparr>)],
      remoteState = () \<rparr>)"
  by (simp add: eval_simps)

section \<open>Insert or update\<close>

lemma productCodeMap_None:
  "productCodeMap (buildIndex cs ms ps) k = None \<longleftrightarrow> (\<forall>p \<in> set ps. toLowerCase (prod_code p) \<noteq> k)"
  by (auto simp: buildIndex_def mapOfEntries_None image_iff)

lemma productCodeMap_Some:
  "productCodeMap (buildIndex cs ms ps) k = Some p \<Longrightarrow> p \<in> set ps \<and> toLowerCase (prod_code p) = k"
  by (auto simp: buildIndex_def mapOfEntries_def dest!: map_of_SomeD)

lemma mutateRow_update:
  assumes "productCodeMap idx (toLowerCase (code productData)) = Some existing"
    and "updateProductAdmin svc (remoteState st)
           (productData \<lparr> id' := Some (prod_id existing) \<rparr>) = (failure, b)"
  shows "mutateRow svc idx rowIndex productData st =
     (case failure of
        None \<Rightarrow>
          st \<lparr> updatedCount := updatedCount st + 1,
               calls := calls st @ [UpdateProductAdmin (productData \<lparr> id' := Some (prod_id existing) \<rparr>)],
               remoteState := b \<rparr>
      | Some msg \<Rightarrow>
          st \<lparr> errors := errors st @
                 [rowPrefix rowIndex @ '' (Code: '' @ code productData @ ''): Error processing - '' @ msg],
               calls := calls st @ [UpdateProductAdmin (productData \<lparr> id' := Some (prod_id existing) \<rparr>)],
               remoteState := b \<rparr>)"
  using assms unfolding mutateRow_def Let_def processingError_def
  by (auto split: option.splits)

lemma mutateRow_insert:
  assumes "productCodeMap idx (toLowerCase (code productData)) = None"
    and "addProductAdmin svc (remoteState st) productData = (failure, b)"
  shows "mutateRow svc idx rowIndex productData st =
     (case failure of
        None \<Rightarrow>
          st \<lparr> importedCount := importedCount st + 1,
               calls := calls st @ [AddProductAdmin productData],
               remoteState := b \<rparr>
      | Some msg \<Rightarrow>
          st \<lparr> errors := errors st @
                 [rowPrefix rowIndex @ '' (Code: '' @ code productData @ ''): Error processing - '' @ msg],
               calls := calls st @ [AddProductAdmin productData],
               remoteState := b \<rparr>)"
  using assms unfolding mutateRow_def Let_def processingError_def
  by (auto split: option.splits)

text \<open>
  Claim C2. The map from codes to products is built once, from the lower-cased codes of
  the catalog; the whole pass runs against that one index and only reads it. For a row that passes validation, with the
  state \<open>st1\<close> holding the warning of the row if it has one: when the lower-cased code of
  the row is in the map, the one call is an update that carries the id of the product
  found, and a success adds one to the updated count; when it is not, the one call is an
  insert, and a success adds one to the imported count. A call that fails moves no
  count and adds one reason that ends with the message of the service. In every case
  the pass goes on with the rows that follow. Two rows that follow each other with the
  same code, not in the map, are therefore both sent as inserts.
\<close>

theorem reconciliation_outcome:
  fixes st :: "'b importState"
  assumes "validateRow eng idx (i + 2) r = Inr (productData, warning)"
    and "st1 = (case warning of None \<Rightarrow> st | Some w \<Rightarrow> st \<lparr> errors := errors st @ [w] \<rparr>)"
  shows "(\<forall>existing failure b.
            productCodeMap idx (toLowerCase (code productData)) = Some existing \<and>
            updateProductAdmin svc (remoteState st)
              (productData \<lparr> id' := Some (prod_id existing) \<rparr>) = (failure, b) \<longrightarrow>
            importRow eng svc idx i r st =
              (case failure of
                 None \<Rightarrow>
                   st1 \<lparr> updatedCount := updatedCount st + 1,
                         calls := calls st @
                           [UpdateProductAdmin (productData \<lparr> id' := Some (prod_id existing) \<rparr>)],
                         remoteState := b \<rparr>
               | Some msg \<Rightarrow>
                   st1 \<lparr> errors := errors st1 @
                           [rowPrefix (i + 2) @ '' (Code: '' @ code productData @
                            ''): Error processing - '' @ msg],
                         calls := calls st @
                           [UpdateProductAdmin (productData \<lparr> id' := Some (prod_id existing) \<rparr>)],
                         remoteState := b \<rparr>)) \<and>
         (\<forall>failure b.
            productCodeMap idx (toLowerCase (code productData)) = None \<and>
            addProductAdmin svc (remoteState st) productData = (failure, b) \<longrightarrow>
            importRow eng svc idx i r st =
              (case failure of
                 None \<Rightarrow>
                   st1 \<lparr> importedCount := importedCount st + 1,
                         calls := calls st @ [AddProductAdmin productData],
                         remoteState := b \<rparr>
               | Some msg \<Rightarrow>
                   st1 \<lparr> errors := errors st1 @
                           [rowPrefix (i + 2) @ '' (Code: '' @ code productData @
                            ''): Error processing - '' @ msg],
                         calls := calls st @ [AddProductAdmin productData],
                         remoteState := b \<rparr>)) \<and>
         importRows eng svc idx i (r # rs) st = importRows eng svc idx (i + 1) rs (importRow eng svc idx i r st) \<and>
         (jsonData \<noteq> [] \<longrightarrow>
            snd (handleFileImport eng t svc b0 cs ms ps jsonData) =
              importRows eng svc (buildIndex cs ms ps) 0 jsonData (initialState b0)) \<and>
         (productCodeMap (buildIndex cs ms ps) (toLowerCase (code productData)) = None \<longleftrightarrow>
            (\<forall>p \<in> set ps. toLowerCase (prod_code p) \<noteq> toLowerCase (code productData))) \<and>
         (\<forall>existing.
            productCodeMap (buildIndex cs ms ps) (toLowerCase (code productData)) = Some existing \<longrightarrow>
            existing \<in> set ps \<and> toLowerCase (prod_code existing) = toLowerCase (code productData)) \<and>
         (\<forall>r2 productData2 warning2.
            validateRow eng idx (i + 3) r2 = Inr (productData2, warning2) \<and>
            toLowerCase (code productData2) = toLowerCase (code productData) \<and>
            productCodeMap idx (toLowerCase (code productData)) = None \<longrightarrow>
            calls (importRows eng svc idx i [r, r2] st) =
              calls st @ [AddProductAdmin productData, AddProductAdmin productData2])"
proof -
  have step: "importRow eng svc idx i r st = mutateRow svc idx (i + 2) productData st1"
    using importRow_accepted [OF assms(1)] assms(2) by simp
  have same: "calls st1 = calls st" "remoteState st1 = remoteState st"
      "importedCount st1 = importedCount st" "updatedCount st1 = updatedCount st"
    by (simp_all add: assms(2) warned_calls)
  have update: "importRow eng svc idx i r st =
              (case failure of
                 None \<Rightarrow>
                   st1 \<lparr> updatedCount := updatedCount st + 1,
                         calls := calls st @
                           [UpdateProductAdmin (productData \<lparr> id' := Some (prod_id existing) \<rparr>)],
                         remoteState := b \<rparr>
               | Some msg \<Rightarrow>
                   st1 \<lparr> errors := errors st1 @
                           [rowPrefix (i + 2) @ '' (Code: '' @ code productData @
                            ''): Error processing - '' @ msg],
                         calls := calls st @
                           [UpdateProductAdmin (productData \<lparr> id' := Some (prod_id existing) \<rparr>)],
                         remoteState := b \<rparr>)"
    if "productCodeMap idx (toLowerCase (code productData)) = Some existing"
       "updateProductAdmin svc (remoteState st)
          (productData \<lparr> id' := Some (prod_id existing) \<rparr>) = (failure, b)"
    for existing failure b
    using mutateRow_update [of idx productData existing svc st1 failure b "i + 2"] that step same
    by (cases failure) simp_all
  have insert: "importRow eng svc idx i r st =
              (case failure of
                 None \<Rightarrow>
                   st1 \<lparr> importedCount := importedCount st + 1,
                         calls := calls st @ [AddProductAdmin productData],
                         remoteState := b \<rparr>
               | Some msg \<Rightarrow>
                   st1 \<lparr> errors := errors st1 @
                           [rowPrefix (i + 2) @ '' (Code: '' @ code productData @
                            ''): Error processing - '' @ msg],
                         calls := calls st @ [AddProductAdmin productData],
                         remoteState := b \<rparr>)"
    if "productCodeMap idx (toLowerCase (code productData)) = None"
       "addProductAdmin svc (remoteState st) productData = (failure, b)"
    for failure b
    using mutateRow_insert [of idx productData svc st1 failure b "i + 2"] that step same
    by (cases failure) simp_all
  have twice: "calls (importRows eng svc idx i [r, r2] st) =
              calls st @ [AddProductAdmin productData, AddProductAdmin productData2]"
    if "validateRow eng idx (i + 3) r2 = Inr (productData2, warning2)"
       "toLowerCase (code productData2) = toLowerCase (code productData)"
       "productCodeMap idx (toLowerCase (code productData)) = None"
    for r2 productData2 warning2
  proof -
    have first: "calls (importRow eng svc idx i r st) = calls st @ [AddProductAdmin productData]"
      using step same that(3) by (simp add: mutateRow_calls)
    have "i + 1 + 2 = i + 3" by simp
    with that(1) have "validateRow eng idx (i + 1 + 2) r2 = Inr (productData2, warning2)"
      by (simp only:)
    from importRow_accepted [OF this, of svc "importRow eng svc idx i r st"]
    have "calls (importRow eng svc idx (i + 1) r2 (importRow eng svc idx i r st)) =
            calls (importRow eng svc idx i r st) @ [AddProductAdmin productData2]"
      using that(2,3) by (simp add: mutateRow_calls warned_calls)
    with first show ?thesis by simp
  qed
  have once: "snd (handleFileImport eng t svc b0 cs ms ps jsonData) =
              importRows eng svc (buildIndex cs ms ps) 0 jsonData (initialState b0)"
    if "jsonData \<noteq> []"
    using that by (simp add: handleFileImport_def Let_def)
  from update insert twice once show ?thesis
    using productCodeMap_None [of cs ms ps] productCodeMap_Some [of cs ms ps]
    by (intro conjI allI impI; simp)
qed

theorem reconciliation_outcome_witness:
  "validateRow exampleEngine exampleIndex 2 (stockedRow(''Code'' \<mapsto> Str ''b1'')) =
     Inr (stockedData \<lparr> code := ''b1'' \<rparr>, None) \<and>
   productCodeMap exampleIndex (toLowerCase ''b1'') = Some exampleProduct \<and>
   importRow exampleEngine alwaysOk exampleIndex 0 (stockedRow(''Code'' \<mapsto> Str ''b1'')) (initialState ()) =
     (initialState ())
       \<lparr> updatedCount := 1,
         calls := [UpdateProductAdmin (stockedData \<lparr> code := ''b1'', id' := Some ''p1'' \<rparr>)] \<rparr> \<and>
   importRow exampleEngine alwaysFails exampleIndex 0 (stockedRow(''Code'' \<mapsto> Str ''b1'')) (initialState ()) =
     (initialState ())
       \<lparr> errors := [''Row 2 (Code: b1): Error processing - HTTP error! status: 500''],
         calls := [UpdateProductAdmin (stockedData \<lparr> code := ''b1'', id' := Some ''p1'' \<rparr>)] \<rparr> \<and>
   validateRow exampleEngine exampleIndex 2 stockedRow = Inr (stockedData, None) \<and>
   validateRow exampleEngine exampleIndex 3 (stockedRow(''Code'' \<mapsto> Str ''s1'')) =
     Inr (stockedData \<lparr> code := ''s1'' \<rparr>, None) \<and>
   productCodeMap exampleIndex (toLowerCase ''S1'') = None \<and>
   calls (importRows exampleEngine alwaysOk exampleIndex 0 [stockedRow, stockedRow(''Code'' \<mapsto> Str ''s1'')]
            (initialState ())) =
     [AddProductAdmin stockedData, AddProductAdmin (stockedData \<lparr> code := ''s1'' \<rparr>)]"
proof -
  let ?u = "stockedRow(''Code'' \<mapsto> Str ''b1'')"
  let ?pu = "stockedData \<lparr> code := ''b1'' \<rparr>"
  have vu: "validateRow exampleEngine exampleIndex 2 ?u = Inr (?pu, None)"
    and vn: "validateRow exampleEngine exampleIndex 2 stockedRow = Inr (stockedData, None)"
    and vn2: "validateRow exampleEngine exampleIndex 3 (stockedRow(''Code'' \<mapsto> Str ''s1'')) =
               Inr (stockedData \<lparr> code := ''s1'' \<rparr>, None)"
    by (simp_all add: eval_simps)
  have vu0: "validateRow exampleEngine exampleIndex (0 + 2) ?u = Inr (?pu, None)"
    and vn0: "validateRow exampleEngine exampleIndex (0 + 2) stockedRow = Inr (stockedData, None)"
    and vn20: "validateRow exampleEngine exampleIndex (0 + 3) (stockedRow(''Code'' \<mapsto> Str ''s1'')) =
               Inr (stockedData \<lparr> code := ''s1'' \<rparr>, None)"
    using vu vn vn2 by simp_all
  have found: "productCodeMap exampleIndex (toLowerCase (code ?pu)) = Some exampleProduct"
    and fresh: "productCodeMap exampleIndex (toLowerCase (code stockedData)) = None"
    and same: "toLowerCase (code (stockedData \<lparr> code := ''s1'' \<rparr>)) = toLowerCase (code stockedData)"
    by (simp_all add: eval_simps)
  have ok: "updateProductAdmin alwaysOk (remoteState (initialState ()))
              (?pu \<lparr> id' := Some (prod_id exampleProduct) \<rparr>) = (None, ())"
    and ko: "updateProductAdmin alwaysFails (remoteState (initialState ()))
              (?pu \<lparr> id' := Some (prod_id exampleProduct) \<rparr>) = (Some ''HTTP error! status: 500'', ())"
    by (simp_all add: updateProductAdmin_def alwaysOk_def alwaysFails_def exampleProduct_def)
  note thm_ok = reconciliation_outcome [OF vu0 refl, where svc = alwaysOk and st = "initialState ()"]
  note thm_ko = reconciliation_outcome [OF vu0 refl, where svc = alwaysFails and st = "initialState ()"]
  note thm_new = reconciliation_outcome [OF vn0 refl, where svc = alwaysOk and st = "initialState ()"]
  from thm_ok found ok
  have updated: "importRow exampleEngine alwaysOk exampleIndex 0 ?u (initialState ()) =
     (initialState ())
       \<lparr> updatedCount := 1,
         calls := [UpdateProductAdmin (stockedData \<lparr> code := ''b1'', id' := Some ''p1'' \<rparr>)] \<rparr>"
    by (simp add: initialState_def exampleProduct_def)
  from thm_ko found ko
  have failed: "importRow exampleEngine alwaysFails exampleIndex 0 ?u (initialState ()) =
     (initialState ())
       \<lparr> errors := [''Row 2 (Code: b1): Error processing - HTTP error! status: 500''],
         calls := [UpdateProductAdmin (stockedData \<lparr> code := ''b1'', id' := Some ''p1'' \<rparr>)] \<rparr>"
    by (simp add: initialState_def exampleProduct_def rowPrefix_def showNat_digit digitChar_def
          del: add_2_eq_Suc add_2_eq_Suc')
  from thm_new vn20 same fresh
  have twice: "calls (importRows exampleEngine alwaysOk exampleIndex 0 [stockedRow, stockedRow(''Code'' \<mapsto> Str ''s1'')]
            (initialState ())) =
     [AddProductAdmin stockedData, AddProductAdmin (stockedData \<lparr> code := ''s1'' \<rparr>)]"
    by (simp add: initialState_def)
  from vu vn vn2 found fresh updated failed twice show ?thesis
    by (simp add: stockedData_def exampleData_def del: add_2_eq_Suc add_2_eq_Suc')
qed

section \<open>Export and import\<close>

subsection \<open>Decimal numerals\<close>

lemma digit_cases: "d < 10 \<Longrightarrow> d \<in> {0, 1, 2, 3, 4, 5, 6, 7, 8, 9 :: nat}"
  by auto

lemma digitChar_facts:
  assumes "d < 10"
  shows "isDigit (digitChar d)" and "d \<noteq> 0 \<Longrightarrow> digitChar d \<noteq> CHR ''0''"
  using digit_cases [OF assms]
  by (auto simp: digitChar_def isDigit_def)

lemma showNat_nonempty: "showNat n \<noteq> []"
  by (subst showNat.simps) simp

lemma showNat_digits: "list_all isDigit (showNat n)"
proof (induction n rule: showNat.induct)
  case (1 n)
  show ?case
  proof (cases "n < 10")
    case True
    then show ?thesis by (simp add: showNat_digit digitChar_facts)
  next
    case False
    with "1.IH" show ?thesis by (simp add: showNat_more digitChar_facts)
  qed
qed

lemma showNat_leading: "0 < n \<Longrightarrow> hd (showNat n) \<noteq> CHR ''0''"
proof (induction n rule: showNat.induct)
  case (1 n)
  show ?case
  proof (cases "n < 10")
    case True
    with "1.prems" show ?thesis by (simp add: showNat_digit digitChar_facts)
  next
    case False
    then have "0 < n div 10" by simp
    with False "1.IH" show ?thesis by (simp add: showNat_more showNat_nonempty)
  qed
qed

lemma showNat_long: "1 < length (showNat n) \<Longrightarrow> 0 < n"
  by (cases "n = 0") (simp_all add: showNat_digit)

lemma fracDigits_digits: "0 \<le> f \<Longrightarrow> f < 1 \<Longrightarrow> list_all isDigit (fracDigits k f)"
proof (induction k arbitrary: f)
  case 0
  then show ?case by simp
next
  case (Suc k)
  let ?d = "nat \<lfloor>f * 10\<rfloor>"
  from Suc.prems have range: "0 \<le> f * 10" "f * 10 < 10" by simp_all
  have floor: "0 \<le> \<lfloor>f * 10\<rfloor>" "\<lfloor>f * 10\<rfloor> < 10"
    using range by (simp_all only: zero_le_floor floor_less_iff of_int_numeral)
  then have d: "?d < 10" by linarith
  from floor have same: "(of_nat ?d :: rat) = of_int \<lfloor>f * 10\<rfloor>" by simp
  have "0 \<le> f * 10 - of_nat ?d" "f * 10 - of_nat ?d < 1"
    unfolding same by linarith+
  from Suc.IH [OF this] digitChar_facts(1) [OF d] show ?case
    by (simp add: Let_def)
qed

lemma toDouble_ge: "0 \<le> q \<Longrightarrow> num_ge (toDouble q) 0"
  by (simp add: toDouble_def num_ge_def)

lemma jsonNumber_decimal:
  assumes "ip \<noteq> []" and "list_all isDigit ip" and "\<not> (1 < length ip \<and> hd ip = CHR ''0'')"
    and "list_all isDigit fp"
  shows "jsonNumber (ip @ (if fp = [] then [] else ''.'' @ fp)) =
           Some (toDouble (of_nat (digitsVal (ip @ fp)) / 10 ^ length fp))"
proof -
  from assms(1) obtain d ds where ip: "ip = d # ds" by (cases ip) auto
  with assms(2) have d: "isDigit d" by simp
  then have "d \<noteq> CHR ''-''" by (auto simp: isDigit_def)
  with ip have sign: "hd ip \<noteq> CHR ''-''" by simp
  have dot: "\<not> isDigit CHR ''.''" by (simp add: isDigit_def)
  show ?thesis
  proof (cases "fp = []")
    case True
    have whole: "takeWhile isDigit ip = ip" "dropWhile isDigit ip = []"
      using assms(2) by (simp_all add: list_all_iff)
    show ?thesis
      using assms(1,2,3) sign
      by (simp add: True jsonNumber_def jsonExponent_def Let_def whole list_all_iff)
  next
    case False
    have whole: "takeWhile isDigit (ip @ CHR ''.'' # fp) = ip"
        "dropWhile isDigit (ip @ CHR ''.'' # fp) = CHR ''.'' # fp"
      using assms(2) dot by (simp_all add: list_all_iff takeWhile_append2 dropWhile_append3 dropWhile_append2)
    have part: "takeWhile isDigit fp = fp" "dropWhile isDigit fp = []"
      using assms(4) by (simp_all add: list_all_iff)
    have first: "hd (ip @ CHR ''.'' # fp) \<noteq> CHR ''-''"
      using assms(1) sign by simp
    show ?thesis
      using False assms(1,2,3,4) first
      by (simp add: jsonNumber_def jsonExponent_def Let_def whole part list_all_iff)
  qed
qed

lemma showRat_shape:
  assumes "0 \<le> q"
  shows "\<exists>ip fp. showRat q = ip @ (if fp = [] then [] else ''.'' @ fp) \<and> ip \<noteq> [] \<and>
           list_all isDigit ip \<and> \<not> (1 < length ip \<and> hd ip = CHR ''0'') \<and> list_all isDigit fp"
proof -
  let ?ip = "nat \<lfloor>q\<rfloor>"
  let ?fr = "q - of_nat ?ip"
  from assms have same: "(of_nat ?ip :: rat) = of_int \<lfloor>q\<rfloor>" by simp
  have fr: "0 \<le> ?fr" "?fr < 1"
    unfolding same by linarith+
  have lead: "\<not> (1 < length (showNat ?ip) \<and> hd (showNat ?ip) = CHR ''0'')"
    using showNat_leading [OF showNat_long, of ?ip] by auto
  show ?thesis
  proof (cases "?fr = 0")
    case True
    with assms have "showRat q = showNat ?ip @ (if ([] :: string) = [] then [] else ''.'' @ [])"
      by (simp add: showRat_def Let_def)
    with lead showNat_nonempty showNat_digits show ?thesis
      by (intro exI [of _ "showNat ?ip"] exI [of _ "[]"]) simp
  next
    case False
    then have some: "fracDigits 20 ?fr \<noteq> []"
      by (simp add: eval_nat_numeral Let_def)
    with False assms have "showRat q =
        showNat ?ip @ (if fracDigits 20 ?fr = [] then [] else ''.'' @ fracDigits 20 ?fr)"
      by (simp add: showRat_def Let_def)
    with lead showNat_nonempty showNat_digits fracDigits_digits [OF fr] show ?thesis
      by (intro exI [of _ "showNat ?ip"] exI [of _ "fracDigits 20 ?fr"]) simp
  qed
qed

lemma jsonNumber_showRat:
  assumes "0 \<le> q"
  shows "jsonNumber (showRat q) = Some (reread (Fin q))" and "num_ge (reread (Fin q)) 0"
proof -
  from showRat_shape [OF assms] obtain ip fp where
    shape: "showRat q = ip @ (if fp = [] then [] else ''.'' @ fp)" and
    parts: "ip \<noteq> []" "list_all isDigit ip" "\<not> (1 < length ip \<and> hd ip = CHR ''0'')" "list_all isDigit fp"
    by blast
  from jsonNumber_decimal [OF parts]
  have read: "jsonNumber (showRat q) = Some (toDouble (of_nat (digitsVal (ip @ fp)) / 10 ^ length fp))"
    by (simp only: shape)
  then show "jsonNumber (showRat q) = Some (reread (Fin q))"
    by (simp add: reread_def)
  have "(0 :: rat) \<le> of_nat (digitsVal (ip @ fp)) / 10 ^ length fp" by simp
  from toDouble_ge [OF this] read show "num_ge (reread (Fin q)) 0"
    by (simp add: reread_def)
qed

lemma showRat_chars:
  assumes "0 \<le> q"
  shows "\<exists>d ds. showRat q = d # ds \<and> isDigit d \<and> list_all isNumberChar ds"
proof -
  from showRat_shape [OF assms] obtain ip fp where
    shape: "showRat q = ip @ (if fp = [] then [] else ''.'' @ fp)" and
    parts: "ip \<noteq> []" "list_all isDigit ip" "list_all isDigit fp"
    by blast
  from parts(1) obtain d ds where ip: "ip = d # ds" by (cases ip) auto
  with parts(2) have "isDigit d" "list_all isNumberChar ds"
    by (simp_all add: list_all_iff isNumberChar_def)
  moreover from parts(3) have "list_all isNumberChar (if fp = [] then [] else ''.'' @ fp)"
    by (simp add: list_all_iff isNumberChar_def)
  ultimately show ?thesis
    using shape ip by (intro exI [of _ d] exI [of _ "ds @ (if fp = [] then [] else ''.'' @ fp)"]) simp
qed

subsection \<open>Reading back what was written\<close>

lemma lexFold_append:
  "lexFold st (xs @ ys) =
     (case lexFold st xs of
        None \<Rightarrow> None
      | Some (ts, st') \<Rightarrow>
          (case lexFold st' ys of None \<Rightarrow> None | Some (ts', st'') \<Rightarrow> Some (ts @ ts', st'')))"
  by (induction xs arbitrary: st) (auto split: option.splits)

lemma lexFold_then:
  "lexFold st xs = Some (ts, st') \<Longrightarrow> lexFold st' ys = Some (ts', st'') \<Longrightarrow>
   lexFold st (xs @ ys) = Some (ts @ ts', st'')"
  by (simp add: lexFold_append)

lemma lexRun_fold:
  "lexFold st xs = Some (ts, st') \<Longrightarrow>
   lexRun st xs = (case lexFinish st' of None \<Rightarrow> None | Some fin \<Rightarrow> Some (ts @ fin))"
  by (induction xs arbitrary: st ts) (auto split: option.splits)

lemma hexBits_hexDigitOf: "hexBits (hexDigitOf b0 b1 b2 b3) = Some (b0, b1, b2, b3)"
  by (cases b0; cases b1; cases b2; cases b3) (simp_all add: hexDigitOf_def hexBits_def)

lemma of_char_control:
  "(of_char (Char b0 b1 b2 b3 b4 False False False) :: nat) =
     16 * hexVal (b4, False, False, False) + hexVal (b0, b1, b2, b3)"
  by (cases b0; cases b1; cases b2; cases b3; cases b4) (simp_all add: hexVal_def)

lemma escapeChar_control:
  assumes "isControl c"
    and "c \<noteq> CHR 0x08" "c \<noteq> CHR 0x0C" "c \<noteq> CHR 0x0A" "c \<noteq> CHR 0x0D" "c \<noteq> CHR 0x09"
  shows "\<exists>h1 h2. escapeChar c = [CHR 0x5C, CHR ''u'', CHR ''0'', CHR ''0'', h1, h2] \<and>
           hexBits h1 \<noteq> None \<and> unicodeEscape [CHR ''0'', CHR ''0'', h1, h2] = Some (of_char c)"
proof -
  obtain b0 b1 b2 b3 b4 b5 b6 b7 where c: "c = Char b0 b1 b2 b3 b4 b5 b6 b7"
    by (cases c) auto
  with assms(1) have hi: "\<not> b5" "\<not> b6" "\<not> b7"
    by (simp_all add: isControl_def)
  from assms(1) have "c \<noteq> CHR 0x22" "c \<noteq> CHR 0x5C"
    by (auto simp: isControl_def)
  with assms have "escapeChar c =
      (case c of Char b0 b1 b2 b3 b4 b5 b6 b7 \<Rightarrow>
         [CHR 0x5C, CHR ''u'', CHR ''0'', CHR ''0'',
          hexDigitOf b4 False False False, hexDigitOf b0 b1 b2 b3])"
    by (simp add: escapeChar_def)
  then have e: "escapeChar c =
      [CHR 0x5C, CHR ''u'', CHR ''0'', CHR ''0'', hexDigitOf b4 False False False, hexDigitOf b0 b1 b2 b3]"
    by (simp add: c)
  have zero: "hexBits CHR ''0'' = Some (False, False, False, False)"
    by (simp add: hexBits_def)
  have none: "hexVal (False, False, False, False) = 0"
    by (simp add: hexVal_def)
  have "unicodeEscape [CHR ''0'', CHR ''0'', hexDigitOf b4 False False False, hexDigitOf b0 b1 b2 b3] =
          Some (16 * hexVal (b4, False, False, False) + hexVal (b0, b1, b2, b3))"
    by (simp add: unicodeEscape_def hexBits_hexDigitOf zero none)
  then have "unicodeEscape [CHR ''0'', CHR ''0'', hexDigitOf b4 False False False, hexDigitOf b0 b1 b2 b3] =
          Some (of_char c)"
    using hi by (simp only: c of_char_control)
  with e show ?thesis
    using hexBits_hexDigitOf [of b4 False False False] by blast
qed

lemma lexFold_unicode:
  assumes "hexBits h1 \<noteq> None" and "unicodeEscape [CHR ''0'', CHR ''0'', h1, h2] = Some u"
  shows "lexFold (LInString acc) [CHR 0x5C, CHR ''u'', CHR ''0'', CHR ''0'', h1, h2] =
           Some ([], LInString (acc @ [u]))"
proof -
  have zero: "hexBits CHR ''0'' \<noteq> None"
    by (simp add: hexBits_def)
  show ?thesis
    using assms zero by simp
qed

lemma lexFold_escapeChar:
  "lexFold (LInString acc) (escapeChar c) = Some ([], LInString (acc @ [of_char c]))"
proof -
  consider (named) "c \<in> {CHR 0x22, CHR 0x5C, CHR 0x08, CHR 0x0C, CHR 0x0A, CHR 0x0D, CHR 0x09}"
    | (control) "isControl c" "c \<notin> {CHR 0x22, CHR 0x5C, CHR 0x08, CHR 0x0C, CHR 0x0A, CHR 0x0D, CHR 0x09}"
    | (plain) "\<not> isControl c" "c \<notin> {CHR 0x22, CHR 0x5C, CHR 0x08, CHR 0x0C, CHR 0x0A, CHR 0x0D, CHR 0x09}"
    by blast
  then show ?thesis
  proof cases
    case named
    then show ?thesis
      by (auto simp: escapeChar_def)
  next
    case control
    then obtain h1 h2 where "escapeChar c = [CHR 0x5C, CHR ''u'', CHR ''0'', CHR ''0'', h1, h2]"
      and "hexBits h1 \<noteq> None" and "unicodeEscape [CHR ''0'', CHR ''0'', h1, h2] = Some (of_char c)"
      using escapeChar_control [of c] by auto
    then show ?thesis
      using lexFold_unicode [of h1 h2 "of_char c" acc] by simp
  next
    case plain
    then show ?thesis
      by (simp add: escapeChar_def)
  qed
qed

lemma lexFold_escaped:
  "lexFold (LInString acc) (concat (map escapeChar s)) = Some ([], LInString (acc @ codeUnits s))"
proof (induction s arbitrary: acc)
  case Nil
  then show ?case by (simp add: codeUnits_def)
next
  case (Cons c s)
  from lexFold_then [OF lexFold_escapeChar Cons.IH, of acc c]
  show ?case by (simp add: codeUnits_def)
qed

lemma lexFold_quoteJSON: "lexFold LStart (quoteJSON s) = Some ([TString (codeUnits s)], LStart)"
proof -
  have start: "lexFold LStart [CHR 0x22] = Some ([], LInString [])"
    by (simp add: lexStart_def isJsonSpace_def)
  have stop: "lexFold (LInString (codeUnits s)) [CHR 0x22] = Some ([TString (codeUnits s)], LStart)"
    by simp
  have body: "lexFold (LInString []) (concat (map escapeChar s)) = Some ([], LInString (codeUnits s))"
    using lexFold_escaped [of "[]" s] by simp
  from lexFold_then [OF lexFold_then [OF start body] stop]
  show ?thesis by (simp add: quoteJSON_def)
qed

lemma lexFold_numberChars:
  "list_all isNumberChar cs \<Longrightarrow> lexFold (LNumber acc) cs = Some ([], LNumber (acc @ cs))"
  by (induction cs arbitrary: acc) auto

lemma lexFold_number:
  assumes "0 \<le> q"
  shows "lexFold LStart (showRat q @ ''}'') = Some ([TNumber (reread (Fin q)), TRBrace], LStart)"
proof -
  from showRat_chars [OF assms] obtain d ds where shown: "showRat q = d # ds"
    and d: "isDigit d" and rest: "list_all isNumberChar ds" by blast
  from d have "\<not> isJsonSpace d" and "d \<notin> set ''[]{},:''" and "d \<noteq> CHR 0x22"
    by (auto simp: isDigit_def isJsonSpace_def)
  with d have first: "lexFold LStart [d] = Some ([], LNumber [d])"
    by (simp add: lexStart_def)
  have last: "lexFold (LNumber (d # ds)) ''}'' = Some ([TNumber (reread (Fin q)), TRBrace], LStart)"
    using jsonNumber_showRat(1) [OF assms] shown
    by (simp add: isNumberChar_def isDigit_def lexAfter_def lexStart_def isJsonSpace_def)
  from lexFold_numberChars [OF rest, of "[d]"] have "lexFold (LNumber [d]) ds = Some ([], LNumber (d # ds))"
    by simp
  from lexFold_then [OF lexFold_then [OF first this] last]
  show ?thesis by (simp add: shown)
qed

lemma lexFold_char:
  "lexFold LStart ''{'' = Some ([TLBrace], LStart)"
  "lexFold LStart '':'' = Some ([TColon], LStart)"
  "lexFold LStart '','' = Some ([TComma], LStart)"
  "lexFold LStart ''['' = Some ([TLBracket], LStart)"
  "lexFold LStart '']'' = Some ([TRBracket], LStart)"
  by (simp_all add: lexStart_def isJsonSpace_def)

lemma stringify_sizeStock:
  "stock s = Fin q \<Longrightarrow>
   stringify (sizeStockJson s) =
     ''{'' @ quoteJSON ''size'' @ '':'' @ quoteJSON (size' s) @ '','' @
     quoteJSON ''stock'' @ '':'' @ showRat q @ ''}''"
  by (simp add: sizeStockJson_def)

lemma lexFold_sizeStock:
  assumes "stock s = Fin q" and "0 \<le> q"
  shows "lexFold LStart (stringify (sizeStockJson s)) = Some (sizeStockTokens s, LStart)"
proof -
  note step = lexFold_then
  have "lexFold LStart
          (''{'' @ quoteJSON ''size'' @ '':'' @ quoteJSON (size' s) @ '','' @
           quoteJSON ''stock'' @ '':'' @ (showRat q @ ''}'')) =
        Some ([TLBrace] @ [TString (codeUnits ''size'')] @ [TColon] @ [TString (codeUnits (size' s))] @
              [TComma] @ [TString (codeUnits ''stock'')] @ [TColon] @
              [TNumber (reread (Fin q)), TRBrace], LStart)"
    by (rule step lexFold_char lexFold_quoteJSON lexFold_number [OF assms(2)])+
  then show ?thesis
    using assms(1) by (simp add: stringify_sizeStock sizeStockTokens_def)
qed

lemma join_Cons: "join sep (x # xs) = x @ concat (map (\<lambda>y. sep @ y) xs)"
  by (induction xs arbitrary: x) simp_all

lemma lexFold_more:
  assumes "\<forall>s \<in> set ss. \<exists>q \<ge> 0. stock s = Fin q"
  shows "lexFold LStart (concat (map (\<lambda>y. '','' @ y) (map (\<lambda>s. stringify (sizeStockJson s)) ss))) =
           Some (concat (map (\<lambda>s. TComma # sizeStockTokens s) ss), LStart)"
  using assms
proof (induction ss)
  case Nil
  then show ?case by simp
next
  case (Cons s ss)
  then obtain q where q: "stock s = Fin q" "0 \<le> q" by auto
  from Cons have rest: "lexFold LStart (concat (map (\<lambda>y. '','' @ y) (map (\<lambda>s. stringify (sizeStockJson s)) ss))) =
           Some (concat (map (\<lambda>s. TComma # sizeStockTokens s) ss), LStart)"
    by simp
  from lexFold_then [OF lexFold_then [OF lexFold_char(3) lexFold_sizeStock [OF q]] rest]
  show ?case by simp
qed

lemma lexRun_sizes:
  assumes "\<forall>s \<in> set ss. \<exists>q \<ge> 0. stock s = Fin q"
  shows "lexRun LStart (stringify (JArr (map sizeStockJson ss))) = Some (sizesTokens ss)"
proof (cases ss)
  case Nil
  have "lexFold LStart (''['' @ '']'') = Some ([TLBracket] @ [TRBracket], LStart)"
    by (rule lexFold_then lexFold_char)+
  from lexRun_fold [OF this] Nil show ?thesis
    by (simp add: sizesTokens_def)
next
  case (Cons s others)
  with assms obtain q where q: "stock s = Fin q" "0 \<le> q" by auto
  from assms Cons have others: "\<forall>s \<in> set others. \<exists>q \<ge> 0. stock s = Fin q" by simp
  have "lexFold LStart
          (''['' @ stringify (sizeStockJson s) @
           concat (map (\<lambda>y. '','' @ y) (map (\<lambda>s. stringify (sizeStockJson s)) others)) @ '']'') =
        Some ([TLBracket] @ sizeStockTokens s @ concat (map (\<lambda>s. TComma # sizeStockTokens s) others) @
              [TRBracket], LStart)"
    by (rule lexFold_then lexFold_char lexFold_sizeStock [OF q] lexFold_more [OF others])+
  from lexRun_fold [OF this] Cons show ?thesis
    by (simp add: sizesTokens_def join_Cons comp_def)
qed

lemma parseRun_sizeStock:
  "parseRun (PObjStart (FArr xs # stk)) (tl (sizeStockTokens s) @ rest) =
     parseRun (PAfterElem (xs @ [sizeStockRead s]) stk) rest"
  by (simp add: sizeStockTokens_def sizeStockRead_def)

lemma parseRun_more:
  "parseRun (PAfterElem xs []) (concat (map (\<lambda>s. TComma # sizeStockTokens s) ss) @ [TRBracket]) =
     Some (JArr (xs @ map sizeStockRead ss))"
proof (induction ss arbitrary: xs)
  case Nil
  then show ?case by simp
next
  case (Cons s ss)
  have "parseRun (PAfterElem xs [])
          ((TComma # sizeStockTokens s) @ concat (map (\<lambda>s. TComma # sizeStockTokens s) ss) @ [TRBracket]) =
        parseRun (PObjStart [FArr xs])
          (tl (sizeStockTokens s) @ concat (map (\<lambda>s. TComma # sizeStockTokens s) ss) @ [TRBracket])"
    by (simp add: sizeStockTokens_def)
  with Cons.IH [of "xs @ [sizeStockRead s]"] show ?case
    by (simp add: parseRun_sizeStock)
qed

lemma parseRun_sizes: "parseRun (PValue []) (sizesTokens ss) = Some (JArr (map sizeStockRead ss))"
proof (cases ss)
  case Nil
  then show ?thesis by (simp add: sizesTokens_def)
next
  case (Cons s others)
  have "parseRun (PValue []) (sizesTokens ss) =
        parseRun (PObjStart [FArr []])
          (tl (sizeStockTokens s) @ concat (map (\<lambda>s. TComma # sizeStockTokens s) others) @ [TRBracket])"
    by (simp add: Cons sizesTokens_def sizeStockTokens_def)
  then show ?thesis
    using parseRun_more [of "[sizeStockRead s]" others] Cons
    by (simp add: parseRun_sizeStock)
qed

lemma JSON_parse_sizes:
  assumes "\<forall>s \<in> set ss. \<exists>q \<ge> 0. stock s = Fin q"
  shows "JSON_parse eng (stringify (JArr (map sizeStockJson ss))) = Inr (JArr (map sizeStockRead ss))"
  unfolding JSON_parse_def lexRun_sizes [OF assms]
  by (simp add: parseRun_sizes)

lemma every_sizeStockRead:
  assumes "\<forall>s \<in> set ss. \<exists>q \<ge> 0. stock s = Fin q"
  shows "every (sizeStockOk eng) (map sizeStockRead ss) = Inr True"
proof -
  have "sizeStockOk eng (sizeStockRead s) = Inr True" if "s \<in> set ss" for s
  proof -
    from assms that obtain q where "stock s = Fin q" "0 \<le> q" by auto
    with jsonNumber_showRat(2) [of q] show ?thesis
      by (simp add: sizeStockOk_True sizeStockRead_def getProp_def codeUnits_def)
  qed
  then show ?thesis
    by (simp add: every_True)
qed

subsection \<open>The rows of an export\<close>

lemma trim_brackets: "trim (CHR ''['' # s @ '']'') = CHR ''['' # s @ '']''"
  by (simp add: trim_def isWhiteSpace_def)

lemma stringify_array_shape: "\<exists>s. stringify (JArr xs) = CHR ''['' # s @ '']''"
  by simp

lemma exported_cell:
  assumes "field r ''SizesStockJSON'' = Str (stringify (JArr xs))"
  shows "cellText (field r ''SizesStockJSON'') = stringify (JArr xs)" and "stringify (JArr xs) \<noteq> []"
proof -
  obtain s where shape: "stringify (JArr xs) = CHR ''['' # s @ '']''"
    using stringify_array_shape by blast
  show "cellText (field r ''SizesStockJSON'') = stringify (JArr xs)"
    unfolding assms cellText_def truthy_def toString_def
    by (simp add: shape trim_brackets del: stringify.simps)
  show "stringify (JArr xs) \<noteq> []"
    by simp
qed

lemma structured_result:
  assumes "cellText (field r ''SizesStockJSON'') = s" and "s \<noteq> []"
    and "sizesOfRow eng rowIndex r = Inr accepted"
  shows "accepted = (s, None)"
  using assms unfolding sizesOfRow_def Let_def
  by (auto split: sum.splits if_splits)

lemma sizesOfRow_exported:
  assumes "\<forall>s \<in> set ss. \<exists>q \<ge> 0. stock s = Fin q"
    and "field r ''SizesStockJSON'' = Str (stringify (JArr (map sizeStockJson ss)))"
  shows "sizesOfRow eng rowIndex r = Inr (stringify (JArr (map sizeStockJson ss)), None)"
  using structured_accepted_iff [OF exported_cell [OF assms(2)], of eng rowIndex]
    JSON_parse_sizes [OF assms(1), of eng] every_sizeStockRead [OF assms(1), of eng]
  by simp

lemma exportRow_fields:
  "field (exportRow t p) ''Title'' = Str (prod_title p)"
  "field (exportRow t p) ''Code'' = Str (prod_code p)"
  "field (exportRow t p) ''Category'' = Str (orElse (prod_categoryName p) (prod_categoryId p))"
  "field (exportRow t p) ''Manufacturer'' = Str (orElse (prod_manufacturerName p) (prod_manufacturerId p))"
  "field (exportRow t p) ''Price'' = Num (prod_price p)"
  "field (exportRow t p) ''SizesStockJSON'' = Str (stringify (JArr (map sizeStockJson (prod_sizes p))))"
  "field (exportRow t p) ''Image URL'' = Str (prod_image p)"
  "field (exportRow t p) ''Is Visible'' =
     Str (if prod_isVisible p then t ''common.yes'' [] else t ''common.no'' [])"
  by (simp_all add: exportRow_def field_def del: stringify.simps)

lemma validateRow_exported_any:
  assumes "validateRow eng idx rowIndex (exportRow t p) = Inr (productData, warning)"
  shows "warning = None \<and> title productData = prod_title p \<and> code productData = prod_code p \<and>
         sizes productData = stringify (JArr (map sizeStockJson (prod_sizes p))) \<and>
         image productData = prod_image p"
proof -
  from assms obtain s where block: "sizesOfRow eng rowIndex (exportRow t p) = Inr (s, warning)"
    and made: "title productData = toString (field (exportRow t p) ''Title'')"
      "code productData = toString (field (exportRow t p) ''Code'')"
      "sizes productData = s"
      "image productData = toString (field (exportRow t p) ''Image URL'')"
    unfolding validateRow_def Let_def
    by (auto split: if_splits option.splits sum.splits)
  from structured_result [OF exported_cell [OF exportRow_fields(6)] block]
  have "s = stringify (JArr (map sizeStockJson (prod_sizes p)))" "warning = None"
    by simp_all
  with made show ?thesis
    by (simp add: exportRow_fields toString_def del: stringify.simps)
qed

lemma validateRow_exported:
  assumes "reachesSizes idx (exportRow t p)" and "\<forall>s \<in> set (prod_sizes p). \<exists>q \<ge> 0. stock s = Fin q"
  shows "\<exists>productData. validateRow eng idx rowIndex (exportRow t p) = Inr (productData, None)"
  using validateRow_sizes_accepted [OF assms(1) sizesOfRow_exported [OF assms(2) exportRow_fields(6)]]
  by blast

subsection \<open>Re-importing an export\<close>

lemma importRow_exported_any:
  fixes st :: "'b importState"
  assumes "p \<in> set products"
  shows "\<exists>new. calls (importRow eng svc (buildIndex cats mans products) i (exportRow t p) st) =
                 calls st @ new \<and>
               (\<forall>c \<in> set new. \<exists>request. c = UpdateProductAdmin request) \<and>
               importedCount (importRow eng svc (buildIndex cats mans products) i (exportRow t p) st) =
                 importedCount st \<and>
               updatedCount (importRow eng svc (buildIndex cats mans products) i (exportRow t p) st) +
               length (errors (importRow eng svc (buildIndex cats mans products) i (exportRow t p) st)) =
                 updatedCount st + length (errors st) + 1"
proof (cases "validateRow eng (buildIndex cats mans products) (i + 2) (exportRow t p)")
  case (Inl reason)
  from importRow_rejected [OF Inl, of svc st] show ?thesis
    by (intro exI [of _ "[]"]) simp
next
  case (Inr accepted)
  let ?idx = "buildIndex cats mans products"
  obtain productData warning where "accepted = (productData, warning)"
    by (cases accepted) auto
  with Inr have v: "validateRow eng ?idx (i + 2) (exportRow t p) = Inr (productData, warning)" by simp
  from validateRow_exported_any [OF v] have w: "warning = None" and c: "code productData = prod_code p"
    by simp_all
  from assms have "productCodeMap ?idx (toLowerCase (prod_code p)) \<noteq> None"
    by (auto simp: productCodeMap_None)
  then obtain existing where found: "productCodeMap ?idx (toLowerCase (code productData)) = Some existing"
    using c by auto
  let ?request = "productData \<lparr> id' := Some (prod_id existing) \<rparr>"
  obtain failure b where call: "updateProductAdmin svc (remoteState st) ?request = (failure, b)"
    by (cases "updateProductAdmin svc (remoteState st) ?request") auto
  from importRow_accepted [OF v, of svc st] w mutateRow_update [OF found call, of "i + 2"]
  have "importRow eng svc ?idx i (exportRow t p) st =
     (case failure of
        None \<Rightarrow>
          st \<lparr> updatedCount := updatedCount st + 1,
               calls := calls st @ [UpdateProductAdmin ?request], remoteState := b \<rparr>
      | Some msg \<Rightarrow>
          st \<lparr> errors := errors st @
                 [rowPrefix (i + 2) @ '' (Code: '' @ code productData @ ''): Error processing - '' @ msg],
               calls := calls st @ [UpdateProductAdmin ?request], remoteState := b \<rparr>)"
    by simp
  then show ?thesis
    by (intro exI [of _ "[UpdateProductAdmin ?request]"]) (cases failure; simp)
qed

lemma importRows_exported_any:
  fixes st :: "'b importState"
  assumes "set qs \<subseteq> set products"
  shows "\<exists>new. calls (importRows eng svc (buildIndex cats mans products) i (map (exportRow t) qs) st) =
                 calls st @ new \<and>
               (\<forall>c \<in> set new. \<exists>request. c = UpdateProductAdmin request) \<and>
               importedCount (importRows eng svc (buildIndex cats mans products) i (map (exportRow t) qs) st) =
                 importedCount st \<and>
               updatedCount (importRows eng svc (buildIndex cats mans products) i (map (exportRow t) qs) st) +
               length (errors (importRows eng svc (buildIndex cats mans products) i (map (exportRow t) qs) st)) =
                 updatedCount st + length (errors st) + length qs"
  using assms
proof (induction qs arbitrary: i st)
  case Nil
  show ?case
    by (intro exI [of _ "[]"]) simp
next
  case (Cons p qs)
  let ?idx = "buildIndex cats mans products"
  let ?st = "importRow eng svc ?idx i (exportRow t p) st"
  from Cons.prems have p: "p \<in> set products" and rest: "set qs \<subseteq> set products" by simp_all
  from importRow_exported_any [OF p, of eng svc cats mans i t st]
  obtain new where first: "calls ?st = calls st @ new"
    "\<forall>c \<in> set new. \<exists>request. c = UpdateProductAdmin request"
    "importedCount ?st = importedCount st"
    "updatedCount ?st + length (errors ?st) = updatedCount st + length (errors st) + 1"
    by blast
  from Cons.IH [OF rest, of "i + 1" ?st]
  obtain new' where others:
    "calls (importRows eng svc ?idx (i + 1) (map (exportRow t) qs) ?st) = calls ?st @ new'"
    "\<forall>c \<in> set new'. \<exists>request. c = UpdateProductAdmin request"
    "importedCount (importRows eng svc ?idx (i + 1) (map (exportRow t) qs) ?st) = importedCount ?st"
    "updatedCount (importRows eng svc ?idx (i + 1) (map (exportRow t) qs) ?st) +
     length (errors (importRows eng svc ?idx (i + 1) (map (exportRow t) qs) ?st)) =
       updatedCount ?st + length (errors ?st) + length qs"
    by blast
  from first others show ?case
    by (intro exI [of _ "new @ new'"]) auto
qed

lemma importRow_exported:
  fixes st :: "'b importState"
  assumes "reachesSizes idx (exportRow t p)" and "\<forall>s \<in> set (prod_sizes p). \<exists>q \<ge> 0. stock s = Fin q"
    and "productCodeMap idx (toLowerCase (prod_code p)) = Some existing" and "prod_id existing \<noteq> []"
    and "\<forall>state request. fst (svc state request) = None"
  shows "\<exists>request b.
           importRow eng svc idx i (exportRow t p) st =
             st \<lparr> updatedCount := updatedCount st + 1,
                  calls := calls st @ [UpdateProductAdmin request],
                  remoteState := b \<rparr> \<and>
           id' request = Some (prod_id existing) \<and> title request = prod_title p \<and>
           code request = prod_code p \<and>
           sizes request = stringify (JArr (map sizeStockJson (prod_sizes p))) \<and>
           image request = prod_image p"
proof -
  from validateRow_exported [OF assms(1,2), of eng "i + 2"]
  obtain productData where v: "validateRow eng idx (i + 2) (exportRow t p) = Inr (productData, None)"
    by blast
  from validateRow_exported_any [OF v]
  have same: "title productData = prod_title p" "code productData = prod_code p"
      "sizes productData = stringify (JArr (map sizeStockJson (prod_sizes p)))"
      "image productData = prod_image p"
    by simp_all
  let ?request = "productData \<lparr> id' := Some (prod_id existing) \<rparr>"
  obtain failure b where call: "updateProductAdmin svc (remoteState st) ?request = (failure, b)"
    by (cases "updateProductAdmin svc (remoteState st) ?request") auto
  with assms(4,5) have ok: "failure = None"
    by (auto simp: updateProductAdmin_def dest: arg_cong [where f = fst])
  have found: "productCodeMap idx (toLowerCase (code productData)) = Some existing"
    using assms(3) same(2) by simp
  from importRow_accepted [OF v, of svc st] mutateRow_update [OF found call, of "i + 2"] ok
  have "importRow eng svc idx i (exportRow t p) st =
          st \<lparr> updatedCount := updatedCount st + 1,
               calls := calls st @ [UpdateProductAdmin ?request],
               remoteState := b \<rparr>"
    by simp
  with same show ?thesis
    by (intro exI [of _ ?request] exI [of _ b]) (simp del: stringify.simps)
qed

lemma importRows_exported:
  fixes st :: "'b importState"
  assumes "\<forall>p \<in> set qs. p \<in> set products \<and> reachesSizes (buildIndex cats mans products) (exportRow t p) \<and>
             (\<forall>s \<in> set (prod_sizes p). \<exists>q \<ge> 0. stock s = Fin q)"
    and "\<forall>p \<in> set products. prod_id p \<noteq> []"
    and "\<forall>state request. fst (svc state request) = None"
  shows "\<exists>newCalls b.
           importRows eng svc (buildIndex cats mans products) i (map (exportRow t) qs) st =
             st \<lparr> updatedCount := updatedCount st + length qs,
                  calls := calls st @ newCalls,
                  remoteState := b \<rparr> \<and>
           list_all2 (reimported products) qs newCalls"
  using assms(1)
proof (induction qs arbitrary: i st)
  case Nil
  show ?case
    by (intro exI [of _ "[]"] exI [of _ "remoteState st"]) simp
next
  case (Cons p qs)
  let ?idx = "buildIndex cats mans products"
  from Cons.prems have p: "p \<in> set products" "reachesSizes ?idx (exportRow t p)"
      "\<forall>s \<in> set (prod_sizes p). \<exists>q \<ge> 0. stock s = Fin q"
    by simp_all
  from p(1) have "productCodeMap ?idx (toLowerCase (prod_code p)) \<noteq> None"
    by (auto simp: productCodeMap_None)
  then obtain q where q: "productCodeMap ?idx (toLowerCase (prod_code p)) = Some q" by blast
  from productCodeMap_Some [OF q] have q': "q \<in> set products"
      "toLowerCase (prod_code q) = toLowerCase (prod_code p)"
    by simp_all
  with assms(2) have "prod_id q \<noteq> []" by simp
  from importRow_exported [OF p(2,3) q this assms(3), of eng i st]
  obtain request b where step: "importRow eng svc ?idx i (exportRow t p) st =
             st \<lparr> updatedCount := updatedCount st + 1,
                  calls := calls st @ [UpdateProductAdmin request],
                  remoteState := b \<rparr>"
    and request: "id' request = Some (prod_id q)" "title request = prod_title p"
      "code request = prod_code p"
      "sizes request = stringify (JArr (map sizeStockJson (prod_sizes p)))"
      "image request = prod_image p"
    by blast
  from request q' have first: "reimported products p (UpdateProductAdmin request)"
    unfolding reimported_def by blast
  from Cons.prems have "\<forall>p \<in> set qs. p \<in> set products \<and> reachesSizes ?idx (exportRow t p) \<and>
             (\<forall>s \<in> set (prod_sizes p). \<exists>q \<ge> 0. stock s = Fin q)" by simp
  from Cons.IH [OF this, of "i + 1" "importRow eng svc ?idx i (exportRow t p) st"]
  obtain newCalls b' where rest:
    "importRows eng svc ?idx (i + 1) (map (exportRow t) qs) (importRow eng svc ?idx i (exportRow t p) st) =
       (importRow eng svc ?idx i (exportRow t p) st)
         \<lparr> updatedCount := updatedCount (importRow eng svc ?idx i (exportRow t p) st) + length qs,
           calls := calls (importRow eng svc ?idx i (exportRow t p) st) @ newCalls,
           remoteState := b' \<rparr>"
    and all: "list_all2 (reimported products) qs newCalls"
    by blast
  show ?case
    using rest all first
    by (intro exI [of _ "UpdateProductAdmin request # newCalls"] exI [of _ b']) (simp add: step)
qed

lemma exported_file:
  assumes "handleExportProducts lib t exported = (shown, Some content)"
  shows "exported \<noteq> []" and "writeRows lib (map (exportRow t) exported) = Inr content"
  using assms unfolding handleExportProducts_def
  by (auto split: if_splits sum.splits)

text \<open>
  Claim C1, as the code has it. The export writes one row for each product of the list
  it is given (the list of the page as filtered and sorted, which the page refuses to
  export when it is empty), with the sizes in the structured form. When the spreadsheet
  library reads back from the file the rows that were written, the import of the file
  never inserts: every row carries the structured payload, which gives no warning, and
  a code that is in the map from codes to products, so each row is either an update or
  is turned away, one outcome for each row. The rows are all updates, with nothing
  turned away, when moreover every exported row passes the four checks that come before
  the sizes (the required fields, the category, the manufacturer and the price), every
  stock is a finite number that is not negative, every product of the catalog has an id,
  and the service accepts every request. Each update then carries the id of a catalog
  product of the same code, letter case aside, and the title, code, sizes and image of
  the product of its row, and the pass reports success with the count of the rows.
\<close>

theorem export_import_round_trip:
  fixes b :: 'b and lib :: "'f xlsx"
  assumes "handleExportProducts lib t exported = (shown, Some content)"
    and "readRows lib content = Inr (map (exportRow t) exported)"
    and "set exported \<subseteq> set products"
    and "run = onload lib eng t svc b cats mans products (Some content)"
  shows "exported \<noteq> [] \<and>
         (\<forall>p \<in> set exported.
            cellText (field (exportRow t p) ''SizesStockJSON'') =
              stringify (JArr (map sizeStockJson (prod_sizes p))) \<and>
            cellText (field (exportRow t p) ''SizesStockJSON'') \<noteq> [] \<and>
            productCodeMap (buildIndex cats mans products)
              (toLowerCase (toString (field (exportRow t p) ''Code''))) \<noteq> None) \<and>
         importedCount (snd run) = 0 \<and>
         (\<forall>c \<in> set (calls (snd run)). \<exists>request. c = UpdateProductAdmin request) \<and>
         updatedCount (snd run) + length (errors (snd run)) = length exported \<and>
         ((\<forall>p \<in> set exported.
             reachesSizes (buildIndex cats mans products) (exportRow t p) \<and>
             (\<forall>s \<in> set (prod_sizes p). \<exists>q \<ge> 0. stock s = Fin q)) \<and>
          (\<forall>p \<in> set products. prod_id p \<noteq> []) \<and>
          (\<forall>state request. fst (svc state request) = None) \<longrightarrow>
            fst run = SuccessMessage (''Import successful! '' @ showNat (length exported) @
                                      '' products updated. '') \<and>
            updatedCount (snd run) = length exported \<and> errors (snd run) = [] \<and>
            list_all2 (reimported products) exported (calls (snd run)))"
proof -
  let ?idx = "buildIndex cats mans products"
  let ?st = "importRows eng svc ?idx 0 (map (exportRow t) exported) (initialState b)"
  note wrote = exported_file [OF assms(1)]
  have run: "run = (finalNotice ?st, ?st)"
    using wrote(1) by (simp add: assms(2,4) onload_def handleFileImport_def Let_def)
  from importRows_exported_any [OF assms(3), of eng svc cats mans 0 t "initialState b"]
  obtain new where any: "calls ?st = calls (initialState b) @ new"
    "\<forall>c \<in> set new. \<exists>request. c = UpdateProductAdmin request"
    "importedCount ?st = importedCount (initialState b)"
    "updatedCount ?st + length (errors ?st) =
       updatedCount (initialState b) + length (errors (initialState b)) + length exported"
    by blast
  have general: "importedCount (snd run) = 0"
    "\<forall>c \<in> set (calls (snd run)). \<exists>request. c = UpdateProductAdmin request"
    "updatedCount (snd run) + length (errors (snd run)) = length exported"
    using any by (simp_all add: run initialState_def)
  have updates: "fst run = SuccessMessage (''Import successful! '' @ showNat (length exported) @
                                      '' products updated. '') \<and>
            updatedCount (snd run) = length exported \<and> errors (snd run) = [] \<and>
            list_all2 (reimported products) exported (calls (snd run))"
    if good: "\<forall>p \<in> set exported.
             reachesSizes ?idx (exportRow t p) \<and> (\<forall>s \<in> set (prod_sizes p). \<exists>q \<ge> 0. stock s = Fin q)"
      and ids: "\<forall>p \<in> set products. prod_id p \<noteq> []"
      and service: "\<forall>state request. fst (svc state request) = None"
  proof -
    from good assms(3)
    have "\<forall>p \<in> set exported. p \<in> set products \<and> reachesSizes ?idx (exportRow t p) \<and>
             (\<forall>s \<in> set (prod_sizes p). \<exists>q \<ge> 0. stock s = Fin q)"
      by blast
    from importRows_exported [OF this ids service, where eng = eng and i = 0 and st = "initialState b"]
    obtain newCalls b' where pass:
      "?st = (initialState b) \<lparr> updatedCount := updatedCount (initialState b) + length exported,
                                calls := calls (initialState b) @ newCalls, remoteState := b' \<rparr>"
      and all: "list_all2 (reimported products) exported newCalls"
      by blast
    from pass have st: "updatedCount ?st = length exported" "importedCount ?st = 0" "errors ?st = []"
        "calls ?st = newCalls"
      by (simp_all add: initialState_def)
    from wrote(1) have "0 < length exported" by simp
    with st have "finalNotice ?st =
        SuccessMessage (''Import successful! '' @ showNat (length exported) @ '' products updated. '')"
      by (simp add: finalNotice_def summaryMessage_def)
    with st all show ?thesis
      by (simp add: run)
  qed
  have carried: "\<forall>p \<in> set exported.
            cellText (field (exportRow t p) ''SizesStockJSON'') =
              stringify (JArr (map sizeStockJson (prod_sizes p))) \<and>
            cellText (field (exportRow t p) ''SizesStockJSON'') \<noteq> [] \<and>
            productCodeMap ?idx (toLowerCase (toString (field (exportRow t p) ''Code''))) \<noteq> None"
  proof
    fix p assume "p \<in> set exported"
    with assms(3) have "p \<in> set products" by blast
    then have "productCodeMap ?idx (toLowerCase (prod_code p)) \<noteq> None"
      by (auto simp: productCodeMap_None)
    then have "productCodeMap ?idx (toLowerCase (toString (field (exportRow t p) ''Code''))) \<noteq> None"
      by (simp add: exportRow_fields toString_def)
    with exported_cell [OF exportRow_fields(6) [of t p]]
    show "cellText (field (exportRow t p) ''SizesStockJSON'') =
              stringify (JArr (map sizeStockJson (prod_sizes p))) \<and>
            cellText (field (exportRow t p) ''SizesStockJSON'') \<noteq> [] \<and>
            productCodeMap ?idx (toLowerCase (toString (field (exportRow t p) ''Code''))) \<noteq> None"
      by simp
  qed
  show ?thesis
  proof (intro conjI)
    show "exported \<noteq> []" by (rule wrote(1))
    show "\<forall>p \<in> set exported.
            cellText (field (exportRow t p) ''SizesStockJSON'') =
              stringify (JArr (map sizeStockJson (prod_sizes p))) \<and>
            cellText (field (exportRow t p) ''SizesStockJSON'') \<noteq> [] \<and>
            productCodeMap ?idx (toLowerCase (toString (field (exportRow t p) ''Code''))) \<noteq> None"
      by (rule carried)
  qed (use general updates in blast)+
qed

theorem export_import_round_trip_witness:
  "handleExportProducts keepsRows english [exampleProduct] =
     (SuccessMessage ''Success! Products exported.'', Some [exportRow english exampleProduct]) \<and>
   readRows keepsRows [exportRow english exampleProduct] = Inr [exportRow english exampleProduct] \<and>
   reachesSizes (buildIndex exampleCategories exampleManufacturers [exampleProduct])
     (exportRow english exampleProduct) \<and>
   prod_sizes exampleProduct = [\<lparr> size' = ''S'', stock = Fin 1 \<rparr>] \<and>
   prod_id exampleProduct \<noteq> [] \<and>
   fst (onload keepsRows exampleEngine english alwaysOk () exampleCategories exampleManufacturers
          [exampleProduct] (Some [exportRow english exampleProduct])) =
     SuccessMessage ''Import successful! 1 products updated. '' \<and>
   updatedCount (snd (onload keepsRows exampleEngine english alwaysOk () exampleCategories
                        exampleManufacturers [exampleProduct]
                        (Some [exportRow english exampleProduct]))) = 1 \<and>
   importedCount (snd (onload keepsRows exampleEngine english alwaysOk () exampleCategories
                         exampleManufacturers [exampleProduct]
                         (Some [exportRow english exampleProduct]))) = 0 \<and>
   errors (snd (onload keepsRows exampleEngine english alwaysOk () exampleCategories
                  exampleManufacturers [exampleProduct]
                  (Some [exportRow english exampleProduct]))) = []"
proof -
  let ?rows = "[exportRow english exampleProduct]"
  let ?idx = "buildIndex exampleCategories exampleManufacturers [exampleProduct]"
  have written: "handleExportProducts keepsRows english [exampleProduct] =
     (SuccessMessage ''Success! Products exported.'', Some ?rows)"
    by (simp add: handleExportProducts_def keepsRows_def english_def)
  have readBack: "readRows keepsRows ?rows = Inr (map (exportRow english) [exampleProduct])"
    by (simp add: keepsRows_def)
  have reach: "reachesSizes ?idx (exportRow english exampleProduct)"
    by (simp add: eval_simps orElse_def exportRow_def)
  have stocks: "prod_sizes exampleProduct = [\<lparr> size' = ''S'', stock = Fin 1 \<rparr>]"
    and ids: "prod_id exampleProduct \<noteq> []"
    by (simp_all add: exampleProduct_def)
  have good: "\<forall>p \<in> set [exampleProduct].
             reachesSizes ?idx (exportRow english p) \<and>
             (\<forall>s \<in> set (prod_sizes p). \<exists>q \<ge> 0. stock s = Fin q)"
    using reach stocks by simp
  have allIds: "\<forall>p \<in> set [exampleProduct]. prod_id p \<noteq> []"
    using ids by simp
  have service: "\<forall>state request. fst (alwaysOk state request) = None"
    by (simp add: alwaysOk_def)
  from export_import_round_trip [OF written readBack subset_refl refl,
         where eng = exampleEngine and svc = alwaysOk and b = "()" and cats = exampleCategories
           and mans = exampleManufacturers]
       good allIds service
  have "fst (onload keepsRows exampleEngine english alwaysOk () exampleCategories exampleManufacturers
          [exampleProduct] (Some ?rows)) =
     SuccessMessage (''Import successful! '' @ showNat (length [exampleProduct]) @ '' products updated. '') \<and>
   updatedCount (snd (onload keepsRows exampleEngine english alwaysOk () exampleCategories
                        exampleManufacturers [exampleProduct] (Some ?rows))) = length [exampleProduct] \<and>
   importedCount (snd (onload keepsRows exampleEngine english alwaysOk () exampleCategories
                         exampleManufacturers [exampleProduct] (Some ?rows))) = 0 \<and>
   errors (snd (onload keepsRows exampleEngine english alwaysOk () exampleCategories
                  exampleManufacturers [exampleProduct] (Some ?rows))) = []"
    by blast
  then have "fst (onload keepsRows exampleEngine english alwaysOk () exampleCategories exampleManufacturers
          [exampleProduct] (Some ?rows)) = SuccessMessage ''Import successful! 1 products updated. '' \<and>
   updatedCount (snd (onload keepsRows exampleEngine english alwaysOk () exampleCategories
                        exampleManufacturers [exampleProduct] (Some ?rows))) = 1 \<and>
   importedCount (snd (onload keepsRows exampleEngine english alwaysOk () exampleCategories
                         exampleManufacturers [exampleProduct] (Some ?rows))) = 0 \<and>
   errors (snd (onload keepsRows exampleEngine english alwaysOk () exampleCategories
                  exampleManufacturers [exampleProduct] (Some ?rows))) = []"
    by (simp add: showNat_digit digitChar_def)
  with written readBack reach stocks ids show ?thesis by simp
qed

text \<open>
  A catalog whose one product has the price \<open>0\<close>: the export writes its row, the row read
  back is turned away by the price check, and the pass has no update and one rejection.
\<close>

theorem export_import_round_trip_counterexample:
  "handleExportProducts keepsRows english [exampleProduct \<lparr> prod_price := Fin 0 \<rparr>] =
     (SuccessMessage ''Success! Products exported.'',
      Some [exportRow english (exampleProduct \<lparr> prod_price := Fin 0 \<rparr>)]) \<and>
   readRows keepsRows [exportRow english (exampleProduct \<lparr> prod_price := Fin 0 \<rparr>)] =
     Inr [exportRow english (exampleProduct \<lparr> prod_price := Fin 0 \<rparr>)] \<and>
   onload keepsRows exampleEngine english alwaysOk () exampleCategories exampleManufacturers
     [exampleProduct \<lparr> prod_price := Fin 0 \<rparr>]
     (Some [exportRow english (exampleProduct \<lparr> prod_price := Fin 0 \<rparr>)]) =
   (ActionError (''Import completed with errors.  See details below:'' @ [CHR 0x0A] @
                 ''- Row 2: Invalid Price \"0\". Must be a positive number.''),
    \<lparr> importedCount = 0, updatedCount = 0,
      errors = [''Row 2: Invalid Price \"0\". Must be a positive number.''],
      calls = [], remoteState = () \<rparr>)"
proof -
  let ?p = "exampleProduct \<lparr> prod_price := Fin 0 \<rparr>"
  have written: "handleExportProducts keepsRows english [?p] =
     (SuccessMessage ''Success! Products exported.'', Some [exportRow english ?p])"
    by (simp add: handleExportProducts_def keepsRows_def english_def)
  have readBack: "readRows keepsRows [exportRow english ?p] = Inr [exportRow english ?p]"
    by (simp add: keepsRows_def)
  have row: "validateRow exampleEngine (buildIndex exampleCategories exampleManufacturers [?p]) (0 + 2)
               (exportRow english ?p) =
             Inl ''Row 2: Invalid Price \"0\". Must be a positive number.''"
    by (simp add: eval_simps orElse_def exportRow_def)
  have "importRow exampleEngine alwaysOk (buildIndex exampleCategories exampleManufacturers [?p]) 0
          (exportRow english ?p) (initialState ()) =
        (initialState ()) \<lparr> errors := [''Row 2: Invalid Price \"0\". Must be a positive number.''] \<rparr>"
    using importRow_rejected [OF row, of alwaysOk "initialState ()"]
    by (simp add: initialState_def)
  then have "onload keepsRows exampleEngine english alwaysOk () exampleCategories exampleManufacturers
     [?p] (Some [exportRow english ?p]) =
   (ActionError (''Import completed with errors.  See details below:'' @ [CHR 0x0A] @
                 ''- Row 2: Invalid Price \"0\". Must be a positive number.''),
    \<lparr> importedCount = 0, updatedCount = 0,
      errors = [''Row 2: Invalid Price \"0\". Must be a positive number.''],
      calls = [], remoteState = () \<rparr>)"
    by (simp add: onload_def readBack handleFileImport_def finalNotice_def summaryMessage_def
          initialState_def Let_def)
  with written readBack show ?thesis by simp
qed

end
